theory Spec2Isabelle
  imports Main "HOL-Library.Word"
begin

unbundle bit_operations_syntax

section \<open>Shared data model\<close>

text \<open>
  A shallow embedding of the parts of \<^verbatim>\<open>numpy/core/src/umath/ufunc_object.c\<close> that plan and
  drive ufunc loops.  Pointers (\<^verbatim>\<open>char *\<close>) and \<^verbatim>\<open>npy_intp\<close> values are integers; the
  quantities compared below are array extents, strides and indices, none of which is
  computed by an operation that can wrap.  Memory is a store of items: the cell at the
  address of an item holds the bit pattern of the whole item, so \<^verbatim>\<open>memmove\<close> of one
  item is one cell assignment (partially overlapping items are outside the model).
\<close>

datatype operation = UFUNC_REDUCE | UFUNC_ACCUMULATE | UFUNC_REDUCEAT

definition reduce_type :: "operation \<Rightarrow> string" where
  "reduce_type operation =
     (case operation of UFUNC_REDUCE \<Rightarrow> ''reduce'' | UFUNC_ACCUMULATE \<Rightarrow> ''accumulate''
      | UFUNC_REDUCEAT \<Rightarrow> ''reduceat'')"

text \<open>The values of \<^verbatim>\<open>parse_error\<close> in \<^verbatim>\<open>_parse_signature\<close>, one constructor per message.\<close>

datatype parse_error =
    Expect_arrow
      \<comment> \<open>"expect '->'"\<close>
  | Expect_open_paren
      \<comment> \<open>"expect '('"\<close>
  | Unexpected_end
      \<comment> \<open>"unexpected end of signature string"\<close>
  | Expect_name_or_size
      \<comment> \<open>"expect dimension name or non-zero frozen size"\<close>
  | Question_mark_not_seen_before
      \<comment> \<open>"? cannot be used, name already seen without ?"\<close>
  | Question_mark_seen_before
      \<comment> \<open>"? must be used, name already seen with ?"\<close>
  | Expect_comma_or_close_paren
      \<comment> \<open>"expect ',' or ')'"\<close>
  | Comma_before_close_paren
      \<comment> \<open>"',' must not be followed by ')'"\<close>
  | Expect_comma
      \<comment> \<open>"expect ','"\<close>
  | Incomplete_signature
      \<comment> \<open>"incomplete signature: not all arguments found"\<close>

text \<open>The exceptions this file raises, one constructor per message, with the values the
  message is formatted with.\<close>

datatype error =
    IndexError_out_of_bounds int string string int
      \<comment> \<open>IndexError "index %d out-of-bounds in %s.%s [0, %d)": index, ufunc name, method,
          axis length\<close>
  | NoMatchingType string string int
      \<comment> \<open>ValueError "could not find a matching type for %s.%s, requested type has type code ..."\<close>
  | FunctionNotSupported
      \<comment> \<open>ValueError "function not supported"\<close>
  | ReductionWithSignature
      \<comment> \<open>RuntimeError "Reduction not defined on ufunc with signature"\<close>
  | OnlyBinary string
      \<comment> \<open>ValueError "%s only supported for binary functions"\<close>
  | OnlySingleValue string
      \<comment> \<open>ValueError "%s only supported for functions returning a single value"\<close>
  | OutTupleSize
      \<comment> \<open>ValueError "The 'out' tuple must have exactly one entry per ufunc output"\<close>
  | OutNotArray
      \<comment> \<open>TypeError "'out' must be a tuple of arrays" / "... an array or a tuple with a single array"\<close>
  | FlexibleType string
      \<comment> \<open>TypeError "cannot perform %s with flexible type"\<close>
  | TooManyAxisValues
      \<comment> \<open>ValueError "too many values for 'axis'"\<close>
  | DuplicateAxis
      \<comment> \<open>ValueError "duplicate value in 'axis'"\<close>
  | ScalarOperand string
      \<comment> \<open>TypeError "cannot accumulate on a scalar" / "cannot reduceat on a scalar"\<close>
  | MultipleAxes string
      \<comment> \<open>ValueError "accumulate does not allow multiple axes" / "reduceat does not ..."\<close>
  | AxisError int int
      \<comment> \<open>raised by \<^verbatim>\<open>check_and_adjust_axis\<close>: the axis and the number of dimensions\<close>
  | InvalidIdentity string
      \<comment> \<open>ValueError "ufunc %s has an invalid identity"\<close>
  | TypeResolutionNotImplemented string
      \<comment> \<open>RuntimeError "type resolution returned NotImplemented to reduce ufunc %s"\<close>
  | TypeResolutionMismatch string
      \<comment> \<open>RuntimeError "could not find a type resolution appropriate for reduce ufunc %s"\<close>
  | WrongOutSize
      \<comment> \<open>ValueError "provided out is the wrong size for the reduction"\<close>
  | CoreDimMismatch string string int int "string option" int int
      \<comment> \<open>ValueError "%s: %s operand %d has a mismatch in its core dimension %d, with gufunc
          signature %s (size %zd is different from %zd)": ufunc name, "Input" or "Output",
          operand number, core dimension, signature, the operand's size, the size on record\<close>
  | CoreDimUnspecified string int int "string option"
      \<comment> \<open>ValueError "%s: Output operand %d has core dimension %d unspecified, with gufunc
          signature %s"\<close>
  | ParseError parse_error nat string
      \<comment> \<open>ValueError "%s at position %d in ...": the message \<^verbatim>\<open>parse_error\<close>, the offset
          \<^verbatim>\<open>i\<close>, the signature\<close>
  | NullSignature
      \<comment> \<open>RuntimeError "_parse_signature with NULL signature"\<close>
  | NoMemory
      \<comment> \<open>\<^verbatim>\<open>PyErr_NoMemory()\<close>\<close>
  | Raised
      \<comment> \<open>an exception left set by an external collaborator (allocator, iterator, converter)\<close>
  | Undefined string
      \<comment> \<open>no exception: at the named expression the C code reads or writes through a pointer
          that is \<^verbatim>\<open>NULL\<close> or past the end of its array, and what it does from there on is not
          defined\<close>

record PyArray_Descr =
  type_num :: int
  elsize :: int
  isnbo :: bool

record PyArrayObject =
  data :: int
  dimensions :: "int list"
  strides :: "int list"
  descr :: PyArray_Descr
  flags :: int

text \<open>Type numbers and flag bits of \<^verbatim>\<open>ndarraytypes.h\<close>, which the source uses by name.\<close>

definition NPY_BOOL :: int where "NPY_BOOL = 0"
definition NPY_BYTE :: int where "NPY_BYTE = 1"
definition NPY_UBYTE :: int where "NPY_UBYTE = 2"
definition NPY_SHORT :: int where "NPY_SHORT = 3"
definition NPY_USHORT :: int where "NPY_USHORT = 4"
definition NPY_INT :: int where "NPY_INT = 5"
definition NPY_UINT :: int where "NPY_UINT = 6"
definition NPY_LONG :: int where "NPY_LONG = 7"
definition NPY_ULONG :: int where "NPY_ULONG = 8"
definition NPY_LONGLONG :: int where "NPY_LONGLONG = 9"
definition NPY_ULONGLONG :: int where "NPY_ULONGLONG = 10"
definition NPY_DOUBLE :: int where "NPY_DOUBLE = 12"
definition NPY_OBJECT :: int where "NPY_OBJECT = 17"
definition NPY_STRING :: int where "NPY_STRING = 18"
definition NPY_VOID :: int where "NPY_VOID = 20"
definition NPY_USERDEF :: int where "NPY_USERDEF = 256"

definition NPY_ARRAY_C_CONTIGUOUS :: int where "NPY_ARRAY_C_CONTIGUOUS = 1"
definition NPY_ARRAY_F_CONTIGUOUS :: int where "NPY_ARRAY_F_CONTIGUOUS = 2"
definition NPY_ARRAY_ALIGNED :: int where "NPY_ARRAY_ALIGNED = 256"

definition PyArray_NDIM :: "PyArrayObject \<Rightarrow> int" where
  "PyArray_NDIM a = int (length (dimensions a))"

definition PyArray_DIM :: "PyArrayObject \<Rightarrow> int \<Rightarrow> int" where
  "PyArray_DIM a i = dimensions a ! nat i"

definition PyArray_STRIDE :: "PyArrayObject \<Rightarrow> int \<Rightarrow> int" where
  "PyArray_STRIDE a i = strides a ! nat i"

definition PyArray_MultiplyList :: "int list \<Rightarrow> int" where
  "PyArray_MultiplyList l = fold (\<lambda>d s. s * d) l 1"

definition PyArray_SIZE :: "PyArrayObject \<Rightarrow> int" where
  "PyArray_SIZE a = PyArray_MultiplyList (dimensions a)"

definition PyArray_ISALIGNED :: "PyArrayObject \<Rightarrow> bool" where
  "PyArray_ISALIGNED a = (flags a AND NPY_ARRAY_ALIGNED \<noteq> 0)"

definition PyTypeNum_ISUSERDEF :: "int \<Rightarrow> bool" where
  "PyTypeNum_ISUSERDEF t = (t \<ge> NPY_USERDEF)"

subsection \<open>The store, reference counts and the kernel\<close>

datatype event =
    Ev_iterator_new
  | Ev_allocate "int list"
  | Ev_prepare
  | Ev_kernel "int list" int "int list"
      \<comment> \<open>one call of the inner loop: data pointers, count, strides\<close>

record state =
  mem :: "int \<Rightarrow> int"
  ob_refcnt :: "int \<Rightarrow> int"
  dealloc :: "int list"
  err :: bool
  trace :: "event list"

text \<open>\<^verbatim>\<open>Py_XINCREF\<close>/\<^verbatim>\<open>Py_XDECREF\<close> on an object pointer; \<open>0\<close> is \<^verbatim>\<open>NULL\<close>.  An object
  whose count reaches zero is deallocated at that moment.\<close>

definition Py_XINCREF :: "int \<Rightarrow> state \<Rightarrow> state" where
  "Py_XINCREF p st =
     (if p = 0 then st else st\<lparr>ob_refcnt := (ob_refcnt st)(p := ob_refcnt st p + 1)\<rparr>)"

definition Py_XDECREF :: "int \<Rightarrow> state \<Rightarrow> state" where
  "Py_XDECREF p st =
     (if p = 0 then st
      else let r = ob_refcnt st p - 1;
               st1 = st\<lparr>ob_refcnt := (ob_refcnt st)(p := r)\<rparr>
           in if r = 0 then st1\<lparr>dealloc := dealloc st1 @ [p]\<rparr> else st1)"

definition memmove_item :: "int \<Rightarrow> int \<Rightarrow> state \<Rightarrow> state" where
  "memmove_item dst src st = st\<lparr>mem := (mem st)(dst := mem st src)\<rparr>"

text \<open>
  Modelled from the spec: the numeric kernels live outside this file and are "opaque
  pluggable functions" of shape \<^verbatim>\<open>(data_ptrs[], counts[], strides[], aux_data) -> void\<close>.
  A binary kernel is given by its element operation \<open>f\<close>; it visits \<open>count\<close> items,
  reads the two inputs and writes the output, advancing every pointer by its stride.  An
  element operation that raises (\<open>None\<close>) sets the error indicator and ends the call.
\<close>

type_synonym kernel = "int \<Rightarrow> int \<Rightarrow> int option"

fun binary_loop :: "kernel \<Rightarrow> nat \<Rightarrow> int \<times> int \<times> int \<Rightarrow> int \<times> int \<times> int \<Rightarrow> state \<Rightarrow> state" where
  "binary_loop f 0 d s st = st"
| "binary_loop f (Suc n) (d0, d1, d2) (s0, s1, s2) st =
     (case f (mem st d0) (mem st d1) of
        None \<Rightarrow> st\<lparr>err := True\<rparr>
      | Some v \<Rightarrow> binary_loop f n (d0 + s0, d1 + s1, d2 + s2) (s0, s1, s2)
                    (st\<lparr>mem := (mem st)(d2 := v)\<rparr>))"

definition innerloop :: "kernel \<Rightarrow> int \<times> int \<times> int \<Rightarrow> int \<Rightarrow> int \<times> int \<times> int \<Rightarrow> state \<Rightarrow> state" where
  "innerloop f d count s st =
     binary_loop f (nat count) d s
       (st\<lparr>trace := trace st @
          [Ev_kernel (case d of (d0, d1, d2) \<Rightarrow> [d0, d1, d2]) count
             (case s of (s0, s1, s2) \<Rightarrow> [s0, s1, s2])]\<rparr>)"

text \<open>The block that seeds a running fold; it occurs verbatim in both loops of
  \<^verbatim>\<open>PyUFunc_Accumulate\<close> and in both loops of \<^verbatim>\<open>PyUFunc_Reduceat\<close>.\<close>

definition copy_first_element :: "int \<Rightarrow> int \<Rightarrow> int \<Rightarrow> state \<Rightarrow> state" where
  "copy_first_element otype d0 d1 st =
     (if otype = NPY_OBJECT then
        (let st1 = Py_XINCREF (mem st d1) st;
             st2 = Py_XDECREF (mem st1 d0) st1
         in st2\<lparr>mem := (mem st2)(d0 := mem st2 d1)\<rparr>)
      else memmove_item d0 d1 st)"

subsection \<open>The operation descriptor and its collaborators\<close>

datatype pyobject = Py_None | Py_Long int | Py_Object int

definition PyUFunc_One :: int where "PyUFunc_One = 1"
definition PyUFunc_Zero :: int where "PyUFunc_Zero = 0"
definition PyUFunc_MinusOne :: int where "PyUFunc_MinusOne = 2"
definition PyUFunc_None :: int where "PyUFunc_None = - 1"
definition PyUFunc_ReorderableNone :: int where "PyUFunc_ReorderableNone = - 2"
definition PyUFunc_IdentityValue :: int where "PyUFunc_IdentityValue = - 3"

text \<open>What looking \<^verbatim>\<open>*otype\<close> up in \<^verbatim>\<open>ufunc->userloops\<close> comes to: \<^verbatim>\<open>PyLong_FromLong\<close> gives
  no key; \<^verbatim>\<open>PyDict_GetItemWithError\<close> gives \<^verbatim>\<open>NULL\<close> with an exception set, or \<^verbatim>\<open>NULL\<close> without
  one; or it gives a capsule, whose pointer is the linked list of loops (\<^verbatim>\<open>NULL\<close> is the
  empty list).\<close>

datatype userloops_lookup =
    Key_failed
  | Lookup_raised
  | Lookup_absent
  | Lookup_capsule "(int list \<times> kernel) list"

record PyUFuncObject =
  nin :: int
  nout :: int
  name :: "string option"
  core_enabled :: bool
  loops :: "(int list \<times> kernel) list"
    \<comment> \<open>row \<open>i\<close> pairs \<^verbatim>\<open>types + i*nargs\<close> with \<^verbatim>\<open>functions[i]\<close>\<close>
  userloops :: "(int \<Rightarrow> userloops_lookup) option"
    \<comment> \<open>the dict from a user type number to its list of \<^verbatim>\<open>PyUFunc_Loop1d\<close> entries, with
        the outcome of looking a type number up in it\<close>
  identity :: int
  identity_value :: pyobject
  type_resolver :: "PyArrayObject \<Rightarrow> PyArray_Descr option \<Rightarrow> int \<times> PyArray_Descr list"
    \<comment> \<open>called on \<^verbatim>\<open>{arr, arr, NULL}\<close> with the type tuple \<^verbatim>\<open>(odtype, odtype, None)\<close>;
        gives the return code and the three resolved descriptors\<close>
  core_num_dim_ix :: int
    \<comment> \<open>number of distinct core dimension names in the signature\<close>
  core_num_dims :: "int list"
    \<comment> \<open>number of core dimensions of each argument\<close>
  core_dim_ixs :: "int list"
    \<comment> \<open>dimension indices of all arguments, in a flattened form\<close>
  core_offsets :: "int list"
    \<comment> \<open>position of the first core dimension of each argument in \<^verbatim>\<open>core_dim_ixs\<close>\<close>
  core_signature :: "string option"
  core_dim_sizes :: "int list"
    \<comment> \<open>for each distinct core dimension, the frozen size, or -1 if unset\<close>
  core_dim_flags :: "32 word list"

definition ufunc_get_name_cstr :: "PyUFuncObject \<Rightarrow> string" where
  "ufunc_get_name_cstr ufunc = (case name ufunc of Some n \<Rightarrow> n | None \<Rightarrow> ''<unnamed ufunc>'')"

text \<open>What \<^verbatim>\<open>NpyIter_AdvancedNew\<close> hands back, as far as this file looks at it: the operand
  arrays (after a possible copy or allocation), the data pointers of operands 0 and 1 at
  each step of the outer iteration, and the outcome of the calls made on the iterator.\<close>

record NpyIter =
  it_operands :: "PyArrayObject list"
  it_points :: "(int \<times> int) list"
  it_needs_api :: bool
  it_remove_axis_ok :: bool
  it_remove_multi_index_ok :: bool
  it_iternext_ok :: bool
  it_deallocate_ok :: bool

text \<open>The iterator of the elementwise loop: at each step it exposes the data pointers of
  all operands, the inner count and the inner strides.\<close>

record loop_iter =
  li_operands :: "PyArrayObject list"
  li_size :: int
  li_blocks :: "(int list \<times> int \<times> int list) list"
  li_needs_api :: bool
  li_reset_ok :: bool
  li_iternext_ok :: bool
  li_deallocate_ok :: bool

datatype operand = Op_null | Op_array PyArrayObject | Op_indices "int list"

text \<open>The Python object passed as \<^verbatim>\<open>out\<close>.\<close>

datatype out_obj = Obj_None | Obj_array PyArrayObject | Obj_tuple "out_obj list" | Obj_other

text \<open>The functions of other files that the reductions call, taken as parameters.\<close>

record collab =
  get_bufsize_errmask_ok :: bool
  PyTuple_Pack_ok :: bool
  CanCastSafely :: "int \<Rightarrow> int \<Rightarrow> bool"
  DescrFromType :: "int \<Rightarrow> PyArray_Descr option"
  DescrNewByteorder :: "PyArray_Descr \<Rightarrow> PyArray_Descr option"
  EquivTypes :: "PyArray_Descr \<Rightarrow> PyArray_Descr \<Rightarrow> bool"
  REFCHK :: "PyArray_Descr \<Rightarrow> bool"
  cast_item :: "PyArray_Descr \<Rightarrow> PyArray_Descr \<Rightarrow> int \<Rightarrow> int"
    \<comment> \<open>the cast of one item from the first element type to the second\<close>
  NewFromDescr :: "PyArray_Descr \<Rightarrow> int list \<Rightarrow> bool \<Rightarrow> PyArrayObject option"
    \<comment> \<open>\<^verbatim>\<open>PyArray_NewFromDescr\<close>: descriptor, shape, Fortran order\<close>
  NpyIter_AdvancedNew :: "operand list \<Rightarrow> PyArray_Descr list \<Rightarrow> int list list \<Rightarrow> NpyIter option"
  solve_may_share_memory :: "PyArrayObject \<Rightarrow> PyArrayObject \<Rightarrow> int"
  sizeof_long :: int
  overlap_ok :: "PyArrayObject \<Rightarrow> PyArrayObject \<Rightarrow> bool"
    \<comment> \<open>\<^verbatim>\<open>PyArray_EQUIVALENTLY_ITERABLE_OVERLAP_OK\<close> of an input and the output\<close>
  NpyIter_AdvancedNew_elementwise ::
    "PyArrayObject option list \<Rightarrow> PyArray_Descr list \<Rightarrow> int \<Rightarrow> int \<Rightarrow> loop_iter option"
    \<comment> \<open>the iterator of \<^verbatim>\<open>iterator_loop\<close>: operands, dtypes, order, buffersize\<close>
  ReduceWrapper ::
    "PyArrayObject \<Rightarrow> PyArrayObject option \<Rightarrow> PyArrayObject option \<Rightarrow> PyArray_Descr \<Rightarrow>
     bool list \<Rightarrow> bool \<Rightarrow> int \<Rightarrow> pyobject \<Rightarrow> state \<Rightarrow> PyArrayObject option \<times> state"
    \<comment> \<open>\<^verbatim>\<open>PyUFunc_ReduceWrapper\<close>: operand, out, wheremask, dtype, axis flags, reorderable,
        keepdims, initial\<close>
  array_wrap_ok :: bool
  OutputConverter :: "out_obj \<Rightarrow> PyArrayObject option option"
    \<comment> \<open>\<^verbatim>\<open>PyArray_OutputConverter\<close>: \<open>None\<close> when it fails, else the array or \<^verbatim>\<open>NULL\<close>\<close>

definition NpyIter_GetIterSize :: "NpyIter \<Rightarrow> int" where
  "NpyIter_GetIterSize it = int (length (it_points it))"

subsection \<open>The copies made for the outer iterator\<close>

text \<open>
  Modelled from the spec: the outer iterator is built and torn down in another file.  The
  reductions ask it for \<^verbatim>\<open>NPY_ITER_COPY\<close> of the input and \<^verbatim>\<open>NPY_ITER_UPDATEIFCOPY\<close> of the
  output.  Of these the specification says that "any operand mismatch of
  dtype/alignment/overlap forces an explicit copy (input) or an update-on-completion
  copy-back (output)", that "the engine transparently substitutes a private temporary copy
  for the duration of the call and copies results back at teardown", that the teardown
  "always runs on both success and failure paths", and that the elements of a
  reference-counted kind are acquired and released "at every point where it moves or
  overwrites an element of that kind (initial accumulate copy, output substitution,
  temporary buffer teardown)".

  An operand that the iterator reports in place of the array it was given is such a
  temporary.  It is filled, item by item, with the cast items of the array it stands for
  (the output is read as well as written, so its temporary is filled too); at teardown the
  temporary of the output is copied back, and the references a temporary holds are dropped.
  An item is copied when its index exists in both arrays: the temporary has the shape of
  the array it stands for, so that is every item.
\<close>

primrec indices_of :: "int list \<Rightarrow> int list list" where
  "indices_of [] = [[]]"
| "indices_of (n # shape) = concat (map (\<lambda>i. map ((#) i) (indices_of shape)) [0..n - 1])"

definition item_address :: "PyArrayObject \<Rightarrow> int list \<Rightarrow> int" where
  "item_address a idx = data a + sum_list (map2 (*) idx (strides a))"

definition shared_indices :: "PyArrayObject \<Rightarrow> PyArrayObject \<Rightarrow> int list list" where
  "shared_indices a b =
     filter (\<lambda>idx. idx \<in> set (indices_of (dimensions b))) (indices_of (dimensions a))"

text \<open>One item of \<open>src\<close> cast into \<open>dst\<close>.  With \<open>release\<close> the reference that the item of
  \<open>dst\<close> held is dropped; a temporary that has just been made holds none.\<close>

definition assign_item ::
  "collab \<Rightarrow> bool \<Rightarrow> PyArrayObject \<Rightarrow> PyArrayObject \<Rightarrow> int list \<Rightarrow> state \<Rightarrow> state" where
  "assign_item c release dst src idx st =
     (let v = cast_item c (descr src) (descr dst) (mem st (item_address src idx));
          d = item_address dst idx;
          st1 = (if REFCHK c (descr dst) then Py_XINCREF v st else st);
          st2 = (if REFCHK c (descr dst) \<and> release then Py_XDECREF (mem st1 d) st1 else st1)
      in st2\<lparr>mem := (mem st2)(d := v)\<rparr>)"

definition assign_array ::
  "collab \<Rightarrow> bool \<Rightarrow> PyArrayObject \<Rightarrow> PyArrayObject \<Rightarrow> state \<Rightarrow> state" where
  "assign_array c release dst src st =
     fold (assign_item c release dst src) (shared_indices dst src) st"

text \<open>The teardown of a temporary: the references its items hold are dropped.\<close>

definition release_array :: "collab \<Rightarrow> PyArrayObject \<Rightarrow> state \<Rightarrow> state" where
  "release_array c tmp st =
     (if REFCHK c (descr tmp)
      then fold (\<lambda>idx s. Py_XDECREF (mem s (item_address tmp idx)) s)
             (indices_of (dimensions tmp)) st
      else st)"

text \<open>What building the iterator stores, given the output (if any) and the input it was
  built for.\<close>

definition iterator_copy_in ::
  "collab \<Rightarrow> PyArrayObject option \<Rightarrow> PyArrayObject \<Rightarrow> NpyIter \<Rightarrow> state \<Rightarrow> state" where
  "iterator_copy_in c out arr it st =
     (let op0 = it_operands it ! 0; op1 = it_operands it ! 1;
          st1 = (case out of
                   None \<Rightarrow> st
                 | Some a \<Rightarrow> if op0 = a then st else assign_array c False op0 a st)
      in if op1 = arr then st1 else assign_array c False op1 arr st1)"

text \<open>\<^verbatim>\<open>NpyIter_Deallocate(iter)\<close>, with the output (if any) and the input the iterator was
  built for: the status it returns and what it stores.\<close>

definition NpyIter_Deallocate ::
  "collab \<Rightarrow> PyArrayObject option \<Rightarrow> PyArrayObject \<Rightarrow> NpyIter option \<Rightarrow> state \<Rightarrow>
   bool \<times> state" where
  "NpyIter_Deallocate c out arr iter st =
     (case iter of
        None \<Rightarrow> (True, st)
      | Some it \<Rightarrow>
          (let op0 = it_operands it ! 0; op1 = it_operands it ! 1;
               st1 = (case out of
                        None \<Rightarrow> st
                      | Some a \<Rightarrow>
                          if op0 = a then st
                          else release_array c op0 (assign_array c True a op0 st));
               st2 = (if op1 = arr then st1 else release_array c op1 st1)
           in (it_deallocate_ok it, st2)))"

subsection \<open>\<^verbatim>\<open>get_binary_op_function\<close>\<close>

fun search_userloops :: "int \<Rightarrow> (int list \<times> kernel) list \<Rightarrow> kernel option" where
  "search_userloops otype [] = None"
| "search_userloops otype ((types, func) # funcdata) =
     (if types ! 0 = otype \<and> types ! 1 = otype \<and> types ! 2 = otype then Some func
      else search_userloops otype funcdata)"

text \<open>The first search: \<open>Inl\<close> is a loop found, \<open>Inr\<close> the (possibly replaced) \<^verbatim>\<open>*otype\<close>
  with which the second search runs.\<close>

fun search_compatible :: "(int \<Rightarrow> int \<Rightarrow> bool) \<Rightarrow> int \<Rightarrow> (int list \<times> kernel) list \<Rightarrow> (int \<times> kernel) + int" where
  "search_compatible cc otype [] = Inr otype"
| "search_compatible cc otype ((types, func) # rest) =
     (if cc otype (types ! 0) \<and> types ! 0 = types ! 1 \<and>
         (otype = NPY_OBJECT \<or> types ! 0 \<noteq> NPY_OBJECT)
      then (if types ! 2 = types ! 0 then Inl (types ! 0, func) else Inr (types ! 2))
      else search_compatible cc otype rest)"

fun search_exact :: "(int \<Rightarrow> int \<Rightarrow> bool) \<Rightarrow> int \<Rightarrow> (int list \<times> kernel) list \<Rightarrow> (int \<times> kernel) option" where
  "search_exact cc otype [] = None"
| "search_exact cc otype ((types, func) # rest) =
     (if cc otype (types ! 0) \<and> types ! 0 = types ! 1 \<and> types ! 1 = types ! 2 \<and>
         (otype = NPY_OBJECT \<or> types ! 0 \<noteq> NPY_OBJECT)
      then Some (types ! 0, func)
      else search_exact cc otype rest)"

text \<open>The result is \<open>None\<close> where the function returns -1, else the final \<^verbatim>\<open>*otype\<close> and the
  loop.\<close>

definition get_binary_op_function :: "collab \<Rightarrow> PyUFuncObject \<Rightarrow> int \<Rightarrow> (int \<times> kernel) option" where
  "get_binary_op_function c ufunc otype =
     (let search =
            (case search_compatible (CanCastSafely c) otype (loops ufunc) of
               Inl found \<Rightarrow> Some found
             | Inr otype' \<Rightarrow> search_exact (CanCastSafely c) otype' (loops ufunc))
      in case userloops ufunc of
           None \<Rightarrow> search
         | Some dict \<Rightarrow>
             if \<not> PyTypeNum_ISUSERDEF otype then search
             else (case dict otype of
                     Key_failed \<Rightarrow> None
                   | Lookup_raised \<Rightarrow> None
                   | Lookup_absent \<Rightarrow> search
                   | Lookup_capsule funcdata \<Rightarrow>
                       if funcdata = [] then None
                       else (case search_userloops otype funcdata of
                               Some func \<Rightarrow> Some (otype, func)
                             | None \<Rightarrow> search)))"

text \<open>The output descriptor of accumulate and reduceat: the input's own descriptor when
  the type number did not change (in native byte order), else the canonical one.\<close>

definition reduction_out_descr :: "collab \<Rightarrow> PyArrayObject \<Rightarrow> int \<Rightarrow> PyArray_Descr option" where
  "reduction_out_descr c arr otype_final =
     (if type_num (descr arr) = otype_final then
        (if isnbo (descr arr) then Some (descr arr) else DescrNewByteorder c (descr arr))
      else DescrFromType c otype_final)"

subsection \<open>\<^verbatim>\<open>PyUFunc_Reduceat\<close>\<close>

text \<open>The bounds check on the indices; the result is the first index out of bounds.\<close>

fun check_indices :: "int list \<Rightarrow> int \<Rightarrow> int option" where
  "check_indices [] red_axis_size = None"
| "check_indices (x # xs) red_axis_size =
     (if x < 0 \<or> x \<ge> red_axis_size then Some x else check_indices xs red_axis_size)"

text \<open>\<^verbatim>\<open>for (i = 0; i < n; ++i) body\<close>.\<close>

function for_upto :: "(nat \<Rightarrow> state \<Rightarrow> state) \<Rightarrow> nat \<Rightarrow> nat \<Rightarrow> state \<Rightarrow> state" where
  "for_upto body n i st = (if i < n then for_upto body n (i + 1) (body i st) else st)"
  by pat_completeness auto
termination
  by (relation "measure (\<lambda>(body, n, i, st). n - i)") auto

declare for_upto.simps [simp del]

text \<open>\<^verbatim>\<open>do body while (!(needs_api && PyErr_Occurred()) && iternext(iter))\<close> over the points
  of an iterator of non-zero size.\<close>

fun do_while_iternext :: "(int \<times> int \<Rightarrow> state \<Rightarrow> state) \<Rightarrow> bool \<Rightarrow> (int \<times> int) list \<Rightarrow> state \<Rightarrow> state" where
  "do_while_iternext body needs_api [] st = st"
| "do_while_iternext body needs_api (dataptr # rest) st =
     (let st1 = body dataptr st
      in if needs_api \<and> err st1 then st1 else do_while_iternext body needs_api rest st1)"

text \<open>One segment: the body of the loop over \<open>i\<close>.  \<open>end_last\<close> is the end of the last
  segment (\<^verbatim>\<open>count_m1+1\<close> with the iterator, \<^verbatim>\<open>PyArray_DIM(arr,axis)\<close> without).\<close>

definition reduceat_segment ::
  "kernel \<Rightarrow> int \<Rightarrow> int list \<Rightarrow> int \<Rightarrow> int \<Rightarrow> int \<Rightarrow> int \<times> int \<Rightarrow> nat \<Rightarrow> state \<Rightarrow> state" where
  "reduceat_segment f otype reduceat_ind end_last stride0_ind stride1 dataptr i st =
     (let start = reduceat_ind ! i;
          end_i = (if int i = int (length reduceat_ind) - 1 then end_last
                   else reduceat_ind ! (i + 1));
          count = end_i - start;
          d0 = fst dataptr + stride0_ind * int i;
          d1 = snd dataptr + stride1 * start;
          d2 = fst dataptr + stride0_ind * int i;
          st1 = copy_first_element otype d0 d1 st
      in if count > 1
         then innerloop f (d0, d1 + stride1, d2) (count - 1) (0, stride1, 0) st1
         else st1)"

definition reduceat_op_axes :: "int \<Rightarrow> int \<Rightarrow> int list list" where
  "reduceat_op_axes ndim axis =
     [map (\<lambda>idim. if idim = axis then axis else idim) [0..ndim - 1],
      map (\<lambda>idim. if idim = axis then - 1 else idim) [0..ndim - 1],
      map (\<lambda>idim. if idim = axis then 0 else - 1) [0..ndim - 1]]"

text \<open>From the test on the output's size to the end, with the iterator (if any) and the
  operands settled.\<close>

definition reduceat_run ::
  "collab \<Rightarrow> kernel \<Rightarrow> int \<Rightarrow> PyArray_Descr \<Rightarrow> PyArrayObject \<Rightarrow> int list \<Rightarrow>
   PyArrayObject option \<Rightarrow> int \<Rightarrow> NpyIter option \<Rightarrow> PyArrayObject \<Rightarrow> PyArrayObject \<Rightarrow>
   PyArrayObject \<Rightarrow> state \<Rightarrow> (error + PyArrayObject) \<times> state" where
  "reduceat_run c f otype dtype0 arr reduceat_ind given axis iter op0 op1 out st =
     (let ind_size = length reduceat_ind;
          finish = (\<lambda>st'. case NpyIter_Deallocate c given arr iter st' of
                             (ok, st'') \<Rightarrow> if \<not> ok then (Inl Raised, st'') else (Inr out, st''));
          fail = (\<lambda>e st'. (Inl e, snd (NpyIter_Deallocate c given arr iter st')))
      in if PyArray_SIZE op0 = 0 then finish st
         else (case iter of
                 Some it \<Rightarrow>
                   if NpyIter_GetIterSize it \<noteq> 0 then
                     (if \<not> it_iternext_ok it then fail Raised st
                      else let count_m1 = PyArray_DIM op1 axis - 1;
                               stride1 = PyArray_STRIDE op1 axis;
                               stride0_ind = PyArray_STRIDE op0 axis
                           in finish (do_while_iternext
                                (\<lambda>dataptr. for_upto
                                   (reduceat_segment f otype reduceat_ind (count_m1 + 1)
                                      stride0_ind stride1 dataptr) ind_size 0)
                                (it_needs_api it) (it_points it) st))
                   else finish st
               | None \<Rightarrow>
                   let stride0_ind = PyArray_STRIDE op0 axis;
                       stride1 = PyArray_STRIDE op1 axis
                   in finish (for_upto
                        (reduceat_segment f otype reduceat_ind (PyArray_DIM arr axis)
                           stride0_ind stride1 (data op0, data op1)) ind_size 0 st)))"

text \<open>The value of \<^verbatim>\<open>need_outer_iterator\<close> once the output descriptor is known.\<close>

definition reduceat_need_outer_iterator ::
  "collab \<Rightarrow> PyArrayObject \<Rightarrow> PyArrayObject option \<Rightarrow> PyArray_Descr \<Rightarrow> bool" where
  "reduceat_need_outer_iterator c arr out dtype0 =
     (out \<noteq> None \<or> PyArray_NDIM arr > 1 \<or> \<not> PyArray_ISALIGNED arr \<or>
      \<not> EquivTypes c dtype0 (descr arr))"

text \<open>From the buffer-size lookup to the point where the operands are settled: the kernel,
  the output descriptor, the outer iterator if there is one, \<^verbatim>\<open>op[0]\<close>, \<^verbatim>\<open>op[1]\<close> and \<^verbatim>\<open>out\<close>.\<close>

definition reduceat_setup ::
  "collab \<Rightarrow> PyUFuncObject \<Rightarrow> PyArrayObject \<Rightarrow> int list \<Rightarrow> PyArrayObject option \<Rightarrow> int \<Rightarrow> int \<Rightarrow>
   state \<Rightarrow>
   (error + kernel \<times> PyArray_Descr \<times> NpyIter option \<times> PyArrayObject \<times> PyArrayObject \<times> PyArrayObject)
     \<times> state" where
  "reduceat_setup c ufunc arr reduceat_ind out axis otype st =
     (let ind_size = int (length reduceat_ind)
      in if \<not> get_bufsize_errmask_ok c then (Inl Raised, st)
         else (case get_binary_op_function c ufunc otype of
             None \<Rightarrow> (Inl (NoMatchingType (ufunc_get_name_cstr ufunc) ''reduceat'' otype), st)
           | Some (otype_final, f) \<Rightarrow>
               (case reduction_out_descr c arr otype_final of
                  None \<Rightarrow> (Inl Raised, st)
                | Some dtype0 \<Rightarrow>
                    let ndim = PyArray_NDIM arr
                    in if reduceat_need_outer_iterator c arr out dtype0 then
                         (let st1 = st\<lparr>trace := trace st @ [Ev_iterator_new]\<rparr>
                          in case NpyIter_AdvancedNew c
                                 [case out of None \<Rightarrow> Op_null | Some a \<Rightarrow> Op_array a,
                                  Op_array arr, Op_indices reduceat_ind]
                                 [dtype0, dtype0] (reduceat_op_axes ndim axis) of
                             None \<Rightarrow> (Inl Raised, st1)
                           | Some it \<Rightarrow>
                               let st2 = iterator_copy_in c out arr it st1;
                                   fail = (Inl Raised,
                                           snd (NpyIter_Deallocate c out arr (Some it) st2))
                               in if \<not> it_remove_axis_ok it then fail
                                  else if \<not> it_remove_multi_index_ok it then fail
                                  else (Inr (f, dtype0, Some it, it_operands it ! 0,
                                             it_operands it ! 1,
                                             (case out of None \<Rightarrow> it_operands it ! 0
                                              | Some a \<Rightarrow> a)),
                                        st2))
                       else
                         (case out of
                            None \<Rightarrow>
                              (let st1 = st\<lparr>trace := trace st @ [Ev_allocate [ind_size]]\<rparr>
                               in case NewFromDescr c dtype0 [ind_size] False of
                                    None \<Rightarrow> (Inl Raised, st1)
                                  | Some new \<Rightarrow> (Inr (f, dtype0, None, new, arr, new), st1))
                          | Some a \<Rightarrow> (Inr (f, dtype0, None, a, arr, a), st)))))"

definition PyUFunc_Reduceat ::
  "collab \<Rightarrow> PyUFuncObject \<Rightarrow> PyArrayObject \<Rightarrow> int list \<Rightarrow> PyArrayObject option \<Rightarrow> int \<Rightarrow> int \<Rightarrow>
   state \<Rightarrow> (error + PyArrayObject) \<times> state" where
  "PyUFunc_Reduceat c ufunc arr reduceat_ind out axis otype st =
     (let red_axis_size = PyArray_DIM arr axis
      in case check_indices reduceat_ind red_axis_size of
           Some bad \<Rightarrow>
             (Inl (IndexError_out_of_bounds bad (ufunc_get_name_cstr ufunc) ''reduceat''
                     red_axis_size), st)
         | None \<Rightarrow>
             (case reduceat_setup c ufunc arr reduceat_ind out axis otype st of
                (Inl e, st1) \<Rightarrow> (Inl e, st1)
              | (Inr (f, dtype0, iter, op0, op1, out'), st1) \<Rightarrow>
                  reduceat_run c f otype dtype0 arr reduceat_ind out axis iter op0 op1 out'
                    st1))"

definition PyArray_CompareLists :: "int list \<Rightarrow> int list \<Rightarrow> int \<Rightarrow> bool" where
  "PyArray_CompareLists l1 l2 n = (take (nat n) l1 = take (nat n) l2)"

subsection \<open>The elementwise loops\<close>

definition NPY_CORDER :: int where "NPY_CORDER = 0"
definition NPY_FORTRANORDER :: int where "NPY_FORTRANORDER = 1"

definition PyArray_ITEMSIZE :: "PyArrayObject \<Rightarrow> int" where
  "PyArray_ITEMSIZE a = elsize (descr a)"

text \<open>
  Modelled from the spec: a kernel of any arity, the "plain strided kernel
  \<^verbatim>\<open>(data_ptrs[], counts[], strides[], aux_data) -> void\<close>".  The last pointer is the output;
  the element operation \<open>g\<close> maps the input items to the output item.
\<close>

type_synonym nkernel = "int list \<Rightarrow> int option"

fun strided_loop :: "nkernel \<Rightarrow> nat \<Rightarrow> int list \<Rightarrow> int list \<Rightarrow> state \<Rightarrow> state" where
  "strided_loop g 0 d s st = st"
| "strided_loop g (Suc n) d s st =
     (case g (map (mem st) (butlast d)) of
        None \<Rightarrow> st\<lparr>err := True\<rparr>
      | Some v \<Rightarrow> strided_loop g n (map2 (+) d s) s (st\<lparr>mem := (mem st)(last d := v)\<rparr>))"

definition innerloop_n :: "nkernel \<Rightarrow> int list \<Rightarrow> int \<Rightarrow> int list \<Rightarrow> state \<Rightarrow> state" where
  "innerloop_n g d count s st =
     strided_loop g (nat count) d s (st\<lparr>trace := trace st @ [Ev_kernel d count s]\<rparr>)"

text \<open>What a call of \<^verbatim>\<open>__array_prepare__\<close> gives.\<close>

datatype prepared = Prep_raised | Prep_not_array | Prep_array PyArrayObject

text \<open>\<^verbatim>\<open>prepare_ufunc_output\<close>: the new \<^verbatim>\<open>*op\<close>, or \<open>None\<close> for the return value -1.\<close>

definition prepare_ufunc_output ::
  "collab \<Rightarrow> PyArrayObject \<Rightarrow> (PyArrayObject \<Rightarrow> prepared) option \<Rightarrow> state \<Rightarrow>
   PyArrayObject option \<times> state" where
  "prepare_ufunc_output c op arr_prep st =
     (case arr_prep of
        None \<Rightarrow> (Some op, st)
      | Some hook \<Rightarrow>
          (let st1 = st\<lparr>trace := trace st @ [Ev_prepare]\<rparr>
           in case hook op of
                Prep_raised \<Rightarrow> (None, st1)
              | Prep_not_array \<Rightarrow> (None, st1)
              | Prep_array arr \<Rightarrow>
                  if arr = op then (Some op, st1)
                  else if PyArray_NDIM arr \<noteq> PyArray_NDIM op \<or>
                          \<not> PyArray_CompareLists (dimensions arr) (dimensions op) (PyArray_NDIM arr) \<or>
                          \<not> PyArray_CompareLists (strides arr) (strides op) (PyArray_NDIM arr) \<or>
                          \<not> EquivTypes c (descr arr) (descr op)
                  then (None, st1)
                  else (Some arr, st1)))"

text \<open>The first loop of \<^verbatim>\<open>try_trivial_single_output_loop\<close>, over the operands from \<open>iop\<close> on,
  with the values of \<^verbatim>\<open>operation_order\<close>, \<^verbatim>\<open>operation_ndim\<close>, \<^verbatim>\<open>operation_shape\<close> and
  \<^verbatim>\<open>fixed_strides\<close> so far; \<open>None\<close> is the return value -2.\<close>

fun scan_operands ::
  "PyArrayObject option list \<Rightarrow> nat \<Rightarrow> int \<Rightarrow> int \<Rightarrow> int list \<Rightarrow> int list \<Rightarrow>
   (int \<times> int \<times> int list \<times> int list) option" where
  "scan_operands [] iop operation_order operation_ndim operation_shape fixed_strides =
     Some (operation_order, operation_ndim, operation_shape, fixed_strides)"
| "scan_operands (None # ops) iop operation_order operation_ndim operation_shape fixed_strides =
     scan_operands ops (iop + 1) operation_order operation_ndim operation_shape fixed_strides"
| "scan_operands (Some a # ops) iop operation_order operation_ndim operation_shape fixed_strides =
     (let op_ndim = PyArray_NDIM a
      in if op_ndim = 0
         then scan_operands ops (iop + 1) operation_order operation_ndim operation_shape
                (fixed_strides[iop := 0])
         else if operation_ndim \<noteq> 0 \<and> op_ndim \<noteq> operation_ndim then None
         else if operation_ndim \<noteq> 0 \<and>
                 \<not> PyArray_CompareLists operation_shape (dimensions a) op_ndim then None
         else
           (let ndim' = (if operation_ndim = 0 then op_ndim else operation_ndim);
                shape' = (if operation_ndim = 0 then dimensions a else operation_shape)
            in if op_ndim = 1
               then scan_operands ops (iop + 1) operation_order ndim' shape'
                      (fixed_strides[iop := strides a ! 0])
               else
                 (let op_order = flags a AND (NPY_ARRAY_C_CONTIGUOUS OR NPY_ARRAY_F_CONTIGUOUS)
                  in if op_order = 0 then None
                     else if operation_order = 0
                     then scan_operands ops (iop + 1) op_order ndim' shape'
                            (fixed_strides[iop := PyArray_ITEMSIZE a])
                     else if operation_order \<noteq> op_order then None
                     else scan_operands ops (iop + 1) operation_order ndim' shape'
                            (fixed_strides[iop := PyArray_ITEMSIZE a]))))"

text \<open>"If any input overlaps with the output, we use the full path."\<close>

fun any_bad_overlap :: "collab \<Rightarrow> PyArrayObject option list \<Rightarrow> PyArrayObject \<Rightarrow> bool" where
  "any_bad_overlap c [] out = False"
| "any_bad_overlap c (None # ins) out = any_bad_overlap c ins out"
| "any_bad_overlap c (Some a # ins) out =
     (if \<not> overlap_ok c a out then True else any_bad_overlap c ins out)"

text \<open>The end of the function, from the call of \<^verbatim>\<open>__array_prepare__\<close> on.\<close>

definition trivial_call ::
  "collab \<Rightarrow> (PyArrayObject \<Rightarrow> prepared) option \<Rightarrow> nkernel \<Rightarrow> nat \<Rightarrow> PyArrayObject option list \<Rightarrow>
   PyArrayObject \<Rightarrow> int list \<Rightarrow> int list \<Rightarrow> state \<Rightarrow> int \<times> PyArrayObject option list \<times> state" where
  "trivial_call c arr_prep g nin' op out operation_shape fixed_strides st =
     (case prepare_ufunc_output c out arr_prep st of
        (None, st1) \<Rightarrow> (- 1, op[nin' := Some out], st1)
      | (Some out', st1) \<Rightarrow>
          (let op' = op[nin' := Some out'];
               count = PyArray_MultiplyList operation_shape;
               data' = map (\<lambda>a. case a of None \<Rightarrow> 0 | Some arr \<Rightarrow> data arr) op'
           in (0, op', innerloop_n g data' count fixed_strides st1)))"

definition try_trivial_single_output_loop ::
  "collab \<Rightarrow> PyUFuncObject \<Rightarrow> PyArrayObject option list \<Rightarrow> PyArray_Descr list \<Rightarrow> int \<Rightarrow>
   (PyArrayObject \<Rightarrow> prepared) option \<Rightarrow> nkernel \<Rightarrow> state \<Rightarrow>
   int \<times> PyArrayObject option list \<times> state" where
  "try_trivial_single_output_loop c ufunc op dtypes order arr_prep g st =
     (let nin' = nat (nin ufunc);
          nop = nin' + 1;
          operation_order0 =
            (if order = NPY_CORDER then NPY_ARRAY_C_CONTIGUOUS
             else if order = NPY_FORTRANORDER then NPY_ARRAY_F_CONTIGUOUS else 0)
      in case scan_operands (take nop op) 0 operation_order0 0 [] (replicate nop 0) of
           None \<Rightarrow> (- 2, op, st)
         | Some (operation_order, operation_ndim, operation_shape, fixed_strides) \<Rightarrow>
             (case op ! nin' of
                None \<Rightarrow>
                  (let st1 = st\<lparr>trace := trace st @ [Ev_allocate operation_shape]\<rparr>
                   in case NewFromDescr c (dtypes ! nin') operation_shape
                             (operation_order = NPY_ARRAY_F_CONTIGUOUS) of
                        None \<Rightarrow> (- 1, op, st1)
                      | Some new \<Rightarrow>
                          trivial_call c arr_prep g nin' op new operation_shape
                            (fixed_strides[nin' := elsize (dtypes ! nin')]) st1)
              | Some out \<Rightarrow>
                  if any_bad_overlap c (take nin' op) out then (- 2, op, st)
                  else if operation_ndim = 1 \<and> strides out ! 0 < PyArray_ITEMSIZE out \<and>
                          strides out ! 0 \<noteq> 0
                  then (- 2, op, st)
                  else trivial_call c arr_prep g nin' op out operation_shape fixed_strides st))"

text \<open>\<^verbatim>\<open>iterator_loop\<close>.  The calls of \<^verbatim>\<open>__array_prepare__\<close> on the outputs that exist (before
  the iterator is made) and on those the iterator allocated (after).\<close>

fun prepare_existing ::
  "collab \<Rightarrow> PyArrayObject option list \<Rightarrow> (PyArrayObject \<Rightarrow> prepared) option list \<Rightarrow> state \<Rightarrow>
   PyArrayObject option list option \<times> state" where
  "prepare_existing c [] preps st = (Some [], st)"
| "prepare_existing c (None # outs) preps st =
     (case prepare_existing c outs (tl preps) st of
        (None, st') \<Rightarrow> (None, st')
      | (Some outs', st') \<Rightarrow> (Some (None # outs'), st'))"
| "prepare_existing c (Some a # outs) preps st =
     (case prepare_ufunc_output c a (hd preps) st of
        (None, st1) \<Rightarrow> (None, st1)
      | (Some a', st1) \<Rightarrow>
          (case prepare_existing c outs (tl preps) st1 of
             (None, st') \<Rightarrow> (None, st')
           | (Some outs', st') \<Rightarrow> (Some (Some a' # outs'), st')))"

fun prepare_allocated ::
  "collab \<Rightarrow> PyArrayObject option list \<Rightarrow> PyArrayObject list \<Rightarrow>
   (PyArrayObject \<Rightarrow> prepared) option list \<Rightarrow> state \<Rightarrow> PyArrayObject list option \<times> state" where
  "prepare_allocated c [] op_it preps st = (Some [], st)"
| "prepare_allocated c (Some a # outs) op_it preps st =
     (case prepare_allocated c outs (tl op_it) (tl preps) st of
        (None, st') \<Rightarrow> (None, st')
      | (Some outs', st') \<Rightarrow> (Some (a # outs'), st'))"
| "prepare_allocated c (None # outs) op_it preps st =
     (case prepare_ufunc_output c (hd op_it) (hd preps) st of
        (None, st1) \<Rightarrow> (None, st1)
      | (Some a', st1) \<Rightarrow>
          (case prepare_allocated c outs (tl op_it) (tl preps) st1 of
             (None, st') \<Rightarrow> (None, st')
           | (Some outs', st') \<Rightarrow> (Some (a' # outs'), st')))"

text \<open>\<^verbatim>\<open>do innerloop(...) while (!(needs_api && PyErr_Occurred()) && iternext(iter))\<close>.\<close>

fun do_while_blocks ::
  "nkernel \<Rightarrow> bool \<Rightarrow> (int list \<times> int \<times> int list) list \<Rightarrow> state \<Rightarrow> state" where
  "do_while_blocks g needs_api [] st = st"
| "do_while_blocks g needs_api ((dataptr, count, strides') # rest) st =
     (let st1 = innerloop_n g dataptr count strides' st
      in if needs_api \<and> err st1 then st1 else do_while_blocks g needs_api rest st1)"

definition iterator_loop ::
  "collab \<Rightarrow> PyUFuncObject \<Rightarrow> PyArrayObject option list \<Rightarrow> PyArray_Descr list \<Rightarrow> int \<Rightarrow> int \<Rightarrow>
   (PyArrayObject \<Rightarrow> prepared) option list \<Rightarrow> nkernel \<Rightarrow> state \<Rightarrow> int \<times> state" where
  "iterator_loop c ufunc op dtype order buffersize arr_prep g st =
     (let nin' = nat (nin ufunc)
      in case prepare_existing c (drop nin' op) arr_prep st of
           (None, st1) \<Rightarrow> (- 1, st1)
         | (Some outs1, st1) \<Rightarrow>
             (let op1 = take nin' op @ outs1;
                  st2 = st1\<lparr>trace := trace st1 @ [Ev_iterator_new]\<rparr>
              in case NpyIter_AdvancedNew_elementwise c op1 dtype order buffersize of
                   None \<Rightarrow> (- 1, st2)
                 | Some iter \<Rightarrow>
                     (case prepare_allocated c outs1 (drop nin' (li_operands iter)) arr_prep st2 of
                        (None, st3) \<Rightarrow> (- 1, st3)
                      | (Some outs2, st3) \<Rightarrow>
                          if li_size iter = 0
                          then (if \<not> li_deallocate_ok iter then (- 1, st3) else (0, st3))
                          else if \<not> li_reset_ok iter then (- 1, st3)
                          else if \<not> li_iternext_ok iter then (- 1, st3)
                          else
                            (let st4 = do_while_blocks g (li_needs_api iter) (li_blocks iter) st3
                             in if \<not> li_deallocate_ok iter then (- 1, st4) else (0, st4)))))"

text \<open>The kernel calls recorded in a trace.\<close>

fun kernel_calls :: "event list \<Rightarrow> event list" where
  "kernel_calls [] = []"
| "kernel_calls (Ev_kernel d n s # es) = Ev_kernel d n s # kernel_calls es"
| "kernel_calls (e # es) = kernel_calls es"

text \<open>The cells a recorded kernel call may store to: it is handed the output pointer
  \<^verbatim>\<open>args[2]\<close>, the count and the output stride \<^verbatim>\<open>steps[2]\<close>.\<close>

fun kernel_writes :: "event \<Rightarrow> int set" where
  "kernel_writes (Ev_kernel d n s) = (\<lambda>k. d ! 2 + s ! 2 * k) ` {0..<n}"
| "kernel_writes e = {}"

definition kernel_written :: "event list \<Rightarrow> int set" where
  "kernel_written es = \<Union> (kernel_writes ` set es)"



subsection \<open>\<^verbatim>\<open>PyUFunc_Accumulate\<close>\<close>

definition accumulate_op_axes :: "int \<Rightarrow> int list list" where
  "accumulate_op_axes ndim = [[0..ndim - 1], [0..ndim - 1]]"

text \<open>The body of the loop driven by the outer iterator.\<close>

definition accumulate_outer_body ::
  "kernel \<Rightarrow> int \<Rightarrow> int \<Rightarrow> int \<Rightarrow> int \<Rightarrow> int \<times> int \<Rightarrow> state \<Rightarrow> state" where
  "accumulate_outer_body f otype count_m1 stride0 stride1 dataptr st =
     (let d0 = fst dataptr; d1 = snd dataptr; d2 = fst dataptr;
          st1 = copy_first_element otype d0 d1 st
      in if count_m1 > 0
         then innerloop f (d0, d1 + stride1, d2 + stride0) count_m1 (stride0, stride1, stride0) st1
         else st1)"

text \<open>The loop with no iterators.\<close>

definition accumulate_no_iterator ::
  "kernel \<Rightarrow> int \<Rightarrow> int \<Rightarrow> int \<Rightarrow> int \<Rightarrow> int \<Rightarrow> int \<Rightarrow> state \<Rightarrow> state" where
  "accumulate_no_iterator f otype count stride0 stride1 bytes0 bytes1 st =
     (let d0 = bytes0; d1 = bytes1; d2 = bytes0;
          st1 = copy_first_element otype d0 d1 st
      in if count > 1
         then innerloop f (d0, d1 + stride1, d2 + stride0) (count - 1) (stride0, stride1, stride0) st1
         else st1)"

definition accumulate_run ::
  "collab \<Rightarrow> kernel \<Rightarrow> int \<Rightarrow> PyArrayObject \<Rightarrow> PyArrayObject option \<Rightarrow> int \<Rightarrow>
   NpyIter option \<Rightarrow> PyArrayObject \<Rightarrow> PyArrayObject \<Rightarrow> PyArrayObject \<Rightarrow>
   state \<Rightarrow> (error + PyArrayObject) \<times> state" where
  "accumulate_run c f otype arr given axis iter op0 op1 out st =
     (let finish = (\<lambda>st'. case NpyIter_Deallocate c given arr iter st' of
                             (ok, st'') \<Rightarrow> if \<not> ok then (Inl Raised, st'') else (Inr out, st''));
          fail = (\<lambda>e st'. (Inl e, snd (NpyIter_Deallocate c given arr iter st')))
      in if PyArray_DIM op1 axis = 0 then finish st
         else if PyArray_SIZE op0 = 0 then finish st
         else (case iter of
                 Some it \<Rightarrow>
                   if NpyIter_GetIterSize it \<noteq> 0 then
                     (if \<not> it_iternext_ok it then fail Raised st
                      else let count_m1 = PyArray_DIM op1 axis - 1;
                               stride1 = PyArray_STRIDE op1 axis;
                               stride0 = PyArray_STRIDE op0 axis
                           in finish (do_while_iternext
                                (accumulate_outer_body f otype count_m1 stride0 stride1)
                                (it_needs_api it) (it_points it) st))
                   else finish st
               | None \<Rightarrow>
                   let count = PyArray_DIM op1 axis;
                       stride1 = PyArray_STRIDE op1 axis
                   in if PyArray_NDIM op0 \<noteq> PyArray_NDIM op1 \<or>
                         \<not> PyArray_CompareLists (dimensions op0) (dimensions op1) (PyArray_NDIM op0)
                      then fail WrongOutSize st
                      else finish (accumulate_no_iterator f otype count (PyArray_STRIDE op0 axis)
                                     stride1 (data op0) (data op1) st)))"

text \<open>The value of \<^verbatim>\<open>need_outer_iterator\<close> once the output descriptor is known.\<close>

definition accumulate_need_outer_iterator ::
  "collab \<Rightarrow> PyArrayObject \<Rightarrow> PyArrayObject option \<Rightarrow> PyArray_Descr \<Rightarrow> bool" where
  "accumulate_need_outer_iterator c arr out dtype0 =
     (if \<not> PyArray_ISALIGNED arr \<or>
         (case out of None \<Rightarrow> False | Some a \<Rightarrow> \<not> PyArray_ISALIGNED a) \<or>
         \<not> EquivTypes c dtype0 (descr arr) \<or>
         (case out of None \<Rightarrow> False | Some a \<Rightarrow> \<not> EquivTypes c dtype0 (descr a))
      then True
      else if (case out of None \<Rightarrow> False | Some a \<Rightarrow> solve_may_share_memory c a arr \<noteq> 0)
      then True
      else PyArray_NDIM arr > 1)"

text \<open>From the buffer-size lookup to the point where the operands are settled: the kernel,
  the output descriptor, the outer iterator if there is one, \<^verbatim>\<open>op[0]\<close>, \<^verbatim>\<open>op[1]\<close> and \<^verbatim>\<open>out\<close>.\<close>

definition accumulate_setup ::
  "collab \<Rightarrow> PyUFuncObject \<Rightarrow> PyArrayObject \<Rightarrow> PyArrayObject option \<Rightarrow> int \<Rightarrow> int \<Rightarrow> state \<Rightarrow>
   (error + kernel \<times> PyArray_Descr \<times> NpyIter option \<times> PyArrayObject \<times> PyArrayObject \<times> PyArrayObject)
     \<times> state" where
  "accumulate_setup c ufunc arr out axis otype st =
     (if \<not> get_bufsize_errmask_ok c then (Inl Raised, st)
      else case get_binary_op_function c ufunc otype of
          None \<Rightarrow> (Inl (NoMatchingType (ufunc_get_name_cstr ufunc) ''accumulate'' otype), st)
        | Some (otype_final, f) \<Rightarrow>
            (case reduction_out_descr c arr otype_final of
               None \<Rightarrow> (Inl Raised, st)
             | Some dtype0 \<Rightarrow>
                 let ndim = PyArray_NDIM arr
                 in if accumulate_need_outer_iterator c arr out dtype0 then
                      (let st1 = st\<lparr>trace := trace st @ [Ev_iterator_new]\<rparr>
                       in case NpyIter_AdvancedNew c
                              [case out of None \<Rightarrow> Op_null | Some a \<Rightarrow> Op_array a, Op_array arr]
                              [dtype0, dtype0] (accumulate_op_axes ndim) of
                          None \<Rightarrow> (Inl Raised, st1)
                        | Some it \<Rightarrow>
                            let st2 = iterator_copy_in c out arr it st1;
                                fail = (Inl Raised,
                                        snd (NpyIter_Deallocate c out arr (Some it) st2))
                            in if \<not> it_remove_axis_ok it then fail
                               else if \<not> it_remove_multi_index_ok it then fail
                               else (Inr (f, dtype0, Some it, it_operands it ! 0,
                                          it_operands it ! 1,
                                          (case out of None \<Rightarrow> it_operands it ! 0
                                           | Some a \<Rightarrow> a)),
                                     st2))
                    else
                      (case out of
                         None \<Rightarrow>
                           (let st1 = st\<lparr>trace := trace st @ [Ev_allocate (dimensions arr)]\<rparr>
                            in case NewFromDescr c dtype0 (dimensions arr) False of
                                 None \<Rightarrow> (Inl Raised, st1)
                               | Some new \<Rightarrow> (Inr (f, dtype0, None, new, arr, new), st1))
                       | Some a \<Rightarrow> (Inr (f, dtype0, None, a, arr, a), st))))"

definition PyUFunc_Accumulate ::
  "collab \<Rightarrow> PyUFuncObject \<Rightarrow> PyArrayObject \<Rightarrow> PyArrayObject option \<Rightarrow> int \<Rightarrow> int \<Rightarrow>
   state \<Rightarrow> (error + PyArrayObject) \<times> state" where
  "PyUFunc_Accumulate c ufunc arr out axis otype st =
     (case accumulate_setup c ufunc arr out axis otype st of
        (Inl e, st1) \<Rightarrow> (Inl e, st1)
      | (Inr (f, dtype0, iter, op0, op1, out'), st1) \<Rightarrow>
          accumulate_run c f otype arr out axis iter op0 op1 out' st1)"


subsection \<open>\<^verbatim>\<open>PyUFunc_Reduce\<close>\<close>

text \<open>The loop that fills \<^verbatim>\<open>axis_flags\<close>; \<open>None\<close> is the duplicate found.\<close>

fun mark_axes :: "int list \<Rightarrow> bool list \<Rightarrow> bool list option" where
  "mark_axes [] axis_flags = Some axis_flags"
| "mark_axes (axis # axes) axis_flags =
     (if axis_flags ! nat axis then None
      else mark_axes axes (axis_flags[nat axis := True]))"

definition get_identity :: "PyUFuncObject \<Rightarrow> (pyobject \<times> bool) option" where
  "get_identity ufunc =
     (if identity ufunc = PyUFunc_One then Some (Py_Long 1, True)
      else if identity ufunc = PyUFunc_Zero then Some (Py_Long 0, True)
      else if identity ufunc = PyUFunc_MinusOne then Some (Py_Long (- 1), True)
      else if identity ufunc = PyUFunc_ReorderableNone then Some (Py_None, True)
      else if identity ufunc = PyUFunc_None then Some (Py_None, False)
      else if identity ufunc = PyUFunc_IdentityValue then Some (identity_value ufunc, True)
      else None)"

text \<open>With \<^verbatim>\<open>odtype\<close> \<^verbatim>\<open>NULL\<close> the type tuple stays \<^verbatim>\<open>NULL\<close>, the resolver is called with it, and
  the \<^verbatim>\<open>Py_DECREF(type_tup)\<close> that follows the call is applied to \<^verbatim>\<open>NULL\<close>.\<close>

definition reduce_type_resolver ::
  "collab \<Rightarrow> PyUFuncObject \<Rightarrow> PyArrayObject \<Rightarrow> PyArray_Descr option \<Rightarrow> error + PyArray_Descr" where
  "reduce_type_resolver c ufunc arr odtype =
     (if odtype \<noteq> None \<and> \<not> PyTuple_Pack_ok c then Inl Raised
      else let (retcode, dtypes) = type_resolver ufunc arr odtype
           in if odtype = None then Inl (Undefined ''Py_DECREF(type_tup)'')
              else if retcode = - 1 then Inl Raised
              else if retcode = - 2
              then Inl (TypeResolutionNotImplemented (ufunc_get_name_cstr ufunc))
              else if \<not> EquivTypes c (dtypes ! 0) (dtypes ! 1)
              then Inl (TypeResolutionMismatch (ufunc_get_name_cstr ufunc))
              else Inr (dtypes ! 2))"

definition PyUFunc_Reduce ::
  "collab \<Rightarrow> PyUFuncObject \<Rightarrow> PyArrayObject \<Rightarrow> PyArrayObject option \<Rightarrow> int list \<Rightarrow>
   PyArray_Descr option \<Rightarrow> int \<Rightarrow> pyobject option \<Rightarrow> PyArrayObject option \<Rightarrow> state \<Rightarrow>
   (error + PyArrayObject) \<times> state" where
  "PyUFunc_Reduce c ufunc arr out axes odtype keepdims initial wheremask st =
     (let ndim = PyArray_NDIM arr
      in case mark_axes axes (replicate (nat ndim) False) of
           None \<Rightarrow> (Inl DuplicateAxis, st)
         | Some axis_flags \<Rightarrow>
             if \<not> get_bufsize_errmask_ok c then (Inl Raised, st)
             else (case get_identity ufunc of
                 None \<Rightarrow> (Inl (InvalidIdentity (ufunc_get_name_cstr ufunc)), st)
               | Some (ident, reorderable) \<Rightarrow>
                   let initial1 =
                         (case initial of
                            None \<Rightarrow> (if ident \<noteq> Py_None \<and> type_num (descr arr) = NPY_OBJECT \<and>
                                        PyArray_SIZE arr \<noteq> 0
                                     then Py_None else ident)
                          | Some v \<Rightarrow> v)
                   in (case reduce_type_resolver c ufunc arr odtype of
                         Inl e \<Rightarrow> (Inl e, st)
                       | Inr dtype \<Rightarrow>
                           (case ReduceWrapper c arr out wheremask dtype axis_flags reorderable
                                   keepdims initial1 st of
                              (None, st') \<Rightarrow> (Inl Raised, st')
                            | (Some result, st') \<Rightarrow> (Inr result, st')))))"

subsection \<open>\<^verbatim>\<open>PyUFunc_GenericReduction\<close>\<close>

definition NPY_MAXDIMS :: int where "NPY_MAXDIMS = 32"

definition PyTypeNum_ISBOOL :: "int \<Rightarrow> bool" where
  "PyTypeNum_ISBOOL t = (t = NPY_BOOL)"

definition PyTypeNum_ISINTEGER :: "int \<Rightarrow> bool" where
  "PyTypeNum_ISINTEGER t = (t \<ge> NPY_BYTE \<and> t \<le> NPY_ULONGLONG)"

definition PyTypeNum_ISUNSIGNED :: "int \<Rightarrow> bool" where
  "PyTypeNum_ISUNSIGNED t =
     (t = NPY_UBYTE \<or> t = NPY_USHORT \<or> t = NPY_UINT \<or> t = NPY_ULONG \<or> t = NPY_ULONGLONG)"

definition PyTypeNum_ISFLEXIBLE :: "int \<Rightarrow> bool" where
  "PyTypeNum_ISFLEXIBLE t = (t \<ge> NPY_STRING \<and> t \<le> NPY_VOID)"

text \<open>
  Modelled from the spec: \<^verbatim>\<open>check_and_adjust_axis\<close> is defined in another file; the axis set
  is "validated to be within rank".  An axis outside \<open>[-ndim, ndim)\<close> is an error, a negative
  one in range counts from the end.
\<close>

definition check_and_adjust_axis :: "int \<Rightarrow> int \<Rightarrow> int option" where
  "check_and_adjust_axis axis ndim =
     (if axis < - ndim \<or> axis \<ge> ndim then None
      else Some (if axis < 0 then axis + ndim else axis))"

text \<open>The arguments of a call as \<^verbatim>\<open>npy_parse_arguments\<close> extracts them, each with what its
  converter makes of it (\<open>None\<close> inside: the converter fails; \<open>None\<close> outside: the argument
  was not passed).\<close>

datatype axis_arg =
    Axis_absent | Axis_None | Axis_tuple "int option list" | Axis_object "int option"

datatype otype_arg = Otype_absent | Otype_None | Otype_object "PyArray_Descr option"

datatype override_outcome = Override_error | Override_result int | Override_none

datatype pyresult = Overridden int | Wrapped PyArrayObject

record reduction_call =
  parse_ok :: bool
  len_args :: int
  op_array :: "PyArrayObject option"
  indices_obj :: "int list option option"
  axes_obj :: axis_arg
  otype_obj :: otype_arg
  out_arg :: "out_obj option"
  keepdims_obj :: "int option option"
  initial_obj :: "pyobject option"
  wheremask_obj :: "PyArrayObject option option"
  check_override :: override_outcome

fun tuple_all_none :: "out_obj list \<Rightarrow> bool" where
  "tuple_all_none [] = True"
| "tuple_all_none (x # xs) = (if x \<noteq> Obj_None then False else tuple_all_none xs)"

text \<open>\<^verbatim>\<open>_set_full_args_out\<close>; the result is \<^verbatim>\<open>full_args->out\<close>.\<close>

definition set_full_args_out :: "int \<Rightarrow> out_obj \<Rightarrow> error + out_obj option" where
  "set_full_args_out nout' obj =
     (case obj of
        Obj_tuple items \<Rightarrow>
          if int (length items) \<noteq> nout' then Inl OutTupleSize
          else if tuple_all_none items then Inr None
          else Inr (Some obj)
      | _ \<Rightarrow>
          if nout' = 1 then (if obj = Obj_None then Inr None else Inr (Some (Obj_tuple [obj])))
          else Inl OutNotArray)"

text \<open>The normalisation of \<^verbatim>\<open>out\<close> before the override check; the result is the new
  \<^verbatim>\<open>out_obj\<close>.\<close>

definition normalize_out :: "bool \<Rightarrow> out_obj option \<Rightarrow> error + out_obj option" where
  "normalize_out out_is_passed_by_position obj =
     (if out_is_passed_by_position then Inr obj
      else case obj of
             None \<Rightarrow> Inr None
           | Some given \<Rightarrow>
               (case set_full_args_out 1 given of
                  Inl e \<Rightarrow> Inl e
                | Inr None \<Rightarrow> Inr (Some given)
                | Inr (Some (Obj_tuple items)) \<Rightarrow> Inr (Some (items ! 0))
                | Inr (Some other) \<Rightarrow> Inr (Some other)))"

fun convert_axes_tuple :: "int option list \<Rightarrow> int \<Rightarrow> error + int list" where
  "convert_axes_tuple [] ndim = Inr []"
| "convert_axes_tuple (tmp # rest) ndim =
     (case tmp of
        None \<Rightarrow> Inl Raised
      | Some axis \<Rightarrow>
          (case check_and_adjust_axis axis ndim of
             None \<Rightarrow> Inl (AxisError axis ndim)
           | Some axis' \<Rightarrow>
               (case convert_axes_tuple rest ndim of
                  Inl e \<Rightarrow> Inl e
                | Inr axes \<Rightarrow> Inr (axis' # axes))))"

text \<open>"Convert the 'axis' parameter into a list of axes": the result is \<^verbatim>\<open>axes[0..naxes)\<close>.\<close>

definition convert_axes :: "axis_arg \<Rightarrow> int \<Rightarrow> error + int list" where
  "convert_axes obj ndim =
     (case obj of
        Axis_absent \<Rightarrow> (if ndim = 0 then Inr [] else Inr [0])
      | Axis_None \<Rightarrow> Inr [0..ndim - 1]
      | Axis_tuple items \<Rightarrow>
          if int (length items) > NPY_MAXDIMS then Inl TooManyAxisValues
          else convert_axes_tuple items ndim
      | Axis_object conv \<Rightarrow>
          (case conv of
             None \<Rightarrow> Inl Raised
           | Some axis \<Rightarrow>
               if ndim = 0 \<and> (axis = 0 \<or> axis = - 1) then Inr []
               else (case check_and_adjust_axis axis ndim of
                       None \<Rightarrow> Inl (AxisError axis ndim)
                     | Some axis' \<Rightarrow> Inr [axis'])))"

text \<open>The type number a reduction uses when neither \<^verbatim>\<open>dtype\<close> nor \<^verbatim>\<open>out\<close> fixes one.\<close>

definition default_reduction_typenum :: "collab \<Rightarrow> PyUFuncObject \<Rightarrow> PyArrayObject \<Rightarrow> int" where
  "default_reduction_typenum c ufunc mp =
     (let typenum = type_num (descr mp)
      in if (PyTypeNum_ISBOOL typenum \<or> PyTypeNum_ISINTEGER typenum) \<and>
            (name ufunc = Some ''add'' \<or> name ufunc = Some ''multiply'')
         then (if PyTypeNum_ISBOOL typenum then NPY_LONG
               else if elsize (descr mp) < sizeof_long c
               then (if PyTypeNum_ISUNSIGNED typenum then NPY_ULONG else NPY_LONG)
               else typenum)
         else typenum)"

definition reduction_otype ::
  "collab \<Rightarrow> PyUFuncObject \<Rightarrow> PyArrayObject \<Rightarrow> PyArray_Descr option \<Rightarrow> PyArrayObject option \<Rightarrow>
   PyArray_Descr option" where
  "reduction_otype c ufunc mp otype out =
     (let otype1 = (if otype = None \<and> out \<noteq> None then map_option descr out else otype)
      in if otype1 = None then DescrFromType c (default_reduction_typenum c ufunc mp)
         else otype1)"

fun is_Undefined :: "error + 'a \<Rightarrow> bool" where
  "is_Undefined (Inl (Undefined x)) = True"
| "is_Undefined r = False"

text \<open>The \<^verbatim>\<open>switch\<close> on the operation, and for the cases that leave it by \<^verbatim>\<open>break\<close> the
  \<^verbatim>\<open>Py_DECREF(otype)\<close> that follows it.  \<^verbatim>\<open>otype\<close> is what \<^verbatim>\<open>PyArray_DescrFromType\<close> gave, and
  nothing has tested it: reduce passes it on, accumulate and reduceat read
  \<^verbatim>\<open>otype->type_num\<close>.  (\<^verbatim>\<open>indices\<close> is a required argument of reduceat, so argument parsing
  has failed before if it is missing.)\<close>

definition reduction_dispatch ::
  "collab \<Rightarrow> PyUFuncObject \<Rightarrow> operation \<Rightarrow> PyArrayObject \<Rightarrow> int list option \<Rightarrow>
   PyArrayObject option \<Rightarrow> int list \<Rightarrow> PyArray_Descr option \<Rightarrow> int \<Rightarrow> pyobject option \<Rightarrow>
   PyArrayObject option \<Rightarrow> state \<Rightarrow> (error + PyArrayObject) \<times> state" where
  "reduction_dispatch c ufunc operation mp indices out axes otype keepdims initial wheremask st =
     (let ndim = PyArray_NDIM mp; naxes = int (length axes)
      in case operation of
           UFUNC_REDUCE \<Rightarrow>
             (case PyUFunc_Reduce c ufunc mp out axes otype keepdims initial wheremask st of
                (ret, st') \<Rightarrow>
                  if otype = None \<and> \<not> is_Undefined ret
                  then (Inl (Undefined ''Py_DECREF(otype)''), st')
                  else (ret, st'))
         | UFUNC_ACCUMULATE \<Rightarrow>
             if ndim = 0 then (Inl (ScalarOperand ''accumulate''), st)
             else if naxes \<noteq> 1 then (Inl (MultipleAxes ''accumulate''), st)
             else (case otype of
                     None \<Rightarrow> (Inl (Undefined ''otype->type_num''), st)
                   | Some d \<Rightarrow> PyUFunc_Accumulate c ufunc mp out (axes ! 0) (type_num d) st)
         | UFUNC_REDUCEAT \<Rightarrow>
             if ndim = 0 then (Inl (ScalarOperand ''reduceat''), st)
             else if naxes \<noteq> 1 then (Inl (MultipleAxes ''reduceat''), st)
             else (case otype of
                     None \<Rightarrow> (Inl (Undefined ''otype->type_num''), st)
                   | Some d \<Rightarrow>
                       (case indices of
                          None \<Rightarrow> (Inl Raised, st)
                        | Some ind \<Rightarrow>
                            PyUFunc_Reduceat c ufunc mp ind out (axes ! 0) (type_num d) st)))"

text \<open>"Wrap and return the output": \<^verbatim>\<open>_apply_array_wrap\<close> on what the operation returned.\<close>

definition wrap_output ::
  "collab \<Rightarrow> (error + PyArrayObject) \<times> state \<Rightarrow> (error + pyresult) \<times> state" where
  "wrap_output c r =
     (case r of
        (Inl e, st') \<Rightarrow> (Inl e, st')
      | (Inr ret, st') \<Rightarrow>
          if array_wrap_ok c then (Inr (Wrapped ret), st') else (Inl Raised, st'))"

text \<open>"Finish parsing of all parameters" up to the operand array: the converted
  \<^verbatim>\<open>indices\<close>, \<^verbatim>\<open>otype\<close>, \<^verbatim>\<open>out\<close>, \<^verbatim>\<open>keepdims\<close>, \<^verbatim>\<open>wheremask\<close> and \<^verbatim>\<open>mp\<close>.\<close>

definition finish_parsing ::
  "collab \<Rightarrow> reduction_call \<Rightarrow> out_obj option \<Rightarrow>
   (int list option \<times> PyArray_Descr option \<times> PyArrayObject option \<times> int \<times>
    PyArrayObject option \<times> PyArrayObject) option" where
  "finish_parsing c call out_obj' =
     (case (case indices_obj call of None \<Rightarrow> Some None | Some None \<Rightarrow> None
            | Some (Some ind) \<Rightarrow> Some (Some ind)) of
        None \<Rightarrow> None
      | Some indices \<Rightarrow>
     (case (case otype_obj call of Otype_absent \<Rightarrow> Some None | Otype_None \<Rightarrow> Some None
            | Otype_object None \<Rightarrow> None | Otype_object (Some d) \<Rightarrow> Some (Some d)) of
        None \<Rightarrow> None
      | Some otype \<Rightarrow>
     (case (case out_obj' of None \<Rightarrow> Some None | Some obj \<Rightarrow> OutputConverter c obj) of
        None \<Rightarrow> None
      | Some out \<Rightarrow>
     (case (case keepdims_obj call of None \<Rightarrow> Some 0 | Some None \<Rightarrow> None
            | Some (Some k) \<Rightarrow> Some k) of
        None \<Rightarrow> None
      | Some keepdims \<Rightarrow>
     (case (case wheremask_obj call of None \<Rightarrow> Some None | Some None \<Rightarrow> None
            | Some (Some m) \<Rightarrow> Some (Some m)) of
        None \<Rightarrow> None
      | Some wheremask \<Rightarrow>
     (case op_array call of
        None \<Rightarrow> None
      | Some mp \<Rightarrow> Some (indices, otype, out, keepdims, wheremask, mp)))))))"

text \<open>From the check for flexible types to the wrapped result, with the arguments
  converted.\<close>

definition reduction_body ::
  "collab \<Rightarrow> PyUFuncObject \<Rightarrow> reduction_call \<Rightarrow> operation \<Rightarrow>
   int list option \<times> PyArray_Descr option \<times> PyArrayObject option \<times> int \<times>
     PyArrayObject option \<times> PyArrayObject \<Rightarrow>
   state \<Rightarrow> (error + pyresult) \<times> state" where
  "reduction_body c ufunc call operation parsed st =
     (case parsed of (indices, otype, out, keepdims, wheremask, mp) \<Rightarrow>
        let ndim = PyArray_NDIM mp
        in if PyTypeNum_ISFLEXIBLE (type_num (descr mp)) \<or>
              (case otype of None \<Rightarrow> False | Some d \<Rightarrow> PyTypeNum_ISFLEXIBLE (type_num d))
           then (Inl (FlexibleType (reduce_type operation)), st)
           else
             (case convert_axes (axes_obj call) ndim of
                Inl e \<Rightarrow> (Inl e, st)
              | Inr axes \<Rightarrow>
                  wrap_output c
                    (reduction_dispatch c ufunc operation mp indices out axes
                       (reduction_otype c ufunc mp otype out) keepdims (initial_obj call)
                       wheremask st)))"

definition PyUFunc_GenericReduction ::
  "collab \<Rightarrow> PyUFuncObject option \<Rightarrow> reduction_call \<Rightarrow> operation \<Rightarrow> state \<Rightarrow>
   (error + pyresult) \<times> state" where
  "PyUFunc_GenericReduction c ufunc_ptr call operation st =
     (case ufunc_ptr of
        None \<Rightarrow> (Inl FunctionNotSupported, st)
      | Some ufunc \<Rightarrow>
          if core_enabled ufunc then (Inl ReductionWithSignature, st)
          else if nin ufunc \<noteq> 2 then (Inl (OnlyBinary (reduce_type operation)), st)
          else if nout ufunc \<noteq> 1 then (Inl (OnlySingleValue (reduce_type operation)), st)
          else if \<not> parse_ok call then (Inl Raised, st)
          else
            (case normalize_out (len_args call \<ge> (if operation = UFUNC_REDUCEAT then 5 else 4))
                    (out_arg call) of
               Inl e \<Rightarrow> (Inl e, st)
             | Inr out_obj' \<Rightarrow>
                 (case check_override call of
                    Override_error \<Rightarrow> (Inl Raised, st)
                  | Override_result r \<Rightarrow> (Inr (Overridden r), st)
                  | Override_none \<Rightarrow>
                      (case finish_parsing c call out_obj' of
                         None \<Rightarrow> (Inl Raised, st)
                       | Some parsed \<Rightarrow> reduction_body c ufunc call operation parsed st))))"

subsection \<open>\<^verbatim>\<open>_get_coredim_sizes\<close>\<close>

text \<open>The flags of a core dimension (\<^verbatim>\<open>ufuncobject.h\<close>).\<close>

definition UFUNC_CORE_DIM_CAN_IGNORE :: "32 word" where "UFUNC_CORE_DIM_CAN_IGNORE = 0x0002"
definition UFUNC_CORE_DIM_SIZE_INFERRED :: "32 word" where "UFUNC_CORE_DIM_SIZE_INFERRED = 0x0004"
definition UFUNC_CORE_DIM_MISSING :: "32 word" where "UFUNC_CORE_DIM_MISSING = 0x00040000"

definition REMAP_AXIS :: "int list option list option \<Rightarrow> int \<Rightarrow> int \<Rightarrow> int" where
  "REMAP_AXIS remap_axis iop axis =
     (case remap_axis of
        None \<Rightarrow> axis
      | Some rows \<Rightarrow> (case rows ! nat iop of None \<Rightarrow> axis | Some row \<Rightarrow> row ! nat axis))"

text \<open>The loop over the core dimensions \<open>idim\<close> of operand \<open>i\<close>; \<open>sizes\<close> is the caller's
  array \<^verbatim>\<open>core_dim_sizes\<close> and \<open>dim_flags\<close> its array \<^verbatim>\<open>core_dim_flags\<close>.\<close>

primrec coredim_operand_loop ::
  "PyUFuncObject \<Rightarrow> int \<Rightarrow> PyArrayObject \<Rightarrow> int \<Rightarrow> 32 word list \<Rightarrow> int list option list option \<Rightarrow>
   int list \<Rightarrow> int \<Rightarrow> int list \<Rightarrow> error + int list" where
  "coredim_operand_loop ufunc i a core_start_dim dim_flags remap_axis [] dim_delta sizes = Inr sizes"
| "coredim_operand_loop ufunc i a core_start_dim dim_flags remap_axis (idim # rest) dim_delta sizes =
     (let dim_offset = core_offsets ufunc ! nat i;
          core_index = dim_offset + idim;
          core_dim_index = core_dim_ixs ufunc ! nat core_index;
          core_dim_size = sizes ! nat core_dim_index;
          missing = (dim_flags ! nat core_dim_index AND UFUNC_CORE_DIM_MISSING \<noteq> 0);
          op_dim_size = (if missing then 1
                         else PyArray_DIM a
                                (REMAP_AXIS remap_axis i (core_start_dim + idim - dim_delta)));
          dim_delta' = (if missing then dim_delta + 1 else dim_delta)
      in if sizes ! nat core_dim_index < 0
         then coredim_operand_loop ufunc i a core_start_dim dim_flags remap_axis rest dim_delta'
                (sizes[nat core_dim_index := op_dim_size])
         else if op_dim_size \<noteq> core_dim_size
         then Inl (CoreDimMismatch (ufunc_get_name_cstr ufunc)
                     (if i < nin ufunc then ''Input'' else ''Output'')
                     (if i < nin ufunc then i else i - nin ufunc) (idim - dim_delta')
                     (core_signature ufunc) op_dim_size (sizes ! nat core_dim_index))
         else coredim_operand_loop ufunc i a core_start_dim dim_flags remap_axis rest dim_delta'
                sizes)"

text \<open>The loop over the operands.\<close>

primrec coredim_operands_loop ::
  "PyUFuncObject \<Rightarrow> PyArrayObject option list \<Rightarrow> int list \<Rightarrow> 32 word list \<Rightarrow>
   int list option list option \<Rightarrow> int list \<Rightarrow> int list \<Rightarrow> error + int list" where
  "coredim_operands_loop ufunc op op_core_num_dims dim_flags remap_axis [] sizes = Inr sizes"
| "coredim_operands_loop ufunc op op_core_num_dims dim_flags remap_axis (i # rest) sizes =
     (case op ! nat i of
        None \<Rightarrow> coredim_operands_loop ufunc op op_core_num_dims dim_flags remap_axis rest sizes
      | Some a \<Rightarrow>
          (let core_start_dim = PyArray_NDIM a - op_core_num_dims ! nat i
           in case coredim_operand_loop ufunc i a core_start_dim dim_flags remap_axis
                     [0..core_num_dims ufunc ! nat i - 1] 0 sizes of
                Inl e \<Rightarrow> Inl e
              | Inr sizes' \<Rightarrow>
                  coredim_operands_loop ufunc op op_core_num_dims dim_flags remap_axis rest
                    sizes'))"

text \<open>"Make sure no core dimension is unspecified": the loops over the outputs and their
  core dimensions.\<close>

primrec coredim_unspecified_dims :: "PyUFuncObject \<Rightarrow> int \<Rightarrow> int list \<Rightarrow> int list \<Rightarrow> error option" where
  "coredim_unspecified_dims ufunc i [] sizes = None"
| "coredim_unspecified_dims ufunc i (idim # rest) sizes =
     (let dim_offset = core_offsets ufunc ! nat i;
          core_dim_index = core_dim_ixs ufunc ! nat (dim_offset + idim)
      in if sizes ! nat core_dim_index < 0
         then Some (CoreDimUnspecified (ufunc_get_name_cstr ufunc) (i - nin ufunc) idim
                      (core_signature ufunc))
         else coredim_unspecified_dims ufunc i rest sizes)"

primrec coredim_unspecified :: "PyUFuncObject \<Rightarrow> int list \<Rightarrow> int list \<Rightarrow> error option" where
  "coredim_unspecified ufunc [] sizes = None"
| "coredim_unspecified ufunc (i # rest) sizes =
     (case coredim_unspecified_dims ufunc i [0..core_num_dims ufunc ! nat i - 1] sizes of
        Some e \<Rightarrow> Some e
      | None \<Rightarrow> coredim_unspecified ufunc rest sizes)"

text \<open>The function returns 0 or -1 and leaves the sizes in the caller's array; here the
  result is the error or the array.\<close>

definition get_coredim_sizes ::
  "PyUFuncObject \<Rightarrow> PyArrayObject option list \<Rightarrow> int list \<Rightarrow> 32 word list \<Rightarrow> int list \<Rightarrow>
   int list option list option \<Rightarrow> error + int list" where
  "get_coredim_sizes ufunc op op_core_num_dims dim_flags sizes remap_axis =
     (let nop = nin ufunc + nout ufunc
      in case coredim_operands_loop ufunc op op_core_num_dims dim_flags remap_axis [0..nop - 1]
                sizes of
           Inl e \<Rightarrow> Inl e
         | Inr sizes' \<Rightarrow>
             (case coredim_unspecified ufunc [nin ufunc..nop - 1] sizes' of
                Some e \<Rightarrow> Inl e
              | None \<Rightarrow> Inr sizes'))"

text \<open>What the first loop looks at, in the order it does: for each core dimension of each
  operand that is present, the index of the dimension's name, the extent the operand has
  there (1 for a dimension flagged as missing), and the place a mismatch message names:
  ufunc name, "Input" or "Output", operand number, core dimension and signature.\<close>

type_synonym coredim_place = "string \<times> string \<times> int \<times> int \<times> string option"

primrec operand_core_extents ::
  "PyUFuncObject \<Rightarrow> int \<Rightarrow> PyArrayObject \<Rightarrow> int \<Rightarrow> 32 word list \<Rightarrow> int list option list option \<Rightarrow>
   int list \<Rightarrow> int \<Rightarrow> (nat \<times> int \<times> coredim_place) list" where
  "operand_core_extents ufunc i a core_start_dim dim_flags remap_axis [] dim_delta = []"
| "operand_core_extents ufunc i a core_start_dim dim_flags remap_axis (idim # rest) dim_delta =
     (let core_dim_index = core_dim_ixs ufunc ! nat (core_offsets ufunc ! nat i + idim);
          missing = (dim_flags ! nat core_dim_index AND UFUNC_CORE_DIM_MISSING \<noteq> 0);
          op_dim_size = (if missing then 1
                         else PyArray_DIM a
                                (REMAP_AXIS remap_axis i (core_start_dim + idim - dim_delta)));
          dim_delta' = (if missing then dim_delta + 1 else dim_delta)
      in (nat core_dim_index, op_dim_size,
          ufunc_get_name_cstr ufunc, (if i < nin ufunc then ''Input'' else ''Output''),
          (if i < nin ufunc then i else i - nin ufunc), idim - dim_delta', core_signature ufunc)
         # operand_core_extents ufunc i a core_start_dim dim_flags remap_axis rest dim_delta')"

primrec operands_core_extents ::
  "PyUFuncObject \<Rightarrow> PyArrayObject option list \<Rightarrow> int list \<Rightarrow> 32 word list \<Rightarrow>
   int list option list option \<Rightarrow> int list \<Rightarrow> (nat \<times> int \<times> coredim_place) list" where
  "operands_core_extents ufunc op op_core_num_dims dim_flags remap_axis [] = []"
| "operands_core_extents ufunc op op_core_num_dims dim_flags remap_axis (i # rest) =
     (case op ! nat i of
        None \<Rightarrow> []
      | Some a \<Rightarrow> operand_core_extents ufunc i a (PyArray_NDIM a - op_core_num_dims ! nat i)
                    dim_flags remap_axis [0..core_num_dims ufunc ! nat i - 1] 0)
     @ operands_core_extents ufunc op op_core_num_dims dim_flags remap_axis rest"

definition core_extents ::
  "PyUFuncObject \<Rightarrow> PyArrayObject option list \<Rightarrow> int list \<Rightarrow> 32 word list \<Rightarrow>
   int list option list option \<Rightarrow> (nat \<times> int) list" where
  "core_extents ufunc op op_core_num_dims dim_flags remap_axis =
     map (\<lambda>(k, s, place). (k, s))
       (operands_core_extents ufunc op op_core_num_dims dim_flags remap_axis
          [0..nin ufunc + nout ufunc - 1])"

text \<open>The size on record for dimension \<open>k\<close> once the extents \<open>seen\<close> have been matched: the
  size the array started with if that is not negative, else the first extent seen for
  \<open>k\<close>, if any.\<close>

definition resolved_size :: "(nat \<times> int) list \<Rightarrow> int list \<Rightarrow> nat \<Rightarrow> int" where
  "resolved_size seen sizes k =
     (if 0 \<le> sizes ! k then sizes ! k
      else case map_of seen k of None \<Rightarrow> sizes ! k | Some s \<Rightarrow> s)"

text \<open>Matching a list of extents against the sizes, one after the other.\<close>

fun match_extents :: "(nat \<times> int \<times> coredim_place) list \<Rightarrow> int list \<Rightarrow> error + int list" where
  "match_extents [] sizes = Inr sizes"
| "match_extents ((k, s, nm, io, opn, cd, sg) # rest) sizes =
     (if sizes ! k < 0 then match_extents rest (sizes[k := s])
      else if s \<noteq> sizes ! k then Inl (CoreDimMismatch nm io opn cd sg s (sizes ! k))
      else match_extents rest sizes)"

subsection \<open>\<^verbatim>\<open>_parse_signature\<close>\<close>

text \<open>The signature is a C string: \<^verbatim>\<open>signature[i]\<close> past the last character reads the
  terminator.\<close>

definition sig_at :: "string \<Rightarrow> nat \<Rightarrow> char" where
  "sig_at str i = (if i < length str then str ! i else CHR 0x00)"

definition strlen :: "string \<Rightarrow> nat" where
  "strlen str = length (takeWhile (\<lambda>c. c \<noteq> CHR 0x00) str)"













text \<open>The state of the parse: the locals of \<^verbatim>\<open>_parse_signature\<close> and the ufunc it fills in.
  \<open>ps_dims\<close> is not in the source: it lists the offsets of the core dimensions read so far,
  and nothing reads it.\<close>

record parse_state =
  ps_i :: nat
  ps_nd :: int
  ps_cur_arg :: int
  ps_cur_core_dim :: nat
  ps_var_names :: "nat list"
  ps_ufunc :: PyUFuncObject
  ps_dims :: "nat list"



text \<open>"If a new dimension, store its properties; if old, check consistency."\<close>

definition store_or_check_dim ::
  "string \<Rightarrow> nat \<Rightarrow> int \<Rightarrow> bool \<Rightarrow> nat \<Rightarrow> parse_state \<Rightarrow> error + parse_state" where
  "store_or_check_dim signature i frozen_size can_ignore ix st =
     (let u = ps_ufunc st
      in if int ix = core_num_dim_ix u then
           (let flag1 = (if frozen_size < 0
                         then core_dim_flags u ! ix OR UFUNC_CORE_DIM_SIZE_INFERRED
                         else core_dim_flags u ! ix);
                flag2 = (if can_ignore then flag1 OR UFUNC_CORE_DIM_CAN_IGNORE else flag1)
            in Inr (st\<lparr>ps_var_names := (ps_var_names st)[ix := i],
                        ps_ufunc := u\<lparr>core_num_dim_ix := core_num_dim_ix u + 1,
                                      core_dim_sizes := (core_dim_sizes u)[ix := frozen_size],
                                      core_dim_flags := (core_dim_flags u)[ix := flag2]\<rparr>\<rparr>))
         else if can_ignore \<and> core_dim_flags u ! ix AND UFUNC_CORE_DIM_CAN_IGNORE = 0 then
           Inl (ParseError Question_mark_not_seen_before i signature)
         else if \<not> can_ignore \<and> core_dim_flags u ! ix AND UFUNC_CORE_DIM_CAN_IGNORE \<noteq> 0 then
           Inl (ParseError Question_mark_seen_before i signature)
         else Inr st)"















subsection \<open>Fixtures for concrete runs\<close>

definition aligned_c_flags :: int where
  "aligned_c_flags = NPY_ARRAY_ALIGNED OR NPY_ARRAY_C_CONTIGUOUS OR NPY_ARRAY_F_CONTIGUOUS"

definition double_descr :: PyArray_Descr where
  "double_descr = \<lparr>type_num = NPY_DOUBLE, elsize = 8, isnbo = True\<rparr>"

definition vector5 :: PyArrayObject where
  "vector5 = \<lparr>data = 1000, dimensions = [5], strides = [8], descr = double_descr,
               flags = aligned_c_flags\<rparr>"

definition plain_collab :: collab where
  "plain_collab =
     \<lparr>get_bufsize_errmask_ok = True,
      PyTuple_Pack_ok = True,
      CanCastSafely = (\<lambda>a b. a \<le> b),
      DescrFromType = (\<lambda>t. Some \<lparr>type_num = t, elsize = 8, isnbo = True\<rparr>),
      DescrNewByteorder = (\<lambda>d. Some (d\<lparr>isnbo := True\<rparr>)),
      EquivTypes = (\<lambda>a b. type_num a = type_num b \<and> isnbo a = isnbo b),
      REFCHK = (\<lambda>d. type_num d = NPY_OBJECT),
      cast_item = (\<lambda>from to v. v),
      NewFromDescr = (\<lambda>d shape fortran. Some \<lparr>data = 2000, dimensions = shape,
                                        strides = map (\<lambda>_. elsize d) shape, descr = d,
                                        flags = aligned_c_flags\<rparr>),
      NpyIter_AdvancedNew = (\<lambda>ops dtypes op_axes. None),
      solve_may_share_memory = (\<lambda>a b. 0),
      sizeof_long = 8,
      overlap_ok = (\<lambda>a b. data a = data b \<and> strides a = strides b),
      NpyIter_AdvancedNew_elementwise = (\<lambda>ops dtypes order buffersize. None),
      ReduceWrapper = (\<lambda>arr out wheremask dtype axis_flags reorderable keepdims initial st.
                         (Some arr, st)),
      array_wrap_ok = True,
      OutputConverter = (\<lambda>obj. case obj of Obj_None \<Rightarrow> Some None
                                 | Obj_array a \<Rightarrow> Some (Some a) | _ \<Rightarrow> None)\<rparr>"

definition add_kernel :: kernel where
  "add_kernel x y = Some (x + y)"

definition add_ufunc :: PyUFuncObject where
  "add_ufunc = \<lparr>nin = 2, nout = 1, name = Some ''add'', core_enabled = False,
                 loops = [([NPY_LONG, NPY_LONG, NPY_LONG], add_kernel),
                          ([NPY_DOUBLE, NPY_DOUBLE, NPY_DOUBLE], add_kernel),
                          ([NPY_OBJECT, NPY_OBJECT, NPY_OBJECT], add_kernel)],
                 userloops = None, identity = PyUFunc_Zero, identity_value = Py_None,
                 type_resolver = (\<lambda>arr odtype.
                    (0, (case odtype of None \<Rightarrow> replicate 3 (descr arr)
                         | Some d \<Rightarrow> replicate 3 d))),
                 core_num_dim_ix = 0, core_num_dims = [], core_dim_ixs = [],
                 core_offsets = [], core_signature = None, core_dim_sizes = [],
                 core_dim_flags = []\<rparr>"

definition vector5_state :: state where
  "vector5_state = \<lparr>mem = (\<lambda>a. if a = 1000 then 10 else if a = 1008 then 20
                             else if a = 1016 then 30 else if a = 1024 then 40
                             else if a = 1032 then 50 else 0),
                     ob_refcnt = (\<lambda>p. 0), dealloc = [], err = False, trace = []\<rparr>"

definition plain_call :: reduction_call where
  "plain_call = \<lparr>parse_ok = True, len_args = 1, op_array = Some vector5,
                  indices_obj = None, axes_obj = Axis_absent, otype_obj = Otype_absent,
                  out_arg = None, keepdims_obj = None, initial_obj = None,
                  wheremask_obj = None, check_override = Override_none\<rparr>"

definition scalar0 :: PyArrayObject where
  "scalar0 = \<lparr>data = 3000, dimensions = [], strides = [], descr = double_descr,
               flags = aligned_c_flags\<rparr>"

definition string_scalar :: PyArrayObject where
  "string_scalar = \<lparr>data = 3000, dimensions = [], strides = [],
                     descr = \<lparr>type_num = NPY_STRING, elsize = 4, isnbo = True\<rparr>,
                     flags = aligned_c_flags\<rparr>"

definition matrix23 :: PyArrayObject where
  "matrix23 = \<lparr>data = 4000, dimensions = [2, 3], strides = [24, 8], descr = double_descr,
                flags = NPY_ARRAY_ALIGNED OR NPY_ARRAY_C_CONTIGUOUS\<rparr>"

definition empty_vector :: PyArrayObject where
  "empty_vector = \<lparr>data = 5000, dimensions = [0], strides = [8], descr = double_descr,
                    flags = aligned_c_flags\<rparr>"

definition add_nkernel :: nkernel where
  "add_nkernel xs = Some (sum_list xs)"

definition empty_matrix :: PyArrayObject where
  "empty_matrix = \<lparr>data = 6000, dimensions = [3, 0], strides = [0, 8], descr = double_descr,
                    flags = aligned_c_flags\<rparr>"

text \<open>Collaborators whose iterators report an iteration of size zero over \<open>empty_matrix\<close>.\<close>

definition zero_size_collab :: collab where
  "zero_size_collab =
     plain_collab
       \<lparr>NpyIter_AdvancedNew := (\<lambda>ops dtypes op_axes.
            Some \<lparr>it_operands = [empty_matrix\<lparr>data := 7000, dimensions := [2, 0]\<rparr>, empty_matrix],
                  it_points = [],
                  it_needs_api = False, it_remove_axis_ok = True,
                  it_remove_multi_index_ok = True, it_iternext_ok = True,
                  it_deallocate_ok = True\<rparr>),
        NpyIter_AdvancedNew_elementwise := (\<lambda>ops dtypes order buffersize.
            Some \<lparr>li_operands = [empty_matrix, empty_matrix, empty_matrix\<lparr>data := 7000\<rparr>],
                  li_size = 0, li_blocks = [], li_needs_api = False, li_reset_ok = True,
                  li_iternext_ok = True, li_deallocate_ok = True\<rparr>)\<rparr>"








text \<open>The signature \<^verbatim>\<open>(i),(i)->()\<close> as the parser leaves it in the ufunc, and operands of
  shapes (3,4) and (3,5).\<close>

definition inner1d_ufunc :: PyUFuncObject where
  "inner1d_ufunc = \<lparr>nin = 2, nout = 1, name = Some ''inner1d'', core_enabled = True,
                     loops = [], userloops = None, identity = PyUFunc_None,
                     identity_value = Py_None, type_resolver = (\<lambda>arr odtype. (0, [])),
                     core_num_dim_ix = 1, core_num_dims = [1, 1, 0], core_dim_ixs = [0, 0],
                     core_offsets = [0, 1, 2], core_signature = Some ''(i),(i)->()'',
                     core_dim_sizes = [- 1],
                     core_dim_flags = [UFUNC_CORE_DIM_SIZE_INFERRED]\<rparr>"

definition matrix34 :: PyArrayObject where
  "matrix34 = \<lparr>data = 4000, dimensions = [3, 4], strides = [32, 8],
                descr = \<lparr>type_num = NPY_DOUBLE, elsize = 8, isnbo = True\<rparr>,
                flags = NPY_ARRAY_ALIGNED\<rparr>"

definition matrix35 :: PyArrayObject where
  "matrix35 = \<lparr>data = 6000, dimensions = [3, 5], strides = [40, 8],
                descr = \<lparr>type_num = NPY_DOUBLE, elsize = 8, isnbo = True\<rparr>,
                flags = NPY_ARRAY_ALIGNED\<rparr>"





section \<open>Reduceat: validation of the indices\<close>

lemma check_indices_Some:
  "check_indices ind n = Some bad \<longleftrightarrow>
     (\<exists>i<length ind. ind ! i = bad \<and> (bad < 0 \<or> bad \<ge> n) \<and>
        (\<forall>j<i. 0 \<le> ind ! j \<and> ind ! j < n))"
proof (induction ind)
  case Nil
  then show ?case by simp
next
  case (Cons x xs)
  show ?case
  proof (cases "x < 0 \<or> x \<ge> n")
    case True
    have "(\<exists>i<length (x # xs). (x # xs) ! i = bad \<and> (bad < 0 \<or> bad \<ge> n) \<and>
             (\<forall>j<i. 0 \<le> (x # xs) ! j \<and> (x # xs) ! j < n)) \<longleftrightarrow> x = bad"
    proof
      assume "\<exists>i<length (x # xs). (x # xs) ! i = bad \<and> (bad < 0 \<or> bad \<ge> n) \<and>
             (\<forall>j<i. 0 \<le> (x # xs) ! j \<and> (x # xs) ! j < n)"
      then obtain i where i: "i < length (x # xs)" "(x # xs) ! i = bad"
        "\<forall>j<i. 0 \<le> (x # xs) ! j \<and> (x # xs) ! j < n" by blast
      have "i = 0"
      proof (rule ccontr)
        assume "i \<noteq> 0"
        then have "0 < i" by simp
        with i(3) have "0 \<le> (x # xs) ! 0 \<and> (x # xs) ! 0 < n" by blast
        with True show False by simp
      qed
      with i(2) show "x = bad" by simp
    next
      assume "x = bad"
      with True show "\<exists>i<length (x # xs). (x # xs) ! i = bad \<and> (bad < 0 \<or> bad \<ge> n) \<and>
             (\<forall>j<i. 0 \<le> (x # xs) ! j \<and> (x # xs) ! j < n)"
        by (intro exI[of _ 0]) auto
    qed
    with True show ?thesis by auto
  next
    case False
    have "(\<exists>i<length (x # xs). (x # xs) ! i = bad \<and> (bad < 0 \<or> bad \<ge> n) \<and>
             (\<forall>j<i. 0 \<le> (x # xs) ! j \<and> (x # xs) ! j < n)) \<longleftrightarrow>
          (\<exists>i<length xs. xs ! i = bad \<and> (bad < 0 \<or> bad \<ge> n) \<and>
             (\<forall>j<i. 0 \<le> xs ! j \<and> xs ! j < n))" (is "?L \<longleftrightarrow> ?R")
    proof
      assume ?L
      then obtain i where i: "i < length (x # xs)" "(x # xs) ! i = bad" "bad < 0 \<or> bad \<ge> n"
        "\<forall>j<i. 0 \<le> (x # xs) ! j \<and> (x # xs) ! j < n" by blast
      from False i(2,3) have "i \<noteq> 0" by (cases i) auto
      then obtain k where k: "i = Suc k" by (cases i) auto
      have "\<forall>j<k. 0 \<le> xs ! j \<and> xs ! j < n"
      proof (intro allI impI)
        fix j assume "j < k"
        then have "Suc j < i" using k by simp
        with i(4) have "0 \<le> (x # xs) ! Suc j \<and> (x # xs) ! Suc j < n" by blast
        then show "0 \<le> xs ! j \<and> xs ! j < n" by simp
      qed
      with i k show ?R by (intro exI[of _ k]) auto
    next
      assume ?R
      then obtain k where k: "k < length xs" "xs ! k = bad" "bad < 0 \<or> bad \<ge> n"
        "\<forall>j<k. 0 \<le> xs ! j \<and> xs ! j < n" by blast
      have "\<forall>j<Suc k. 0 \<le> (x # xs) ! j \<and> (x # xs) ! j < n"
      proof (intro allI impI)
        fix j assume "j < Suc k"
        then show "0 \<le> (x # xs) ! j \<and> (x # xs) ! j < n"
          using False k(4) by (cases j) auto
      qed
      with k show ?L by (intro exI[of _ "Suc k"]) auto
    qed
    with False Cons.IH show ?thesis by simp
  qed
qed

text \<open>
  Claim C6.  In every reduceat call the indices are checked against \<open>0 \<le> index < axis_length\<close>
  before anything else happens: if index \<open>i\<close> is the first one out of range, the call
  returns the index error that carries this index and the axis length, and the state it
  returns is the state it was given: no iterator was built, no output allocated, no
  kernel called, no item written and no reference count touched.
\<close>

theorem reduceat_rejects_index_out_of_bounds:
  assumes "i < length reduceat_ind"
    and "reduceat_ind ! i < 0 \<or> reduceat_ind ! i \<ge> PyArray_DIM arr axis"
    and "\<forall>j<i. 0 \<le> reduceat_ind ! j \<and> reduceat_ind ! j < PyArray_DIM arr axis"
  shows "PyUFunc_Reduceat c ufunc arr reduceat_ind out axis otype st =
           (Inl (IndexError_out_of_bounds (reduceat_ind ! i) (ufunc_get_name_cstr ufunc)
                   ''reduceat'' (PyArray_DIM arr axis)), st)"
proof -
  have "check_indices reduceat_ind (PyArray_DIM arr axis) = Some (reduceat_ind ! i)"
    using assms by (subst check_indices_Some) blast
  then show ?thesis by (simp add: PyUFunc_Reduceat_def)
qed

theorem reduceat_rejects_index_out_of_bounds_witness:
  "PyUFunc_Reduceat plain_collab add_ufunc vector5 [0, 7, 2] None 0 NPY_DOUBLE vector5_state =
     (Inl (IndexError_out_of_bounds 7 ''add'' ''reduceat'' 5), vector5_state)"
  using reduceat_rejects_index_out_of_bounds
          [of 1 "[0, 7, 2]" vector5 0 plain_collab add_ufunc None NPY_DOUBLE vector5_state]
  by (simp add: PyArray_DIM_def vector5_def ufunc_get_name_cstr_def add_ufunc_def)

section \<open>The entry point of the reductions\<close>





lemma mark_axes_None:
  assumes "\<forall>a\<in>set axes. 0 \<le> a \<and> nat a < length fl"
  shows "mark_axes axes fl = None \<longleftrightarrow> (\<not> distinct axes \<or> (\<exists>a\<in>set axes. fl ! nat a))"
  using assms
proof (induction axes arbitrary: fl)
  case Nil
  then show ?case by simp
next
  case (Cons a axes)
  have a: "0 \<le> a" "nat a < length fl" using Cons.prems by auto
  show ?case
  proof (cases "fl ! nat a")
    case True
    then show ?thesis by simp
  next
    case False
    have pre: "\<forall>b\<in>set axes. 0 \<le> b \<and> nat b < length (fl[nat a := True])"
      using Cons.prems by auto
    have "(\<exists>b\<in>set axes. fl[nat a := True] ! nat b) \<longleftrightarrow> (a \<in> set axes \<or> (\<exists>b\<in>set axes. fl ! nat b))"
    proof -
      have "\<And>b. b \<in> set axes \<Longrightarrow> fl[nat a := True] ! nat b \<longleftrightarrow> (b = a \<or> fl ! nat b)"
      proof -
        fix b assume "b \<in> set axes"
        then have b: "0 \<le> b" "nat b < length fl" using Cons.prems by auto
        show "fl[nat a := True] ! nat b \<longleftrightarrow> (b = a \<or> fl ! nat b)"
          using a b by (auto simp: nth_list_update)
      qed
      then show ?thesis by blast
    qed
    with Cons.IH[OF pre] False show ?thesis by auto
  qed
qed

lemma Reduce_duplicate:
  assumes "\<not> distinct axes" and "\<forall>a\<in>set axes. 0 \<le> a \<and> a < PyArray_NDIM arr"
  shows "PyUFunc_Reduce c ufunc arr out axes odtype keepdims initial wheremask st =
          (Inl DuplicateAxis, st)"
proof -
  have "\<forall>a\<in>set axes. 0 \<le> a \<and> nat a < length (replicate (nat (PyArray_NDIM arr)) False)"
    using assms(2) by auto
  from mark_axes_None[OF this] assms(1)
  have "mark_axes axes (replicate (nat (PyArray_NDIM arr)) False) = None" by simp
  then show ?thesis by (simp add: PyUFunc_Reduce_def Let_def)
qed

lemma check_and_adjust_axis_range:
  "check_and_adjust_axis a ndim = Some a' \<Longrightarrow> 0 \<le> a' \<and> a' < ndim"
  by (auto simp: check_and_adjust_axis_def split: if_splits)

lemma convert_axes_tuple_Inr:
  "convert_axes_tuple items ndim = Inr axes \<Longrightarrow>
     length axes = length items \<and>
     (\<forall>i<length items. \<exists>a. items ! i = Some a \<and> check_and_adjust_axis a ndim = Some (axes ! i))"
proof (induction items arbitrary: axes)
  case Nil
  then show ?case by simp
next
  case (Cons x xs)
  from Cons.prems obtain a a' rest where x: "x = Some a"
    and adj: "check_and_adjust_axis a ndim = Some a'"
    and rest: "convert_axes_tuple xs ndim = Inr rest" and axes: "axes = a' # rest"
    by (auto split: option.splits sum.splits)
  from Cons.IH[OF rest] have len: "length rest = length xs"
    and ih: "\<forall>i<length xs. \<exists>a. xs ! i = Some a \<and> check_and_adjust_axis a ndim = Some (rest ! i)"
    by auto
  have "\<forall>i<length (x # xs). \<exists>b. (x # xs) ! i = Some b \<and>
          check_and_adjust_axis b ndim = Some (axes ! i)"
  proof (intro allI impI)
    fix i assume i: "i < length (x # xs)"
    show "\<exists>b. (x # xs) ! i = Some b \<and> check_and_adjust_axis b ndim = Some (axes ! i)"
    proof (cases i)
      case 0
      then show ?thesis using x adj axes by simp
    next
      case (Suc k)
      then have "k < length xs" using i by simp
      with ih Suc axes show ?thesis by simp
    qed
  qed
  with len axes show ?case by simp
qed

lemma convert_axes_tuple_repeated:
  assumes "convert_axes_tuple items ndim = Inr axes"
    and "i < j" "j < length items" "items ! i = items ! j"
  shows "\<not> distinct axes \<and> (\<forall>a\<in>set axes. 0 \<le> a \<and> a < ndim)"
proof -
  from convert_axes_tuple_Inr[OF assms(1)] have len: "length axes = length items"
    and all: "\<forall>i<length items. \<exists>a. items ! i = Some a \<and>
                check_and_adjust_axis a ndim = Some (axes ! i)" by auto
  from all assms(2,3) obtain a where a: "items ! i = Some a"
    "check_and_adjust_axis a ndim = Some (axes ! i)" by (meson less_trans)
  from all assms(3) obtain b where b: "items ! j = Some b"
    "check_and_adjust_axis b ndim = Some (axes ! j)" by blast
  from a b assms(4) have "axes ! i = axes ! j" by simp
  with assms(2,3) len have nd: "\<not> distinct axes"
    by (metis distinct_conv_nth less_trans nat_neq_iff)
  have "\<forall>a\<in>set axes. 0 \<le> a \<and> a < ndim"
  proof
    fix x assume "x \<in> set axes"
    then obtain k where k: "k < length axes" "axes ! k = x" by (auto simp: in_set_conv_nth)
    with all len obtain y where "check_and_adjust_axis y ndim = Some x" by metis
    then show "0 \<le> x \<and> x < ndim" by (rule check_and_adjust_axis_range)
  qed
  with nd show ?thesis by simp
qed

lemma wrap_output_Inl [simp]: "wrap_output c (Inl e, st) = (Inl e, st)"
  by (simp add: wrap_output_def)

lemma GenericReduction_reduce_repeated_axis:
  assumes "axes_obj call = Axis_tuple items" "i < j" "j < length items" "items ! i = items ! j"
    and "check_override call = Override_none"
  shows "\<exists>e. PyUFunc_GenericReduction c ufunc_ptr call UFUNC_REDUCE st = (Inl e, st)"
proof -
  have disp: "\<exists>e. reduction_dispatch c ufunc UFUNC_REDUCE mp indices out axes otype keepdims
                 initial wheremask st = (Inl e, st)"
    if "convert_axes (axes_obj call) (PyArray_NDIM mp) = Inr axes"
    for ufunc mp indices out axes otype keepdims initial wheremask
  proof -
    from that assms(1) have "convert_axes_tuple items (PyArray_NDIM mp) = Inr axes"
      by (auto simp: convert_axes_def split: if_splits)
    from convert_axes_tuple_repeated[OF this assms(2,3,4)]
    show ?thesis by (auto simp: reduction_dispatch_def Reduce_duplicate)
  qed
  have body: "\<exists>e. reduction_body c ufunc call UFUNC_REDUCE parsed st = (Inl e, st)" for ufunc parsed
  proof -
    obtain indices otype out keepdims wheremask mp
      where p: "parsed = (indices, otype, out, keepdims, wheremask, mp)" by (cases parsed) auto
    show ?thesis
    proof (cases "convert_axes (axes_obj call) (PyArray_NDIM mp)")
      case (Inl e)
      then show ?thesis by (simp add: reduction_body_def p Let_def split: option.split)
    next
      case (Inr axes)
      from disp[OF Inr] obtain e where
        "reduction_dispatch c ufunc UFUNC_REDUCE mp indices out axes
           (reduction_otype c ufunc mp otype out) keepdims (initial_obj call) wheremask st =
         (Inl e, st)" by blast
      then show ?thesis by (simp add: reduction_body_def p Let_def Inr)
    qed
  qed
  show ?thesis
    unfolding PyUFunc_GenericReduction_def
    by (simp add: assms(5) body split: option.split sum.split)
qed

text \<open>
  Claim C5.  A reduce, accumulate or reduceat call on an operation with an enabled core
  signature, or with other than two inputs, or other than one output, returns an error
  and leaves the state as it was; these three tests come before everything else in the
  entry point.  \<^verbatim>\<open>PyUFunc_Reduce\<close>, given axes within the rank of which one occurs more than
  once, returns the duplicate-axis error before it does anything else.  At the entry point,
  a reduce call that the engine handles and whose \<^verbatim>\<open>axis\<close> tuple names the same axis at two
  positions returns an error with the state unchanged.
\<close>

theorem reduction_rejected_before_computation:
  "(core_enabled ufunc \<or> nin ufunc \<noteq> 2 \<or> nout ufunc \<noteq> 1 \<longrightarrow>
      (\<exists>e. PyUFunc_GenericReduction c (Some ufunc) call operation st = (Inl e, st))) \<and>
   (\<not> distinct axes \<and> (\<forall>a\<in>set axes. 0 \<le> a \<and> a < PyArray_NDIM arr) \<longrightarrow>
      PyUFunc_Reduce c ufunc arr out axes odtype keepdims initial wheremask st =
        (Inl DuplicateAxis, st)) \<and>
   (axes_obj call = Axis_tuple items \<and> i < j \<and> j < length items \<and> items ! i = items ! j \<and>
    check_override call = Override_none \<longrightarrow>
      (\<exists>e. PyUFunc_GenericReduction c ufunc_ptr call UFUNC_REDUCE st = (Inl e, st)))"
proof (intro conjI impI)
  assume "core_enabled ufunc \<or> nin ufunc \<noteq> 2 \<or> nout ufunc \<noteq> 1"
  then show "\<exists>e. PyUFunc_GenericReduction c (Some ufunc) call operation st = (Inl e, st)"
    by (auto simp: PyUFunc_GenericReduction_def)
next
  assume "\<not> distinct axes \<and> (\<forall>a\<in>set axes. 0 \<le> a \<and> a < PyArray_NDIM arr)"
  then show "PyUFunc_Reduce c ufunc arr out axes odtype keepdims initial wheremask st =
        (Inl DuplicateAxis, st)"
    using Reduce_duplicate by blast
next
  assume "axes_obj call = Axis_tuple items \<and> i < j \<and> j < length items \<and>
    items ! i = items ! j \<and> check_override call = Override_none"
  then show "\<exists>e. PyUFunc_GenericReduction c ufunc_ptr call UFUNC_REDUCE st = (Inl e, st)"
    using GenericReduction_reduce_repeated_axis by blast
qed

theorem reduction_rejected_before_computation_witness:
  "(\<exists>e. PyUFunc_GenericReduction plain_collab (Some (add_ufunc\<lparr>nin := 1\<rparr>))
          (plain_call\<lparr>axes_obj := Axis_tuple [Some 0, Some (- 1), Some 0]\<rparr>)
          UFUNC_ACCUMULATE vector5_state = (Inl e, vector5_state)) \<and>
   PyUFunc_Reduce plain_collab (add_ufunc\<lparr>nin := 1\<rparr>) vector5 None [0, 0] None 0 None None
     vector5_state = (Inl DuplicateAxis, vector5_state) \<and>
   (\<exists>e. PyUFunc_GenericReduction plain_collab (Some add_ufunc)
          (plain_call\<lparr>axes_obj := Axis_tuple [Some 0, Some (- 1), Some 0]\<rparr>)
          UFUNC_REDUCE vector5_state = (Inl e, vector5_state))"
  using reduction_rejected_before_computation
          [where ufunc = "add_ufunc\<lparr>nin := 1\<rparr>" and c = plain_collab
             and call = "plain_call\<lparr>axes_obj := Axis_tuple [Some 0, Some (- 1), Some 0]\<rparr>"
             and operation = UFUNC_ACCUMULATE and st = vector5_state and axes = "[0, 0]"
             and arr = vector5 and out = None and odtype = None and keepdims = 0
             and initial = None and wheremask = None
             and items = "[Some 0, Some (- 1), Some 0]" and i = 0 and j = 2
             and ufunc_ptr = "Some add_ufunc"]
  by (simp add: add_ufunc_def PyArray_NDIM_def vector5_def plain_call_def)

lemma finish_parsing_mp:
  "finish_parsing c call o' = Some (indices, otype, out, keepdims, wheremask, mp) \<Longrightarrow>
     op_array call = Some mp"
  by (simp add: finish_parsing_def split: option.splits otype_arg.splits)

lemma dispatch_rank0:
  assumes "PyArray_NDIM mp = 0" "operation \<noteq> UFUNC_REDUCE"
  shows "reduction_dispatch c ufunc operation mp indices out axes otype keepdims initial wheremask st
           = (Inl (ScalarOperand (reduce_type operation)), st)"
  using assms by (cases operation) (simp_all add: reduction_dispatch_def reduce_type_def)

lemma convert_axes_tuple_rank0:
  "convert_axes_tuple items 0 = Inr axes \<longleftrightarrow> items = [] \<and> axes = []"
  by (cases items) (auto simp: check_and_adjust_axis_def split: option.splits)

lemma convert_axes_rank0:
  "convert_axes obj 0 = Inr axes \<longleftrightarrow>
     axes = [] \<and> (obj = Axis_absent \<or> obj = Axis_None \<or> obj = Axis_tuple [] \<or>
                 obj = Axis_object (Some 0) \<or> obj = Axis_object (Some (- 1)))"
  by (cases obj)
     (auto simp: convert_axes_def convert_axes_tuple_rank0 check_and_adjust_axis_def
                 NPY_MAXDIMS_def split: option.splits)


text \<open>
  Claim C10, as the code has it.  For a rank-0 operand of a call that the engine handles:

  \<^item> Reduce with the integer axis 0 or -1 is accepted: when the checks that come before the
    axis pass, the call is \<^verbatim>\<open>PyUFunc_Reduce\<close> over no axes at all, with its result wrapped;
    and in every case the call behaves exactly as reduce with the empty axis tuple.

  \<^item> Accumulate and reduceat always return an error and leave the state unchanged; that
    error is "cannot accumulate/reduceat on a scalar" when the checks that come before
    pass, in particular when the axis is omitted, \<^verbatim>\<open>None\<close>, \<^verbatim>\<open>()\<close>, 0 or -1, and the error of the
    earlier check otherwise.
\<close>

theorem rank0_operand:
  assumes mp: "op_array call = Some mp" and nd: "PyArray_NDIM mp = 0"
    and ov: "check_override call = Override_none"
  shows "(axes_obj call = Axis_object (Some a) \<and> (a = 0 \<or> a = - 1) \<and>
          u = Some ufunc \<and> \<not> core_enabled ufunc \<and> nin ufunc = 2 \<and> nout ufunc = 1 \<and>
          parse_ok call \<and> normalize_out (len_args call \<ge> 4) (out_arg call) = Inr out_obj' \<and>
          finish_parsing c call out_obj' = Some (indices, otype, out, keepdims, wheremask, mp) \<and>
          \<not> PyTypeNum_ISFLEXIBLE (type_num (descr mp)) \<and>
          (\<forall>d. otype = Some d \<longrightarrow> \<not> PyTypeNum_ISFLEXIBLE (type_num d)) \<and>
          reduction_otype c ufunc mp otype out = Some rtype \<longrightarrow>
            PyUFunc_GenericReduction c u call UFUNC_REDUCE st =
              wrap_output c (PyUFunc_Reduce c ufunc mp out [] (Some rtype) keepdims
                               (initial_obj call) wheremask st)) \<and>
         (axes_obj call = Axis_object (Some a) \<and> (a = 0 \<or> a = - 1) \<longrightarrow>
            PyUFunc_GenericReduction c u call UFUNC_REDUCE st =
            PyUFunc_GenericReduction c u (call\<lparr>axes_obj := Axis_tuple []\<rparr>) UFUNC_REDUCE st) \<and>
         (operation \<noteq> UFUNC_REDUCE \<longrightarrow>
            (\<exists>e. PyUFunc_GenericReduction c u call operation st = (Inl e, st))) \<and>
         (operation \<noteq> UFUNC_REDUCE \<and> u = Some ufunc \<and> \<not> core_enabled ufunc \<and> nin ufunc = 2 \<and>
          nout ufunc = 1 \<and> parse_ok call \<and>
          normalize_out (len_args call \<ge> (if operation = UFUNC_REDUCEAT then 5 else 4))
            (out_arg call) = Inr out_obj' \<and>
          finish_parsing c call out_obj' = Some (indices, otype, out, keepdims, wheremask, mp) \<and>
          \<not> PyTypeNum_ISFLEXIBLE (type_num (descr mp)) \<and>
          (\<forall>d. otype = Some d \<longrightarrow> \<not> PyTypeNum_ISFLEXIBLE (type_num d)) \<and>
          (axes_obj call = Axis_absent \<or> axes_obj call = Axis_None \<or>
           axes_obj call = Axis_tuple [] \<or> axes_obj call = Axis_object (Some 0) \<or>
           axes_obj call = Axis_object (Some (- 1))) \<longrightarrow>
            PyUFunc_GenericReduction c u call operation st =
              (Inl (ScalarOperand (reduce_type operation)), st))"
proof (intro conjI impI)
  assume h: "axes_obj call = Axis_object (Some a) \<and> (a = 0 \<or> a = - 1) \<and>
          u = Some ufunc \<and> \<not> core_enabled ufunc \<and> nin ufunc = 2 \<and> nout ufunc = 1 \<and>
          parse_ok call \<and> normalize_out (len_args call \<ge> 4) (out_arg call) = Inr out_obj' \<and>
          finish_parsing c call out_obj' = Some (indices, otype, out, keepdims, wheremask, mp) \<and>
          \<not> PyTypeNum_ISFLEXIBLE (type_num (descr mp)) \<and>
          (\<forall>d. otype = Some d \<longrightarrow> \<not> PyTypeNum_ISFLEXIBLE (type_num d)) \<and>
          reduction_otype c ufunc mp otype out = Some rtype"
  then have ca: "convert_axes (axes_obj call) 0 = Inr []"
    using convert_axes_rank0[of "axes_obj call" "[]"] by blast
  have flex: "\<not> (case otype of None \<Rightarrow> False | Some d \<Rightarrow> PyTypeNum_ISFLEXIBLE (type_num d))"
    using h by (cases otype) auto
  have disp: "reduction_dispatch c ufunc UFUNC_REDUCE mp indices out [] (Some rtype) keepdims
                (initial_obj call) wheremask st =
              PyUFunc_Reduce c ufunc mp out [] (Some rtype) keepdims (initial_obj call) wheremask st"
    by (simp add: reduction_dispatch_def split: prod.split)
  show "PyUFunc_GenericReduction c u call UFUNC_REDUCE st =
              wrap_output c (PyUFunc_Reduce c ufunc mp out [] (Some rtype) keepdims
                               (initial_obj call) wheremask st)"
    using h ca flex
    by (simp add: PyUFunc_GenericReduction_def reduction_body_def Let_def ov nd disp)
next
  assume a: "axes_obj call = Axis_object (Some a) \<and> (a = 0 \<or> a = - 1)"
  have fp: "finish_parsing c (call\<lparr>axes_obj := Axis_tuple []\<rparr>) o' = finish_parsing c call o'" for o'
    by (simp add: finish_parsing_def cong: option.case_cong)
  have body: "reduction_body c ufunc (call\<lparr>axes_obj := Axis_tuple []\<rparr>) UFUNC_REDUCE parsed st =
              reduction_body c ufunc call UFUNC_REDUCE parsed st"
    if "finish_parsing c call o' = Some parsed" for ufunc parsed o'
  proof -
    obtain indices otype out keepdims wheremask mp'
      where p: "parsed = (indices, otype, out, keepdims, wheremask, mp')" by (cases parsed) auto
    from finish_parsing_mp[OF that[unfolded p]] mp have "mp' = mp" by simp
    with nd a have "convert_axes (axes_obj call) (PyArray_NDIM mp') =
        convert_axes (Axis_tuple []) (PyArray_NDIM mp')"
      by (auto simp: convert_axes_def NPY_MAXDIMS_def)
    then show ?thesis
      by (simp add: reduction_body_def p cong: sum.case_cong option.case_cong if_cong)
  qed
  show "PyUFunc_GenericReduction c u call UFUNC_REDUCE st =
        PyUFunc_GenericReduction c u (call\<lparr>axes_obj := Axis_tuple []\<rparr>) UFUNC_REDUCE st"
    unfolding PyUFunc_GenericReduction_def
    by (simp add: fp split: option.split sum.split override_outcome.split) (metis body)
next
  assume op: "operation \<noteq> UFUNC_REDUCE"
  have body: "\<exists>e. reduction_body c ufunc call operation parsed st = (Inl e, st)"
    if "finish_parsing c call o' = Some parsed" for ufunc parsed o'
  proof -
    obtain indices otype out keepdims wheremask mp'
      where p: "parsed = (indices, otype, out, keepdims, wheremask, mp')" by (cases parsed) auto
    from finish_parsing_mp[OF that[unfolded p]] mp have "mp' = mp" by simp
    then show ?thesis using dispatch_rank0[OF nd op]
      by (simp add: reduction_body_def p Let_def split: option.split sum.split)
  qed
  show "\<exists>e. PyUFunc_GenericReduction c u call operation st = (Inl e, st)"
  proof -
    define k where "k = (len_args call \<ge> (if operation = UFUNC_REDUCEAT then 5 else 4))"
    show ?thesis
      unfolding PyUFunc_GenericReduction_def k_def[symmetric]
      by (simp add: ov split: option.split sum.split) (meson body)
  qed
next
  assume h: "operation \<noteq> UFUNC_REDUCE \<and> u = Some ufunc \<and> \<not> core_enabled ufunc \<and> nin ufunc = 2 \<and>
          nout ufunc = 1 \<and> parse_ok call \<and>
          normalize_out (len_args call \<ge> (if operation = UFUNC_REDUCEAT then 5 else 4))
            (out_arg call) = Inr out_obj' \<and>
          finish_parsing c call out_obj' = Some (indices, otype, out, keepdims, wheremask, mp) \<and>
          \<not> PyTypeNum_ISFLEXIBLE (type_num (descr mp)) \<and>
          (\<forall>d. otype = Some d \<longrightarrow> \<not> PyTypeNum_ISFLEXIBLE (type_num d)) \<and>
          (axes_obj call = Axis_absent \<or> axes_obj call = Axis_None \<or>
           axes_obj call = Axis_tuple [] \<or> axes_obj call = Axis_object (Some 0) \<or>
           axes_obj call = Axis_object (Some (- 1)))"
  then have ca: "convert_axes (axes_obj call) 0 = Inr []"
    using convert_axes_rank0[of "axes_obj call" "[]"] by blast
  have flex: "\<not> (case otype of None \<Rightarrow> False | Some d \<Rightarrow> PyTypeNum_ISFLEXIBLE (type_num d))"
    using h by (cases otype) auto
  show "PyUFunc_GenericReduction c u call operation st =
              (Inl (ScalarOperand (reduce_type operation)), st)"
    using h ca flex dispatch_rank0[OF nd, of operation]
    by (simp add: PyUFunc_GenericReduction_def reduction_body_def Let_def ov nd)
qed

text \<open>
  Against claim C10 as stated: accumulate on a rank-0 operand with \<^verbatim>\<open>axis=1\<close> fails with the
  axis error of \<^verbatim>\<open>check_and_adjust_axis\<close>, and accumulate on a rank-0 string operand fails with
  the flexible-type error; neither is the "cannot accumulate on a scalar" error.
\<close>

theorem rank0_accumulate_other_error:
  "PyUFunc_GenericReduction plain_collab (Some add_ufunc)
     (plain_call\<lparr>op_array := Some scalar0, axes_obj := Axis_object (Some 1)\<rparr>)
     UFUNC_ACCUMULATE vector5_state = (Inl (AxisError 1 0), vector5_state) \<and>
   PyUFunc_GenericReduction plain_collab (Some add_ufunc)
     (plain_call\<lparr>op_array := Some string_scalar\<rparr>)
     UFUNC_ACCUMULATE vector5_state = (Inl (FlexibleType ''accumulate''), vector5_state) \<and>
   PyArray_NDIM scalar0 = 0 \<and> PyArray_NDIM string_scalar = 0 \<and>
   AxisError 1 0 \<noteq> ScalarOperand ''accumulate'' \<and>
   FlexibleType ''accumulate'' \<noteq> ScalarOperand ''accumulate''"
  by (simp add: PyUFunc_GenericReduction_def reduction_body_def add_ufunc_def plain_call_def
      normalize_out_def finish_parsing_def scalar0_def string_scalar_def PyArray_NDIM_def
      double_descr_def PyTypeNum_ISFLEXIBLE_def NPY_STRING_def NPY_VOID_def NPY_DOUBLE_def
      convert_axes_def check_and_adjust_axis_def reduce_type_def)

theorem rank0_operand_witness:
  "PyUFunc_GenericReduction plain_collab (Some add_ufunc)
     (plain_call\<lparr>op_array := Some scalar0, axes_obj := Axis_object (Some (- 1))\<rparr>)
     UFUNC_REDUCE vector5_state = (Inr (Wrapped scalar0), vector5_state) \<and>
   PyUFunc_GenericReduction plain_collab (Some add_ufunc)
     (plain_call\<lparr>op_array := Some scalar0, axes_obj := Axis_object (Some (- 1))\<rparr>)
     UFUNC_REDUCE vector5_state =
   PyUFunc_GenericReduction plain_collab (Some add_ufunc)
     (plain_call\<lparr>op_array := Some scalar0, axes_obj := Axis_tuple []\<rparr>)
     UFUNC_REDUCE vector5_state \<and>
   (\<exists>e. PyUFunc_GenericReduction plain_collab (Some add_ufunc)
          (plain_call\<lparr>op_array := Some scalar0, axes_obj := Axis_object (Some (- 1))\<rparr>)
          UFUNC_ACCUMULATE vector5_state = (Inl e, vector5_state)) \<and>
   PyUFunc_GenericReduction plain_collab (Some add_ufunc)
     (plain_call\<lparr>op_array := Some scalar0, axes_obj := Axis_object (Some (- 1))\<rparr>)
     UFUNC_ACCUMULATE vector5_state = (Inl (ScalarOperand ''accumulate''), vector5_state)"
proof -
  let ?call = "plain_call\<lparr>op_array := Some scalar0, axes_obj := Axis_object (Some (- 1))\<rparr>"
  have red: "wrap_output plain_collab
               (PyUFunc_Reduce plain_collab add_ufunc scalar0 None [] (Some double_descr) 0
                  None None vector5_state) =
             (Inr (Wrapped scalar0), vector5_state)"
    by (simp add: wrap_output_def PyUFunc_Reduce_def plain_collab_def add_ufunc_def
        get_identity_def PyUFunc_Zero_def PyUFunc_One_def reduce_type_resolver_def Let_def
        scalar0_def PyArray_NDIM_def plain_call_def)
  have pre: "normalize_out (4 \<le> len_args ?call) (out_arg ?call) = Inr None"
    "finish_parsing plain_collab ?call None = Some (None, None, None, 0, None, scalar0)"
    "initial_obj ?call = None" "op_array ?call = Some scalar0"
    "check_override ?call = Override_none" "parse_ok ?call"
    "axes_obj ?call = Axis_object (Some (- 1))"
    by (simp_all add: plain_call_def normalize_out_def finish_parsing_def)
  have ufn: "\<not> core_enabled add_ufunc" "nin add_ufunc = 2" "nout add_ufunc = 1"
    by (simp_all add: add_ufunc_def)
  have arr: "PyArray_NDIM scalar0 = 0" "\<not> PyTypeNum_ISFLEXIBLE (type_num (descr scalar0))"
    "reduction_otype plain_collab add_ufunc scalar0 None None = Some double_descr"
    by (simp_all add: scalar0_def PyArray_NDIM_def double_descr_def PyTypeNum_ISFLEXIBLE_def
        NPY_STRING_def NPY_VOID_def NPY_DOUBLE_def reduction_otype_def
        default_reduction_typenum_def plain_collab_def PyTypeNum_ISBOOL_def
        PyTypeNum_ISINTEGER_def NPY_BOOL_def NPY_BYTE_def NPY_ULONGLONG_def Let_def)
  have pos: "normalize_out (4 \<le> len_args plain_call) (out_arg plain_call) = Inr None"
    by (simp add: plain_call_def normalize_out_def)
  note main = rank0_operand
          [where call = ?call
             and mp = scalar0 and a = "- 1" and c = plain_collab and u = "Some add_ufunc"
             and st = vector5_state and operation = UFUNC_ACCUMULATE and ufunc = add_ufunc
             and out_obj' = None and indices = None and otype = None and out = None
             and keepdims = 0 and wheremask = None and rtype = double_descr,
           OF pre(4) arr(1) pre(5)]
  have c1: "PyUFunc_GenericReduction plain_collab (Some add_ufunc) ?call UFUNC_REDUCE
              vector5_state =
            wrap_output plain_collab
              (PyUFunc_Reduce plain_collab add_ufunc scalar0 None [] (Some double_descr) 0
                 (initial_obj ?call) None vector5_state)"
    by (rule main[THEN conjunct1, rule_format]) (intro conjI; simp add: pre pos ufn arr)
  have c2: "PyUFunc_GenericReduction plain_collab (Some add_ufunc) ?call UFUNC_REDUCE
              vector5_state =
            PyUFunc_GenericReduction plain_collab (Some add_ufunc)
              (?call\<lparr>axes_obj := Axis_tuple []\<rparr>) UFUNC_REDUCE vector5_state"
    by (rule main[THEN conjunct2, THEN conjunct1, rule_format]) (simp add: pre)
  have c3: "\<exists>e. PyUFunc_GenericReduction plain_collab (Some add_ufunc) ?call UFUNC_ACCUMULATE
                vector5_state = (Inl e, vector5_state)"
    by (rule main[THEN conjunct2, THEN conjunct2, THEN conjunct1, rule_format]) simp
  have c4: "PyUFunc_GenericReduction plain_collab (Some add_ufunc) ?call UFUNC_ACCUMULATE
              vector5_state = (Inl (ScalarOperand (reduce_type UFUNC_ACCUMULATE)), vector5_state)"
    by (rule main[THEN conjunct2, THEN conjunct2, THEN conjunct2, rule_format])
       (intro conjI; simp add: pre pos ufn arr)
  from c1 c2 c3 c4 show ?thesis
    by (simp add: pre(3) red reduce_type_def)
qed
section \<open>The trivial-loop fast path and the iterator loop\<close>

lemma CompareLists_eq:
  "int (length l1) = n \<Longrightarrow> int (length l2) = n \<Longrightarrow> PyArray_CompareLists l1 l2 n \<longleftrightarrow> l1 = l2"
  by (auto simp: PyArray_CompareLists_def)

text \<open>One step of the scan on an operand of rank at least one, when it does not reject.\<close>

lemma scan_operands_step:
  assumes "scan_operands (Some a # ops) iop oo nd sh fs = Some res"
    and "PyArray_NDIM a \<noteq> 0" and "nd \<noteq> 0 \<longrightarrow> int (length sh) = nd"
  shows "\<exists>oo1 fs1. scan_operands ops (iop + 1) oo1 (PyArray_NDIM a) (dimensions a) fs1 = Some res \<and>
           (nd \<noteq> 0 \<longrightarrow> nd = PyArray_NDIM a \<and> sh = dimensions a) \<and>
           (oo \<noteq> 0 \<longrightarrow> oo1 = oo) \<and>
           (PyArray_NDIM a \<noteq> 1 \<longrightarrow>
              oo1 = flags a AND (NPY_ARRAY_C_CONTIGUOUS OR NPY_ARRAY_F_CONTIGUOUS) \<and> oo1 \<noteq> 0) \<and>
           (PyArray_NDIM a = 1 \<longrightarrow> oo1 = oo) \<and>
           length fs1 = length fs \<and> (\<forall>j<iop. fs1 ! j = fs ! j)"
proof -
  have len_a: "int (length (dimensions a)) = PyArray_NDIM a" by (simp add: PyArray_NDIM_def)
  from assms(1,2) have ok1: "\<not> (nd \<noteq> 0 \<and> PyArray_NDIM a \<noteq> nd)"
    by (auto simp: Let_def split: if_splits)
  from assms(1,2) ok1 have ok2:
    "\<not> (nd \<noteq> 0 \<and> \<not> PyArray_CompareLists sh (dimensions a) (PyArray_NDIM a))"
    by (auto simp: Let_def split: if_splits)
  have nd1: "(if nd = 0 then PyArray_NDIM a else nd) = PyArray_NDIM a" using ok1 by auto
  have sh1: "(if nd = 0 then dimensions a else sh) = dimensions a"
  proof (cases "nd = 0")
    case True then show ?thesis by simp
  next
    case nz: False
    with ok1 assms(3) have "int (length sh) = PyArray_NDIM a" by auto
    with ok2 nz len_a show ?thesis by (simp add: CompareLists_eq)
  qed
  have shape: "nd \<noteq> 0 \<longrightarrow> nd = PyArray_NDIM a \<and> sh = dimensions a"
    using nd1 sh1 by (auto split: if_splits)
  show ?thesis
  proof (cases "PyArray_NDIM a = 1")
    case True
    with assms(1,2) ok1 ok2 shape
    have "scan_operands ops (iop + 1) oo (PyArray_NDIM a) (dimensions a) (fs[iop := strides a ! 0])
            = Some res"
      by (cases "nd = 0") (auto simp: Let_def split: if_splits)
    with True shape show ?thesis by (intro exI[of _ oo] exI[of _ "fs[iop := strides a ! 0]"]) simp
  next
    case False
    define op_order where
      "op_order = flags a AND (NPY_ARRAY_C_CONTIGUOUS OR NPY_ARRAY_F_CONTIGUOUS)"
    from assms(1,2) ok1 ok2 False have nz: "op_order \<noteq> 0"
      by (auto simp: Let_def op_order_def split: if_splits)
    from assms(1,2) ok1 ok2 False nz have same: "oo \<noteq> 0 \<longrightarrow> oo = op_order"
      by (auto simp: Let_def op_order_def split: if_splits)
    from assms(1,2) ok1 ok2 False nz same shape
    have "scan_operands ops (iop + 1) op_order (PyArray_NDIM a) (dimensions a)
            (fs[iop := PyArray_ITEMSIZE a]) = Some res"
      by (cases "nd = 0") (auto simp: Let_def op_order_def split: if_splits)
    with False shape nz same show ?thesis
      by (intro exI[of _ op_order] exI[of _ "fs[iop := PyArray_ITEMSIZE a]"])
         (auto simp: op_order_def)
  qed
qed

lemma scan_operands_uniform:
  assumes "scan_operands ops iop oo nd sh fs = Some (oo', nd', sh', fs')"
    and "nd \<noteq> 0 \<longrightarrow> int (length sh) = nd"
  shows "(nd \<noteq> 0 \<longrightarrow> nd' = nd \<and> sh' = sh) \<and> (oo \<noteq> 0 \<longrightarrow> oo' = oo) \<and>
         (\<forall>a. Some a \<in> set ops \<and> PyArray_NDIM a \<noteq> 0 \<longrightarrow> dimensions a = sh') \<and>
         (\<forall>a. Some a \<in> set ops \<and> PyArray_NDIM a \<noteq> 0 \<and> PyArray_NDIM a \<noteq> 1 \<longrightarrow>
               flags a AND (NPY_ARRAY_C_CONTIGUOUS OR NPY_ARRAY_F_CONTIGUOUS) = oo' \<and> oo' \<noteq> 0)"
  using assms
proof (induction ops arbitrary: iop oo nd sh fs)
  case Nil
  then show ?case by simp
next
  case (Cons x ops)
  show ?case
  proof (cases x)
    case None
    with Cons.prems have "scan_operands ops (iop + 1) oo nd sh fs = Some (oo', nd', sh', fs')"
      by simp
    from Cons.IH[OF this Cons.prems(2)] None show ?thesis by simp
  next
    case (Some a)
    show ?thesis
    proof (cases "PyArray_NDIM a = 0")
      case True
      with Cons.prems Some
      have "scan_operands ops (iop + 1) oo nd sh (fs[iop := 0]) = Some (oo', nd', sh', fs')"
        by (simp add: Let_def)
      from Cons.IH[OF this Cons.prems(2)] Some True show ?thesis by auto
    next
      case False
      from scan_operands_step[OF Cons.prems(1)[unfolded Some] False Cons.prems(2)]
      obtain oo1 fs1 where
        rec: "scan_operands ops (iop + 1) oo1 (PyArray_NDIM a) (dimensions a) fs1
                = Some (oo', nd', sh', fs')"
        and shape: "nd \<noteq> 0 \<longrightarrow> nd = PyArray_NDIM a \<and> sh = dimensions a"
        and keep: "oo \<noteq> 0 \<longrightarrow> oo1 = oo"
        and ord: "PyArray_NDIM a \<noteq> 1 \<longrightarrow>
              oo1 = flags a AND (NPY_ARRAY_C_CONTIGUOUS OR NPY_ARRAY_F_CONTIGUOUS) \<and> oo1 \<noteq> 0"
        by blast
      have len: "PyArray_NDIM a \<noteq> 0 \<longrightarrow> int (length (dimensions a)) = PyArray_NDIM a"
        by (simp add: PyArray_NDIM_def)
      from Cons.IH[OF rec len] False
      have ih1: "nd' = PyArray_NDIM a" "sh' = dimensions a"
        and ih2: "oo1 \<noteq> 0 \<longrightarrow> oo' = oo1"
        and ih3: "\<forall>b. Some b \<in> set ops \<and> PyArray_NDIM b \<noteq> 0 \<longrightarrow> dimensions b = sh'"
        and ih4: "\<forall>b. Some b \<in> set ops \<and> PyArray_NDIM b \<noteq> 0 \<and> PyArray_NDIM b \<noteq> 1 \<longrightarrow>
               flags b AND (NPY_ARRAY_C_CONTIGUOUS OR NPY_ARRAY_F_CONTIGUOUS) = oo' \<and> oo' \<noteq> 0"
        by auto
      show ?thesis
        using Some ih1 ih2 ih3 ih4 shape keep ord by auto
    qed
  qed
qed

lemma scan_operands_strides:
  assumes "scan_operands ops iop oo nd sh fs = Some (oo', nd', sh', fs')"
  shows "length fs' = length fs \<and> (\<forall>j<iop. fs' ! j = fs ! j) \<and>
         (\<forall>k<length ops. iop + k < length fs \<longrightarrow>
            (\<forall>a. ops ! k = Some a \<and> PyArray_NDIM a = 0 \<longrightarrow> fs' ! (iop + k) = 0))"
  using assms
proof (induction ops arbitrary: iop oo nd sh fs)
  case Nil
  then show ?case by simp
next
  case (Cons x ops)
  have tail: "length fs' = length fs \<and> (\<forall>j<iop. fs' ! j = fs ! j) \<and>
         (\<forall>k<length (x # ops). iop + k < length fs \<longrightarrow>
            (\<forall>a. (x # ops) ! k = Some a \<and> PyArray_NDIM a = 0 \<longrightarrow> fs' ! (iop + k) = 0))"
    if rec: "scan_operands ops (iop + 1) oo1 nd1 sh1 fs1 = Some (oo', nd', sh', fs')"
      and len: "length fs1 = length fs" and keep: "\<forall>j<iop. fs1 ! j = fs ! j"
      and here: "\<forall>a. x = Some a \<and> PyArray_NDIM a = 0 \<and> iop < length fs \<longrightarrow> fs1 ! iop = 0"
    for oo1 nd1 sh1 fs1
  proof -
    from Cons.IH[OF rec] have l: "length fs' = length fs1"
      and k: "\<forall>j<iop + 1. fs' ! j = fs1 ! j"
      and z: "\<forall>k<length ops. iop + 1 + k < length fs1 \<longrightarrow>
            (\<forall>a. ops ! k = Some a \<and> PyArray_NDIM a = 0 \<longrightarrow> fs' ! (iop + 1 + k) = 0)"
      by auto
    have "\<forall>k<length (x # ops). iop + k < length fs \<longrightarrow>
            (\<forall>a. (x # ops) ! k = Some a \<and> PyArray_NDIM a = 0 \<longrightarrow> fs' ! (iop + k) = 0)"
    proof (intro allI impI)
      fix k a
      assume kk: "k < length (x # ops)" "iop + k < length fs"
        and a: "(x # ops) ! k = Some a \<and> PyArray_NDIM a = 0"
      show "fs' ! (iop + k) = 0"
      proof (cases k)
        case 0
        with a kk here have "fs1 ! iop = 0" by simp
        with k 0 show ?thesis by simp
      next
        case (Suc m)
        with kk a z len show ?thesis by simp
      qed
    qed
    with l k len keep show ?thesis by simp
  qed
  show ?case
  proof (cases x)
    case None
    with Cons.prems have "scan_operands ops (iop + 1) oo nd sh fs = Some (oo', nd', sh', fs')"
      by simp
    from tail[OF this] None show ?thesis by simp
  next
    case (Some a)
    show ?thesis
    proof (cases "PyArray_NDIM a = 0")
      case True
      with Cons.prems Some
      have "scan_operands ops (iop + 1) oo nd sh (fs[iop := 0]) = Some (oo', nd', sh', fs')"
        by (simp add: Let_def)
      from tail[OF this] show ?thesis by simp
    next
      case False
      from Cons.prems Some False
      have "\<exists>oo1 nd1 sh1 v. scan_operands ops (iop + 1) oo1 nd1 sh1 (fs[iop := v])
               = Some (oo', nd', sh', fs')"
        by (simp add: Let_def split: if_splits) blast+
      then obtain oo1 nd1 sh1 v where
        "scan_operands ops (iop + 1) oo1 nd1 sh1 (fs[iop := v]) = Some (oo', nd', sh', fs')"
        by blast
      from tail[OF this] Some False show ?thesis by simp
    qed
  qed
qed

lemma kernel_calls_append: "kernel_calls (xs @ ys) = kernel_calls xs @ kernel_calls ys"
  by (induction xs rule: kernel_calls.induct) auto

lemma strided_loop_trace: "trace (strided_loop g n d s st) = trace st"
  by (induction g n d s st rule: strided_loop.induct) (auto split: option.splits)

lemma innerloop_n_trace: "trace (innerloop_n g d count s st) = trace st @ [Ev_kernel d count s]"
  by (simp add: innerloop_n_def strided_loop_trace)

lemma strided_loop_0: "strided_loop g 0 d s st = st"
  by simp

lemma prepare_ufunc_output_kernel_calls:
  "prepare_ufunc_output c op arr_prep st = (r, st1) \<Longrightarrow>
     kernel_calls (trace st1) = kernel_calls (trace st) \<and> mem st1 = mem st"
  by (auto simp: prepare_ufunc_output_def Let_def kernel_calls_append
           split: option.splits prepared.splits if_splits)

lemma trivial_call_result:
  assumes "trivial_call c arr_prep g n op out sh fs st = (r, op', st')"
  shows "(r = 0 \<or> r = - 1) \<and>
         (r = - 1 \<longrightarrow> kernel_calls (trace st') = kernel_calls (trace st)) \<and>
         (r = 0 \<longrightarrow> (\<exists>d. kernel_calls (trace st') =
                           kernel_calls (trace st) @ [Ev_kernel d (PyArray_MultiplyList sh) fs]))"
proof (cases "prepare_ufunc_output c out arr_prep st")
  case (Pair res st1)
  from prepare_ufunc_output_kernel_calls[OF Pair]
  have k: "kernel_calls (trace st1) = kernel_calls (trace st)" by simp
  show ?thesis
  proof (cases res)
    case None
    with assms Pair k show ?thesis by (auto simp: trivial_call_def)
  next
    case (Some out')
    with assms Pair k show ?thesis
      by (auto simp: trivial_call_def Let_def innerloop_n_trace kernel_calls_append)
  qed
qed

lemma contiguous_either:
  "(x::int) AND (NPY_ARRAY_C_CONTIGUOUS OR NPY_ARRAY_F_CONTIGUOUS) \<noteq> 0 \<Longrightarrow>
     x AND NPY_ARRAY_C_CONTIGUOUS \<noteq> 0 \<or> x AND NPY_ARRAY_F_CONTIGUOUS \<noteq> 0"
  by (metis bit.conj_disj_distrib or_eq_0_iff)

lemma MultiplyList_fold: "fold (\<lambda>d s. s * d) l (a::int) = a * prod_list l"
  by (induction l arbitrary: a) (auto simp: algebra_simps)

lemma MultiplyList_zero: "PyArray_MultiplyList l = 0 \<longleftrightarrow> 0 \<in> set l"
  by (simp add: PyArray_MultiplyList_def MultiplyList_fold prod_list_zero_iff)

lemma prepare_existing_kernel_calls:
  "prepare_existing c outs preps st = (r, st1) \<Longrightarrow>
     kernel_calls (trace st1) = kernel_calls (trace st) \<and> mem st1 = mem st"
proof (induction c outs preps st arbitrary: r st1 rule: prepare_existing.induct)
  case (1 c preps st)
  then show ?case by simp
next
  case (2 c outs preps st)
  then show ?case by (auto split: prod.splits option.splits)
next
  case (3 c a outs preps st)
  obtain ra sta where p: "prepare_ufunc_output c a (hd preps) st = (ra, sta)" by (cases "prepare_ufunc_output c a (hd preps) st") auto
  from prepare_ufunc_output_kernel_calls[OF p]
  have k: "kernel_calls (trace sta) = kernel_calls (trace st)" "mem sta = mem st" by auto
  show ?case
  proof (cases ra)
    case None
    with 3 p k show ?thesis by auto
  next
    case (Some a')
    obtain rb stb where q: "prepare_existing c outs (tl preps) sta = (rb, stb)"
      by (cases "prepare_existing c outs (tl preps) sta") auto
    from "3.IH"[OF p[symmetric, unfolded Some] refl q] k
    have "kernel_calls (trace stb) = kernel_calls (trace st)" "mem stb = mem st" by auto
    with "3.prems" p Some q show ?thesis by (auto split: option.splits)
  qed
qed

lemma prepare_allocated_kernel_calls:
  "prepare_allocated c outs op_it preps st = (r, st1) \<Longrightarrow>
     kernel_calls (trace st1) = kernel_calls (trace st) \<and> mem st1 = mem st"
proof (induction c outs op_it preps st arbitrary: r st1 rule: prepare_allocated.induct)
  case (1 c op_it preps st)
  then show ?case by simp
next
  case (2 c a outs op_it preps st)
  then show ?case by (auto split: prod.splits option.splits)
next
  case (3 c outs op_it preps st)
  obtain ra sta where p: "prepare_ufunc_output c (hd op_it) (hd preps) st = (ra, sta)"
    by (cases "prepare_ufunc_output c (hd op_it) (hd preps) st") auto
  from prepare_ufunc_output_kernel_calls[OF p]
  have k: "kernel_calls (trace sta) = kernel_calls (trace st)" "mem sta = mem st" by auto
  show ?case
  proof (cases ra)
    case None
    with 3 p k show ?thesis by auto
  next
    case (Some a')
    obtain rb stb where q: "prepare_allocated c outs (tl op_it) (tl preps) sta = (rb, stb)"
      by (cases "prepare_allocated c outs (tl op_it) (tl preps) sta") auto
    from "3.IH"[OF p[symmetric, unfolded Some] refl q] k
    have "kernel_calls (trace stb) = kernel_calls (trace st)" "mem stb = mem st" by auto
    with "3.prems" p Some q show ?thesis by (auto split: option.splits)
  qed
qed

lemma iterator_loop_zero_size:
  assumes run: "iterator_loop c ufunc op dtype order buffersize arr_prep g st = (r, st')"
    and zero: "\<forall>ops dts ord bs it. NpyIter_AdvancedNew_elementwise c ops dts ord bs = Some it
                 \<longrightarrow> li_size it = 0"
  shows "kernel_calls (trace st') = kernel_calls (trace st) \<and> mem st' = mem st"
proof -
  define n where "n = nat (nin ufunc)"
  obtain r1 st1 where p1: "prepare_existing c (drop n op) arr_prep st = (r1, st1)"
    by (cases "prepare_existing c (drop n op) arr_prep st") auto
  from prepare_existing_kernel_calls[OF p1]
  have k1: "kernel_calls (trace st1) = kernel_calls (trace st)" "mem st1 = mem st" by auto
  show ?thesis
  proof (cases r1)
    case None
    with run p1 k1 show ?thesis by (simp add: iterator_loop_def n_def)
  next
    case (Some outs1)
    define st2 where "st2 = st1\<lparr>trace := trace st1 @ [Ev_iterator_new]\<rparr>"
    have k2: "kernel_calls (trace st2) = kernel_calls (trace st)" "mem st2 = mem st"
      using k1 by (simp_all add: st2_def kernel_calls_append)
    show ?thesis
    proof (cases "NpyIter_AdvancedNew_elementwise c (take n op @ outs1) dtype order buffersize")
      case None
      with run p1 Some k2 show ?thesis
        by (simp add: iterator_loop_def n_def[symmetric] Let_def st2_def)
    next
      case it: (Some iter)
      with zero have sz: "li_size iter = 0" by blast
      obtain r3 st3 where p3:
        "prepare_allocated c outs1 (drop n (li_operands iter)) arr_prep st2 = (r3, st3)"
        by (cases "prepare_allocated c outs1 (drop n (li_operands iter)) arr_prep st2") auto
      from prepare_allocated_kernel_calls[OF p3] k2
      have k3: "kernel_calls (trace st3) = kernel_calls (trace st)" "mem st3 = mem st" by auto
      from run p1 Some it p3 sz have "st' = st3"
        by (auto simp: iterator_loop_def n_def[symmetric] Let_def st2_def[symmetric]
            split: option.splits if_splits)
      with k3 show ?thesis by simp
    qed
  qed
qed

lemma trivial_call_zero_count:
  assumes "trivial_call c arr_prep g n op out sh fs st = (r, op', st')"
    and "PyArray_MultiplyList sh = 0"
  shows "mem st' = mem st"
proof (cases "prepare_ufunc_output c out arr_prep st")
  case (Pair res st1)
  from prepare_ufunc_output_kernel_calls[OF Pair] have m: "mem st1 = mem st" by simp
  show ?thesis
  proof (cases res)
    case None
    with assms Pair m show ?thesis by (auto simp: trivial_call_def)
  next
    case (Some out')
    with assms Pair m show ?thesis
      by (auto simp: trivial_call_def Let_def innerloop_n_def)
  qed
qed

lemma try_trivial_cases:
  assumes "try_trivial_single_output_loop c ufunc op dtypes order arr_prep g st = (r, op', st')"
  shows "(r = - 2 \<and> st' = st \<and> op' = op) \<or>
         (r \<noteq> - 2 \<and>
          (\<exists>oo nd sh fs0 fs.
             scan_operands (take (nat (nin ufunc) + 1) op) 0
               (if order = NPY_CORDER then NPY_ARRAY_C_CONTIGUOUS
                else if order = NPY_FORTRANORDER then NPY_ARRAY_F_CONTIGUOUS else 0)
               0 [] (replicate (nat (nin ufunc) + 1) 0) = Some (oo, nd, sh, fs0) \<and>
             (fs = fs0 \<or> (op ! nat (nin ufunc) = None \<and>
                           fs = fs0[nat (nin ufunc) := elsize (dtypes ! nat (nin ufunc))])) \<and>
             (r = 0 \<or> r = - 1) \<and>
             (r = - 1 \<longrightarrow> kernel_calls (trace st') = kernel_calls (trace st)) \<and>
             (r = 0 \<longrightarrow> (\<exists>d. kernel_calls (trace st') =
                 kernel_calls (trace st) @ [Ev_kernel d (PyArray_MultiplyList sh) fs])) \<and>
             (PyArray_MultiplyList sh = 0 \<longrightarrow> mem st' = mem st)))"
proof -
  define oo0 where "oo0 = (if order = NPY_CORDER then NPY_ARRAY_C_CONTIGUOUS
                else if order = NPY_FORTRANORDER then NPY_ARRAY_F_CONTIGUOUS else 0)"
  define n where "n = nat (nin ufunc)"
  show ?thesis
  proof (cases "scan_operands (take (n + 1) op) 0 oo0 0 [] (replicate (n + 1) 0)")
    case None
    with assms show ?thesis
      by (simp add: try_trivial_single_output_loop_def Let_def oo0_def n_def)
  next
    case (Some res)
    obtain oo nd sh fs0 where res: "res = (oo, nd, sh, fs0)" by (cases res) auto
    note scan = Some[unfolded res]
    show ?thesis
    proof (cases "op ! n")
      case None
      show ?thesis
      proof (cases "NewFromDescr c (dtypes ! n) sh (oo = NPY_ARRAY_F_CONTIGUOUS)")
        case nn: None
        with assms scan None have "r = - 1" "kernel_calls (trace st') = kernel_calls (trace st)"
          "mem st' = mem st"
          by (auto simp: try_trivial_single_output_loop_def Let_def oo0_def n_def
                kernel_calls_append)
        with scan show ?thesis unfolding oo0_def n_def by auto
      next
        case (Some new)
        with assms scan None
        have tc: "trivial_call c arr_prep g n op new sh (fs0[n := elsize (dtypes ! n)])
                (st\<lparr>trace := trace st @ [Ev_allocate sh]\<rparr>) = (r, op', st')"
          by (auto simp: try_trivial_single_output_loop_def Let_def oo0_def n_def)
        from trivial_call_zero_count[OF tc]
        have "PyArray_MultiplyList sh = 0 \<longrightarrow> mem st' = mem st" by simp
        with trivial_call_result[OF tc] scan None show ?thesis
          unfolding oo0_def n_def by (auto simp: kernel_calls_append)
      qed
    next
      case (Some out)
      show ?thesis
      proof (cases "any_bad_overlap c (take n op) out")
        case True
        from assms have "r = - 2 \<and> st' = st \<and> op' = op"
          unfolding try_trivial_single_output_loop_def Let_def n_def[symmetric] oo0_def[symmetric]
          using scan Some True by simp
        then show ?thesis by simp
      next
        case no_overlap: False
        show ?thesis
        proof (cases "nd = 1 \<and> strides out ! 0 < PyArray_ITEMSIZE out \<and> strides out ! 0 \<noteq> 0")
          case True
          from assms have "r = - 2 \<and> st' = st \<and> op' = op"
            unfolding try_trivial_single_output_loop_def Let_def n_def[symmetric]
              oo0_def[symmetric]
            using scan Some no_overlap True by simp
          then show ?thesis by simp
        next
          case False
          from assms
          have tc: "trivial_call c arr_prep g n op out sh fs0 st = (r, op', st')"
            unfolding try_trivial_single_output_loop_def Let_def n_def[symmetric]
              oo0_def[symmetric]
            using False scan Some no_overlap by (auto split: if_splits)
          from trivial_call_zero_count[OF tc]
          have "PyArray_MultiplyList sh = 0 \<longrightarrow> mem st' = mem st" by simp
          with trivial_call_result[OF tc] scan show ?thesis
            unfolding oo0_def n_def by auto
        qed
      qed
    qed
  qed
qed

text \<open>
  Claim C7.  Whatever \<^verbatim>\<open>try_trivial_single_output_loop\<close> returns other than -2 (so whenever it
  goes on to allocate, prepare or call the kernel), the operands it was given that are not
  0-D all have the same rank and the same shape, and every one of rank above 1 has the
  C-contiguous or the F-contiguous flag set, the same combination of the two for all of
  them, which is the requested one when \<^verbatim>\<open>order\<close> is C or Fortran.  When it returns -2 the
  state is untouched: nothing was allocated and the kernel was not called.  When it returns
  0 the kernel was called exactly once, with stride 0 for every 0-D operand.
\<close>

theorem trivial_loop_requires_uniform_operands:
  assumes "try_trivial_single_output_loop c ufunc op dtypes order arr_prep g st = (r, op', st')"
  shows "(r = - 2 \<longrightarrow> st' = st) \<and>
         (r \<noteq> - 2 \<longrightarrow>
            (\<forall>a b. Some a \<in> set (take (nat (nin ufunc) + 1) op) \<and>
                   Some b \<in> set (take (nat (nin ufunc) + 1) op) \<and>
                   PyArray_NDIM a \<noteq> 0 \<and> PyArray_NDIM b \<noteq> 0 \<longrightarrow>
                   PyArray_NDIM a = PyArray_NDIM b \<and> dimensions a = dimensions b) \<and>
            (\<exists>oo. (order = NPY_CORDER \<longrightarrow> oo = NPY_ARRAY_C_CONTIGUOUS) \<and>
                   (order = NPY_FORTRANORDER \<longrightarrow> oo = NPY_ARRAY_F_CONTIGUOUS) \<and>
                   (\<forall>a. Some a \<in> set (take (nat (nin ufunc) + 1) op) \<and> PyArray_NDIM a > 1 \<longrightarrow>
                        flags a AND (NPY_ARRAY_C_CONTIGUOUS OR NPY_ARRAY_F_CONTIGUOUS) = oo \<and>
                        (flags a AND NPY_ARRAY_C_CONTIGUOUS \<noteq> 0 \<or>
                         flags a AND NPY_ARRAY_F_CONTIGUOUS \<noteq> 0)))) \<and>
         (r = 0 \<longrightarrow>
            (\<exists>d count fixed_strides.
               kernel_calls (trace st') =
                 kernel_calls (trace st) @ [Ev_kernel d count fixed_strides] \<and>
               (\<forall>iop a. iop \<le> nat (nin ufunc) \<and> iop < length op \<and> op ! iop = Some a \<and>
                        PyArray_NDIM a = 0 \<longrightarrow> fixed_strides ! iop = 0)))"
proof -
  define n where "n = nat (nin ufunc)"
  define oo0 where "oo0 = (if order = NPY_CORDER then NPY_ARRAY_C_CONTIGUOUS
                else if order = NPY_FORTRANORDER then NPY_ARRAY_F_CONTIGUOUS else 0)"
  from try_trivial_cases[OF assms, folded n_def oo0_def]
  consider (reject) "r = - 2" "st' = st"
    | (go) oo nd sh fs0 fs where "r \<noteq> - 2"
        "scan_operands (take (n + 1) op) 0 oo0 0 [] (replicate (n + 1) 0) = Some (oo, nd, sh, fs0)"
        "fs = fs0 \<or> (op ! n = None \<and> fs = fs0[n := elsize (dtypes ! n)])"
        "r = 0 \<longrightarrow> (\<exists>d. kernel_calls (trace st') =
                 kernel_calls (trace st) @ [Ev_kernel d (PyArray_MultiplyList sh) fs])"
    by blast
  then show ?thesis
  proof cases
    case reject
    then show ?thesis by simp
  next
    case go
    from scan_operands_uniform[OF go(2)]
    have keep: "oo0 \<noteq> 0 \<longrightarrow> oo = oo0"
      and shape: "\<forall>a. Some a \<in> set (take (n + 1) op) \<and> PyArray_NDIM a \<noteq> 0 \<longrightarrow> dimensions a = sh"
      and ord: "\<forall>a. Some a \<in> set (take (n + 1) op) \<and> PyArray_NDIM a \<noteq> 0 \<and> PyArray_NDIM a \<noteq> 1 \<longrightarrow>
               flags a AND (NPY_ARRAY_C_CONTIGUOUS OR NPY_ARRAY_F_CONTIGUOUS) = oo \<and> oo \<noteq> 0"
      by auto
    have p1: "\<forall>a b. Some a \<in> set (take (n + 1) op) \<and> Some b \<in> set (take (n + 1) op) \<and>
                   PyArray_NDIM a \<noteq> 0 \<and> PyArray_NDIM b \<noteq> 0 \<longrightarrow>
                   PyArray_NDIM a = PyArray_NDIM b \<and> dimensions a = dimensions b"
    proof (intro allI impI)
      fix a b
      assume h: "Some a \<in> set (take (n + 1) op) \<and> Some b \<in> set (take (n + 1) op) \<and>
                   PyArray_NDIM a \<noteq> 0 \<and> PyArray_NDIM b \<noteq> 0"
      with shape have "dimensions a = sh" "dimensions b = sh" by blast+
      then show "PyArray_NDIM a = PyArray_NDIM b \<and> dimensions a = dimensions b"
        by (simp add: PyArray_NDIM_def)
    qed
    have p2: "(order = NPY_CORDER \<longrightarrow> oo = NPY_ARRAY_C_CONTIGUOUS) \<and>
              (order = NPY_FORTRANORDER \<longrightarrow> oo = NPY_ARRAY_F_CONTIGUOUS)"
      using keep by (auto simp: oo0_def NPY_CORDER_def NPY_FORTRANORDER_def
          NPY_ARRAY_C_CONTIGUOUS_def NPY_ARRAY_F_CONTIGUOUS_def)
    have p3: "\<forall>a. Some a \<in> set (take (n + 1) op) \<and> PyArray_NDIM a > 1 \<longrightarrow>
                        flags a AND (NPY_ARRAY_C_CONTIGUOUS OR NPY_ARRAY_F_CONTIGUOUS) = oo \<and>
                        (flags a AND NPY_ARRAY_C_CONTIGUOUS \<noteq> 0 \<or>
                         flags a AND NPY_ARRAY_F_CONTIGUOUS \<noteq> 0)"
    proof (intro allI impI)
      fix a assume a: "Some a \<in> set (take (n + 1) op) \<and> PyArray_NDIM a > 1"
      with ord have o: "flags a AND (NPY_ARRAY_C_CONTIGUOUS OR NPY_ARRAY_F_CONTIGUOUS) = oo"
        "oo \<noteq> 0" by auto
      with contiguous_either[of "flags a"]
      show "flags a AND (NPY_ARRAY_C_CONTIGUOUS OR NPY_ARRAY_F_CONTIGUOUS) = oo \<and>
                        (flags a AND NPY_ARRAY_C_CONTIGUOUS \<noteq> 0 \<or>
                         flags a AND NPY_ARRAY_F_CONTIGUOUS \<noteq> 0)" by simp
    qed
    have p4: "\<forall>iop a. iop \<le> n \<and> iop < length op \<and> op ! iop = Some a \<and>
                        PyArray_NDIM a = 0 \<longrightarrow> fs ! iop = 0"
    proof (intro allI impI)
      fix iop a
      assume h: "iop \<le> n \<and> iop < length op \<and> op ! iop = Some a \<and> PyArray_NDIM a = 0"
      from scan_operands_strides[OF go(2)]
      have len: "length fs0 = n + 1"
        and z: "\<forall>k<length (take (n + 1) op). 0 + k < length (replicate (n + 1) (0::int)) \<longrightarrow>
            (\<forall>a. take (n + 1) op ! k = Some a \<and> PyArray_NDIM a = 0 \<longrightarrow> fs0 ! (0 + k) = 0)"
        by auto
      from h have "iop < length (take (n + 1) op)" "take (n + 1) op ! iop = Some a" by auto
      with z h have z0: "fs0 ! iop = 0" by auto
      from go(3) show "fs ! iop = 0"
      proof
        assume "fs = fs0" with z0 show ?thesis by simp
      next
        assume alt: "op ! n = None \<and> fs = fs0[n := elsize (dtypes ! n)]"
        with h have "iop \<noteq> n" by auto
        with alt z0 show ?thesis by simp
      qed
    qed
    from go(1) go(4) p1 p2 p3 p4 show ?thesis unfolding n_def by blast
  qed
qed

theorem trivial_loop_requires_uniform_operands_witness:
  "fst (try_trivial_single_output_loop plain_collab add_ufunc [Some matrix23, Some scalar0, None]
          [double_descr, double_descr, double_descr] 2 None add_nkernel vector5_state) = 0 \<and>
   (\<exists>d count fixed_strides.
      kernel_calls (trace (snd (snd (try_trivial_single_output_loop plain_collab add_ufunc
          [Some matrix23, Some scalar0, None] [double_descr, double_descr, double_descr] 2 None
          add_nkernel vector5_state)))) = kernel_calls (trace vector5_state) @ [Ev_kernel d count fixed_strides] \<and>
      fixed_strides ! 1 = 0)"
proof -
  obtain r op' st' where run:
    "try_trivial_single_output_loop plain_collab add_ufunc [Some matrix23, Some scalar0, None]
          [double_descr, double_descr, double_descr] 2 None add_nkernel vector5_state = (r, op', st')"
    by (metis prod_cases3)
  have r: "r = 0"
    using run
    by (simp add: try_trivial_single_output_loop_def add_ufunc_def matrix23_def scalar0_def
        PyArray_NDIM_def Let_def NPY_CORDER_def NPY_FORTRANORDER_def NPY_ARRAY_C_CONTIGUOUS_def
        NPY_ARRAY_F_CONTIGUOUS_def NPY_ARRAY_ALIGNED_def PyArray_ITEMSIZE_def double_descr_def
        plain_collab_def trivial_call_def prepare_ufunc_output_def aligned_c_flags_def
        numeral_2_eq_2 numeral_3_eq_3 split: prod.splits)
  from trivial_loop_requires_uniform_operands[OF run] r
  obtain d count fixed_strides where
    k: "kernel_calls (trace st') = kernel_calls (trace vector5_state) @ [Ev_kernel d count fixed_strides]"
    and z: "\<forall>iop a. iop \<le> nat (nin add_ufunc) \<and> iop < length [Some matrix23, Some scalar0, None] \<and>
              [Some matrix23, Some scalar0, None] ! iop = Some a \<and> PyArray_NDIM a = 0
              \<longrightarrow> fixed_strides ! iop = 0"
    by blast
  from z have "fixed_strides ! 1 = 0"
    by (simp add: add_ufunc_def scalar0_def PyArray_NDIM_def)
  with k r run show ?thesis by auto
qed

section \<open>The copies made for the outer iterator\<close>

lemma Py_XINCREF_frame [simp]:
  "mem (Py_XINCREF p st) = mem st" "trace (Py_XINCREF p st) = trace st"
  "err (Py_XINCREF p st) = err st"
  by (simp_all add: Py_XINCREF_def)

lemma Py_XDECREF_frame [simp]:
  "mem (Py_XDECREF p st) = mem st" "trace (Py_XDECREF p st) = trace st"
  "err (Py_XDECREF p st) = err st"
  by (simp_all add: Py_XDECREF_def Let_def)

lemma copy_first_element_frame [simp]:
  "mem (copy_first_element otype d0 d1 st) = (mem st)(d0 := mem st d1)"
  "trace (copy_first_element otype d0 d1 st) = trace st"
  "err (copy_first_element otype d0 d1 st) = err st"
  by (simp_all add: copy_first_element_def memmove_item_def Let_def)

lemma indices_of_zero: "0 \<in> set shape \<Longrightarrow> indices_of shape = []"
proof (induction shape)
  case Nil
  then show ?case by simp
next
  case (Cons n shape)
  show ?case
  proof (cases "n = 0")
    case True
    then show ?thesis by simp
  next
    case False
    with Cons.prems have "0 \<in> set shape" by simp
    from Cons.IH[OF this] show ?thesis by simp
  qed
qed

lemma indices_of_size_zero: "PyArray_SIZE a = 0 \<Longrightarrow> indices_of (dimensions a) = []"
  by (simp add: PyArray_SIZE_def MultiplyList_zero indices_of_zero)

lemma shared_indices_zero:
  "PyArray_SIZE a = 0 \<or> PyArray_SIZE b = 0 \<Longrightarrow> shared_indices a b = []"
  by (auto simp: shared_indices_def indices_of_size_zero)

lemma assign_item_frame [simp]:
  "trace (assign_item c release dst src idx st) = trace st"
  "err (assign_item c release dst src idx st) = err st"
  by (simp_all add: assign_item_def Let_def)

lemma assign_array_frame [simp]:
  "trace (assign_array c release dst src st) = trace st"
  "err (assign_array c release dst src st) = err st"
proof -
  have "trace (fold (assign_item c release dst src) xs st) = trace st \<and>
        err (fold (assign_item c release dst src) xs st) = err st" for xs
    by (induction xs arbitrary: st) simp_all
  then show "trace (assign_array c release dst src st) = trace st"
    "err (assign_array c release dst src st) = err st"
    by (simp_all add: assign_array_def)
qed

lemma assign_array_zero:
  "PyArray_SIZE dst = 0 \<or> PyArray_SIZE src = 0 \<Longrightarrow> assign_array c release dst src st = st"
  by (simp add: assign_array_def shared_indices_zero)

lemma release_array_frame [simp]:
  "mem (release_array c tmp st) = mem st"
  "trace (release_array c tmp st) = trace st"
  "err (release_array c tmp st) = err st"
proof -
  have "mem (fold (\<lambda>idx s. Py_XDECREF (mem s (item_address tmp idx)) s) xs st) = mem st \<and>
        trace (fold (\<lambda>idx s. Py_XDECREF (mem s (item_address tmp idx)) s) xs st) = trace st \<and>
        err (fold (\<lambda>idx s. Py_XDECREF (mem s (item_address tmp idx)) s) xs st) = err st" for xs
    by (induction xs arbitrary: st) simp_all
  then show "mem (release_array c tmp st) = mem st"
    "trace (release_array c tmp st) = trace st"
    "err (release_array c tmp st) = err st"
    by (simp_all add: release_array_def)
qed

lemma iterator_copy_in_frame [simp]:
  "trace (iterator_copy_in c out arr it st) = trace st"
  "err (iterator_copy_in c out arr it st) = err st"
  by (simp_all add: iterator_copy_in_def Let_def split: option.split)

lemma NpyIter_Deallocate_frame [simp]:
  "trace (snd (NpyIter_Deallocate c out arr iter st)) = trace st"
  "err (snd (NpyIter_Deallocate c out arr iter st)) = err st"
  by (simp_all add: NpyIter_Deallocate_def Let_def split: option.split)

lemma NpyIter_Deallocate_None [simp]: "NpyIter_Deallocate c out arr None st = (True, st)"
  by (simp add: NpyIter_Deallocate_def)

text \<open>Nothing is stored for operands without items.\<close>

lemma iterator_copy_in_zero:
  assumes "PyArray_SIZE arr = 0" and "out = None \<or> PyArray_SIZE (it_operands it ! 0) = 0"
  shows "iterator_copy_in c out arr it st = st"
  using assms by (auto simp: iterator_copy_in_def Let_def assign_array_zero split: option.split)

lemma NpyIter_Deallocate_zero:
  assumes "\<forall>it. iter = Some it \<longrightarrow> out = None \<or> PyArray_SIZE (it_operands it ! 0) = 0"
  shows "mem (snd (NpyIter_Deallocate c out arr iter st)) = mem st"
  using assms by (auto simp: NpyIter_Deallocate_def Let_def assign_array_zero split: option.split)



section \<open>Operands of size zero\<close>

lemma check_indices_None:
  "check_indices ind n = None \<longleftrightarrow> (\<forall>i<length ind. 0 \<le> ind ! i \<and> ind ! i < n)"
proof (induction ind)
  case Nil
  then show ?case by simp
next
  case (Cons x xs)
  show ?case
    using Cons.IH by (auto simp: nth_Cons split: nat.splits)
qed

lemma vector_dim_zero:
  assumes "PyArray_NDIM arr \<le> 1" "0 \<le> axis" "axis < PyArray_NDIM arr" "PyArray_SIZE arr = 0"
  shows "PyArray_DIM arr axis = 0 \<and> dimensions arr = [0]"
proof -
  from assms(1,2,3) have "length (dimensions arr) = 1" "axis = 0"
    by (auto simp: PyArray_NDIM_def)
  then obtain d where d: "dimensions arr = [d]" by (cases "dimensions arr") auto
  with assms(4) have "d = 0" by (simp add: PyArray_SIZE_def PyArray_MultiplyList_def)
  with d \<open>axis = 0\<close> show ?thesis by (simp add: PyArray_DIM_def)
qed

lemma accumulate_run_zero:
  assumes "accumulate_run c f otype arr given axis iter op0 op1 outv st = (r, st')"
    and "PyArray_DIM op1 axis = 0 \<or> PyArray_SIZE op0 = 0"
    and "\<forall>it. iter = Some it \<longrightarrow> given = None \<or> PyArray_SIZE (it_operands it ! 0) = 0"
  shows "trace st' = trace st \<and> mem st' = mem st \<and> (r = Inr outv \<or> r = Inl Raised)"
proof -
  obtain ok s where d: "NpyIter_Deallocate c given arr iter st = (ok, s)"
    by (cases "NpyIter_Deallocate c given arr iter st") auto
  from NpyIter_Deallocate_zero[OF assms(3), of c arr st] NpyIter_Deallocate_frame(1)[of c given arr iter st]
  have "mem s = mem st" "trace s = trace st" by (simp_all add: d)
  with assms(1,2) d show ?thesis
    by (auto simp: accumulate_run_def Let_def split: if_splits)
qed

lemma reduceat_run_zero:
  assumes "reduceat_run c f otype dtype0 arr ind given axis iter op0 op1 outv st = (r, st')"
    and "PyArray_SIZE op0 = 0"
    and "\<forall>it. iter = Some it \<longrightarrow> given = None \<or> PyArray_SIZE (it_operands it ! 0) = 0"
  shows "trace st' = trace st \<and> mem st' = mem st \<and> (r = Inr outv \<or> r = Inl Raised)"
proof -
  obtain ok s where d: "NpyIter_Deallocate c given arr iter st = (ok, s)"
    by (cases "NpyIter_Deallocate c given arr iter st") auto
  from NpyIter_Deallocate_zero[OF assms(3), of c arr st] NpyIter_Deallocate_frame(1)[of c given arr iter st]
  have "mem s = mem st" "trace s = trace st" by (simp_all add: d)
  with assms(1,2) d show ?thesis
    by (auto simp: reduceat_run_def Let_def split: if_splits)
qed

text \<open>The set-up phase makes no kernel call and raises nothing of its own.\<close>

lemma accumulate_setup_trace:
  assumes "accumulate_setup c ufunc arr out axis otype st = (r, st1)"
  shows "\<exists>evs. trace st1 = trace st @ evs \<and> kernel_written evs = {} \<and> kernel_calls evs = []"
  using assms
  by (auto simp: accumulate_setup_def Let_def kernel_written_def
      split: if_splits option.splits prod.splits)

lemma reduceat_setup_trace:
  assumes "reduceat_setup c ufunc arr ind out axis otype st = (r, st1)"
  shows "\<exists>evs. trace st1 = trace st @ evs \<and> kernel_written evs = {} \<and> kernel_calls evs = []"
  using assms
  by (auto simp: reduceat_setup_def Let_def kernel_written_def
      split: if_splits option.splits prod.splits)

lemma accumulate_setup_operands:
  assumes "accumulate_setup c ufunc arr out axis otype st =
             (Inr (f, dtype0, iter, op0, op1, out'), st1)"
  shows "(iter = None \<and> \<not> accumulate_need_outer_iterator c arr out dtype0 \<and> op1 = arr \<and>
          out' = op0 \<and>
          (out = Some op0 \<or> (out = None \<and> NewFromDescr c dtype0 (dimensions arr) False = Some op0))) \<or>
         (\<exists>it. iter = Some it \<and>
            NpyIter_AdvancedNew c [case out of None \<Rightarrow> Op_null | Some a \<Rightarrow> Op_array a, Op_array arr]
              [dtype0, dtype0] (accumulate_op_axes (PyArray_NDIM arr)) = Some it \<and>
            op0 = it_operands it ! 0 \<and> op1 = it_operands it ! 1 \<and>
            out' = (case out of None \<Rightarrow> op0 | Some a \<Rightarrow> a))"
  using assms
  by (auto simp: accumulate_setup_def Let_def split: if_splits option.splits prod.splits; metis)

lemma accumulate_setup_zero:
  assumes stp: "accumulate_setup c ufunc arr out axis otype st = (r, st1)"
    and size0: "PyArray_SIZE arr = 0"
    and iter: "\<forall>ops dts axes it. NpyIter_AdvancedNew c ops dts axes = Some it \<longrightarrow>
                 PyArray_SIZE (it_operands it ! 0) = 0"
  shows "mem st1 = mem st"
proof -
  have z: "mem (iterator_copy_in c given arr it s) = mem s \<and>
           mem (snd (NpyIter_Deallocate c given arr (Some it) (iterator_copy_in c given arr it s))) =
             mem s"
    if "NpyIter_AdvancedNew c ops dts axes = Some it" for ops dts axes it s given
  proof -
    from iter that have s0: "PyArray_SIZE (it_operands it ! 0) = 0" by blast
    then have a: "iterator_copy_in c given arr it s = s"
      using iterator_copy_in_zero[OF size0, of given it c s] by simp
    from s0 have "\<forall>i. Some it = Some i \<longrightarrow> given = None \<or> PyArray_SIZE (it_operands i ! 0) = 0"
      by simp
    from NpyIter_Deallocate_zero[OF this, of c arr s] a show ?thesis by simp
  qed
  from stp show ?thesis
    by (auto simp: accumulate_setup_def Let_def z split: if_splits option.splits prod.splits)
qed

lemma accumulate_zero_size:
  assumes run: "PyUFunc_Accumulate c ufunc arr out axis otype st = (r, st')"
    and size0: "PyArray_SIZE arr = 0" and axis: "0 \<le> axis" "axis < PyArray_NDIM arr"
    and alloc: "\<forall>d shp fortran a. NewFromDescr c d shp fortran = Some a \<longrightarrow> dimensions a = shp"
    and iter: "\<forall>ops dts axes it. NpyIter_AdvancedNew c ops dts axes = Some it \<longrightarrow>
                 dimensions (it_operands it ! 0) = dimensions arr"
  shows "kernel_calls (trace st') = kernel_calls (trace st) \<and> mem st' = mem st \<and>
         (\<forall>res. r = Inr res \<longrightarrow> PyArray_SIZE res = 0 \<or> out = Some res)"
proof -
  have iter0: "\<forall>ops dts axes it. NpyIter_AdvancedNew c ops dts axes = Some it \<longrightarrow>
                 PyArray_SIZE (it_operands it ! 0) = 0"
    using iter size0 by (simp add: PyArray_SIZE_def)
  obtain rs st1 where stp: "accumulate_setup c ufunc arr out axis otype st = (rs, st1)"
    by (cases "accumulate_setup c ufunc arr out axis otype st") auto
  from accumulate_setup_trace[OF stp] accumulate_setup_zero[OF stp size0 iter0]
  have k1: "kernel_calls (trace st1) = kernel_calls (trace st)" "mem st1 = mem st"
    by (auto simp: kernel_calls_append)
  show ?thesis
  proof (cases rs)
    case (Inl e)
    with run stp k1 show ?thesis by (auto simp: PyUFunc_Accumulate_def)
  next
    case (Inr plan)
    obtain f dtype0 it op0 op1 out' where plan: "plan = (f, dtype0, it, op0, op1, out')"
      by (cases plan) auto
    from run stp Inr plan
    have rn: "accumulate_run c f otype arr out axis it op0 op1 out' st1 = (r, st')"
      by (simp add: PyUFunc_Accumulate_def)
    have z: "(it = None \<longrightarrow> PyArray_DIM op1 axis = 0) \<and> (it \<noteq> None \<longrightarrow> PyArray_SIZE op0 = 0) \<and>
             (out = Some out' \<or> (out' = op0 \<and> PyArray_SIZE op0 = 0)) \<and>
             (\<forall>i. it = Some i \<longrightarrow> PyArray_SIZE (it_operands i ! 0) = 0)"
      using accumulate_setup_operands[OF stp[unfolded Inr plan]]
    proof
      assume h: "it = None \<and> \<not> accumulate_need_outer_iterator c arr out dtype0 \<and> op1 = arr \<and>
          out' = op0 \<and>
          (out = Some op0 \<or> (out = None \<and> NewFromDescr c dtype0 (dimensions arr) False = Some op0))"
      then have "PyArray_NDIM arr \<le> 1"
        by (auto simp: accumulate_need_outer_iterator_def split: if_splits)
      from vector_dim_zero[OF this axis size0] h have dz: "PyArray_DIM op1 axis = 0" by simp
      from h alloc size0 have "out = Some op0 \<or> PyArray_SIZE op0 = 0"
        by (auto simp: PyArray_SIZE_def)
      with dz h show ?thesis by auto
    next
      assume "\<exists>i. it = Some i \<and>
            NpyIter_AdvancedNew c [case out of None \<Rightarrow> Op_null | Some a \<Rightarrow> Op_array a, Op_array arr]
              [dtype0, dtype0] (accumulate_op_axes (PyArray_NDIM arr)) = Some i \<and>
            op0 = it_operands i ! 0 \<and> op1 = it_operands i ! 1 \<and>
            out' = (case out of None \<Rightarrow> op0 | Some a \<Rightarrow> a)"
      then obtain i ops dts axes where h: "it = Some i"
        "NpyIter_AdvancedNew c ops dts axes = Some i" "op0 = it_operands i ! 0"
        "out' = (case out of None \<Rightarrow> op0 | Some a \<Rightarrow> a)" by blast
      from iter0 h(2,3) have "PyArray_SIZE op0 = 0" by blast
      with h show ?thesis by (cases out) auto
    qed
    from z have zc: "PyArray_DIM op1 axis = 0 \<or> PyArray_SIZE op0 = 0" by (cases it) auto
    from z have zi: "\<forall>i. it = Some i \<longrightarrow> out = None \<or> PyArray_SIZE (it_operands i ! 0) = 0"
      by blast
    from accumulate_run_zero[OF rn zc zi]
    have "trace st' = trace st1" "mem st' = mem st1" "r = Inr out' \<or> r = Inl Raised" by auto
    with k1 z show ?thesis by auto
  qed
qed

lemma reduceat_setup_operands:
  assumes "reduceat_setup c ufunc arr ind out axis otype st =
             (Inr (f, dtype0, iter, op0, op1, out'), st1)"
  shows "(iter = None \<and> \<not> reduceat_need_outer_iterator c arr out dtype0 \<and> op1 = arr \<and>
          out' = op0 \<and> out = None \<and>
          NewFromDescr c dtype0 [int (length ind)] False = Some op0) \<or>
         (\<exists>it. iter = Some it \<and>
            NpyIter_AdvancedNew c
              [case out of None \<Rightarrow> Op_null | Some a \<Rightarrow> Op_array a, Op_array arr, Op_indices ind]
              [dtype0, dtype0] (reduceat_op_axes (PyArray_NDIM arr) axis) = Some it \<and>
            op0 = it_operands it ! 0 \<and> op1 = it_operands it ! 1 \<and>
            out' = (case out of None \<Rightarrow> op0 | Some a \<Rightarrow> a))"
  using assms
  by (auto simp: reduceat_setup_def Let_def reduceat_need_outer_iterator_def
      split: if_splits option.splits prod.splits; metis)

lemma reduceat_setup_zero:
  assumes stp: "reduceat_setup c ufunc arr ind out axis otype st = (r, st1)"
    and size0: "PyArray_SIZE arr = 0"
    and iter: "\<forall>ops dts axes it. NpyIter_AdvancedNew c ops dts axes = Some it \<longrightarrow>
                 PyArray_SIZE (it_operands it ! 0) = 0"
  shows "mem st1 = mem st"
proof -
  have z: "mem (iterator_copy_in c given arr it s) = mem s \<and>
           mem (snd (NpyIter_Deallocate c given arr (Some it) (iterator_copy_in c given arr it s))) =
             mem s"
    if "NpyIter_AdvancedNew c ops dts axes = Some it" for ops dts axes it s given
  proof -
    from iter that have s0: "PyArray_SIZE (it_operands it ! 0) = 0" by blast
    then have a: "iterator_copy_in c given arr it s = s"
      using iterator_copy_in_zero[OF size0, of given it c s] by simp
    from s0 have "\<forall>i. Some it = Some i \<longrightarrow> given = None \<or> PyArray_SIZE (it_operands i ! 0) = 0"
      by simp
    from NpyIter_Deallocate_zero[OF this, of c arr s] a show ?thesis by simp
  qed
  from stp show ?thesis
    by (auto simp: reduceat_setup_def Let_def z split: if_splits option.splits prod.splits)
qed

lemma reduceat_zero_size:
  assumes run: "PyUFunc_Reduceat c ufunc arr ind out axis otype st = (r, st')"
    and size0: "PyArray_SIZE arr = 0" and axis: "0 \<le> axis" "axis < PyArray_NDIM arr"
    and valid: "\<forall>i<length ind. 0 \<le> ind ! i \<and> ind ! i < PyArray_DIM arr axis"
    and alloc: "\<forall>d shp fortran a. NewFromDescr c d shp fortran = Some a \<longrightarrow> dimensions a = shp"
    and iter: "\<forall>ops dts axes it. NpyIter_AdvancedNew c ops dts axes = Some it \<longrightarrow>
                 dimensions (it_operands it ! 0) = (dimensions arr)[nat axis := int (length ind)]"
  shows "kernel_calls (trace st') = kernel_calls (trace st) \<and> mem st' = mem st \<and>
         (\<forall>res. r = Inr res \<longrightarrow> PyArray_SIZE res = 0 \<or> out = Some res)"
proof -
  have chk: "check_indices ind (PyArray_DIM arr axis) = None"
    using valid by (simp add: check_indices_None)
  have empty: "PyArray_DIM arr axis = 0 \<Longrightarrow> ind = []"
  proof (rule ccontr)
    assume z: "PyArray_DIM arr axis = 0" and "ind \<noteq> []"
    then have "0 < length ind" by simp
    with valid have "0 \<le> ind ! 0 \<and> ind ! 0 < PyArray_DIM arr axis" by blast
    with z show False by simp
  qed
  have upd0: "0 \<in> set ((dimensions arr)[nat axis := int (length ind)])"
  proof -
    from size0 have "0 \<in> set (dimensions arr)" by (simp add: PyArray_SIZE_def MultiplyList_zero)
    then obtain k where k: "k < length (dimensions arr)" "dimensions arr ! k = 0"
      by (auto simp: in_set_conv_nth)
    from axis have ax: "nat axis < length (dimensions arr)" by (simp add: PyArray_NDIM_def)
    show ?thesis
    proof (cases "k = nat axis")
      case True
      with k have "PyArray_DIM arr axis = 0" by (simp add: PyArray_DIM_def)
      from empty[OF this] ax show ?thesis by (auto simp: set_update_memI)
    next
      case False
      with k have "(dimensions arr)[nat axis := int (length ind)] ! k = 0" by simp
      with k show ?thesis by (metis length_list_update nth_mem)
    qed
  qed
  have iter0: "\<forall>ops dts axes it. NpyIter_AdvancedNew c ops dts axes = Some it \<longrightarrow>
                 PyArray_SIZE (it_operands it ! 0) = 0"
    using iter upd0 by (simp add: PyArray_SIZE_def MultiplyList_zero)
  obtain rs st1 where stp: "reduceat_setup c ufunc arr ind out axis otype st = (rs, st1)"
    by (cases "reduceat_setup c ufunc arr ind out axis otype st") auto
  from reduceat_setup_trace[OF stp] reduceat_setup_zero[OF stp size0 iter0]
  have k1: "kernel_calls (trace st1) = kernel_calls (trace st)" "mem st1 = mem st"
    by (auto simp: kernel_calls_append)
  show ?thesis
  proof (cases rs)
    case (Inl e)
    with run stp k1 chk show ?thesis by (auto simp: PyUFunc_Reduceat_def)
  next
    case (Inr plan)
    obtain f dtype0 it op0 op1 out' where plan: "plan = (f, dtype0, it, op0, op1, out')"
      by (cases plan) auto
    from run stp Inr plan chk
    have rn: "reduceat_run c f otype dtype0 arr ind out axis it op0 op1 out' st1 = (r, st')"
      by (simp add: PyUFunc_Reduceat_def)
    have z: "PyArray_SIZE op0 = 0 \<and> (out' = op0 \<or> out = Some out') \<and>
             (\<forall>i. it = Some i \<longrightarrow> PyArray_SIZE (it_operands i ! 0) = 0)"
      using reduceat_setup_operands[OF stp[unfolded Inr plan]]
    proof
      assume h: "it = None \<and> \<not> reduceat_need_outer_iterator c arr out dtype0 \<and> op1 = arr \<and>
          out' = op0 \<and> out = None \<and>
          NewFromDescr c dtype0 [int (length ind)] False = Some op0"
      then have nd: "PyArray_NDIM arr \<le> 1" by (auto simp: reduceat_need_outer_iterator_def)
      from vector_dim_zero[OF nd axis size0] have "PyArray_DIM arr axis = 0" by simp
      from empty[OF this] have ie: "ind = []" .
      from h alloc have "dimensions op0 = [int (length ind)]" by blast
      with ie h show ?thesis by (simp add: PyArray_SIZE_def PyArray_MultiplyList_def)
    next
      assume "\<exists>i. it = Some i \<and>
            NpyIter_AdvancedNew c
              [case out of None \<Rightarrow> Op_null | Some a \<Rightarrow> Op_array a, Op_array arr, Op_indices ind]
              [dtype0, dtype0] (reduceat_op_axes (PyArray_NDIM arr) axis) = Some i \<and>
            op0 = it_operands i ! 0 \<and> op1 = it_operands i ! 1 \<and>
            out' = (case out of None \<Rightarrow> op0 | Some a \<Rightarrow> a)"
      then obtain i ops dts axes where h: "it = Some i" "NpyIter_AdvancedNew c ops dts axes = Some i"
        "op0 = it_operands i ! 0" "out' = (case out of None \<Rightarrow> op0 | Some a \<Rightarrow> a)" by blast
      from iter0 h(2,3) have "PyArray_SIZE op0 = 0" by blast
      with h show ?thesis by (cases out) auto
    qed
    from z have zi: "\<forall>i. it = Some i \<longrightarrow> out = None \<or> PyArray_SIZE (it_operands i ! 0) = 0"
      by blast
    from reduceat_run_zero[OF rn _ zi] z
    have "trace st' = trace st1" "mem st' = mem st1" "r = Inr out' \<or> r = Inl Raised" by auto
    with k1 z show ?thesis by auto
  qed
qed

lemma trivial_zero_size:
  assumes run: "try_trivial_single_output_loop c ufunc op dtypes order arr_prep g st = (0, op', st')"
    and a: "Some a \<in> set (take (nat (nin ufunc) + 1) op)" "0 \<in> set (dimensions a)"
  shows "(\<exists>d fs. kernel_calls (trace st') = kernel_calls (trace st) @ [Ev_kernel d 0 fs]) \<and>
         mem st' = mem st"
proof -
  from try_trivial_cases[OF run]
  obtain oo nd sh fs0 fs where
    scan: "scan_operands (take (nat (nin ufunc) + 1) op) 0
               (if order = NPY_CORDER then NPY_ARRAY_C_CONTIGUOUS
                else if order = NPY_FORTRANORDER then NPY_ARRAY_F_CONTIGUOUS else 0)
               0 [] (replicate (nat (nin ufunc) + 1) 0) = Some (oo, nd, sh, fs0)"
    and k: "\<exists>d. kernel_calls (trace st') =
                 kernel_calls (trace st) @ [Ev_kernel d (PyArray_MultiplyList sh) fs]"
    and m: "PyArray_MultiplyList sh = 0 \<longrightarrow> mem st' = mem st"
    by auto
  from a(2) have "PyArray_NDIM a \<noteq> 0" by (auto simp: PyArray_NDIM_def)
  with scan_operands_uniform[OF scan] a(1) have "dimensions a = sh" by auto
  with a(2) have "PyArray_MultiplyList sh = 0" by (simp add: MultiplyList_zero)
  with k m show ?thesis by auto
qed

text \<open>
  Claim C3, as the code has it.  With an operand of size zero: \<^verbatim>\<open>iterator_loop\<close>, whose iterator
  reports iteration size 0, returns without a kernel call and without writing an item;
  accumulate returns without a kernel call and without writing an item, and its result has
  size zero or is the \<^verbatim>\<open>out\<close> it was given; so does reduceat when its indices pass the bounds
  check; the trivial-loop fast path calls the kernel once, with count 0, and no item is
  written.  (The allocator and the iterator are taken to give arrays of the shape asked
  for.)
\<close>

theorem zero_size_operands:
  "(iterator_loop c ufunc op dtypes order buffersize arr_preps g st = (ri, sti) \<and>
    (\<forall>ops dts ord bs it. NpyIter_AdvancedNew_elementwise c ops dts ord bs = Some it
        \<longrightarrow> li_size it = 0) \<longrightarrow>
      kernel_calls (trace sti) = kernel_calls (trace st) \<and> mem sti = mem st) \<and>
   (try_trivial_single_output_loop c ufunc op dtypes order arr_prep g st = (0, op', stt) \<and>
    Some a \<in> set (take (nat (nin ufunc) + 1) op) \<and> 0 \<in> set (dimensions a) \<longrightarrow>
      (\<exists>d fs. kernel_calls (trace stt) = kernel_calls (trace st) @ [Ev_kernel d 0 fs]) \<and>
      mem stt = mem st) \<and>
   (PyUFunc_Accumulate c ufunc arr out axis otype st = (ra, sta) \<and>
    PyArray_SIZE arr = 0 \<and> 0 \<le> axis \<and> axis < PyArray_NDIM arr \<and>
    (\<forall>d shp fortran new. NewFromDescr c d shp fortran = Some new \<longrightarrow> dimensions new = shp) \<and>
    (\<forall>ops dts axes it. NpyIter_AdvancedNew c ops dts axes = Some it \<longrightarrow>
        dimensions (it_operands it ! 0) = dimensions arr) \<longrightarrow>
      kernel_calls (trace sta) = kernel_calls (trace st) \<and> mem sta = mem st \<and>
      (\<forall>res. ra = Inr res \<longrightarrow> PyArray_SIZE res = 0 \<or> out = Some res)) \<and>
   (PyUFunc_Reduceat c ufunc arr ind out axis otype st = (rr, str) \<and>
    PyArray_SIZE arr = 0 \<and> 0 \<le> axis \<and> axis < PyArray_NDIM arr \<and>
    (\<forall>i<length ind. 0 \<le> ind ! i \<and> ind ! i < PyArray_DIM arr axis) \<and>
    (\<forall>d shp fortran new. NewFromDescr c d shp fortran = Some new \<longrightarrow> dimensions new = shp) \<and>
    (\<forall>ops dts axes it. NpyIter_AdvancedNew c ops dts axes = Some it \<longrightarrow>
        dimensions (it_operands it ! 0) = (dimensions arr)[nat axis := int (length ind)]) \<longrightarrow>
      kernel_calls (trace str) = kernel_calls (trace st) \<and> mem str = mem st \<and>
      (\<forall>res. rr = Inr res \<longrightarrow> PyArray_SIZE res = 0 \<or> out = Some res))"
proof (intro conjI impI)
  assume "iterator_loop c ufunc op dtypes order buffersize arr_preps g st = (ri, sti) \<and>
    (\<forall>ops dts ord bs it. NpyIter_AdvancedNew_elementwise c ops dts ord bs = Some it
        \<longrightarrow> li_size it = 0)"
  then show "kernel_calls (trace sti) = kernel_calls (trace st)" "mem sti = mem st"
    using iterator_loop_zero_size by blast+
next
  assume "try_trivial_single_output_loop c ufunc op dtypes order arr_prep g st = (0, op', stt) \<and>
    Some a \<in> set (take (nat (nin ufunc) + 1) op) \<and> 0 \<in> set (dimensions a)"
  then show "\<exists>d fs. kernel_calls (trace stt) = kernel_calls (trace st) @ [Ev_kernel d 0 fs]"
    "mem stt = mem st"
    using trivial_zero_size by blast+
next
  assume h: "PyUFunc_Accumulate c ufunc arr out axis otype st = (ra, sta) \<and>
    PyArray_SIZE arr = 0 \<and> 0 \<le> axis \<and> axis < PyArray_NDIM arr \<and>
    (\<forall>d shp fortran new. NewFromDescr c d shp fortran = Some new \<longrightarrow> dimensions new = shp) \<and>
    (\<forall>ops dts axes it. NpyIter_AdvancedNew c ops dts axes = Some it \<longrightarrow>
        dimensions (it_operands it ! 0) = dimensions arr)"
  have "kernel_calls (trace sta) = kernel_calls (trace st) \<and> mem sta = mem st \<and>
      (\<forall>res. ra = Inr res \<longrightarrow> PyArray_SIZE res = 0 \<or> out = Some res)"
    by (rule accumulate_zero_size[of c ufunc arr out axis otype st ra sta]) (use h in blast)+
  then show "kernel_calls (trace sta) = kernel_calls (trace st)" "mem sta = mem st"
    "\<forall>res. ra = Inr res \<longrightarrow> PyArray_SIZE res = 0 \<or> out = Some res" by blast+
next
  assume h: "PyUFunc_Reduceat c ufunc arr ind out axis otype st = (rr, str) \<and>
    PyArray_SIZE arr = 0 \<and> 0 \<le> axis \<and> axis < PyArray_NDIM arr \<and>
    (\<forall>i<length ind. 0 \<le> ind ! i \<and> ind ! i < PyArray_DIM arr axis) \<and>
    (\<forall>d shp fortran new. NewFromDescr c d shp fortran = Some new \<longrightarrow> dimensions new = shp) \<and>
    (\<forall>ops dts axes it. NpyIter_AdvancedNew c ops dts axes = Some it \<longrightarrow>
        dimensions (it_operands it ! 0) = (dimensions arr)[nat axis := int (length ind)])"
  have "kernel_calls (trace str) = kernel_calls (trace st) \<and> mem str = mem st \<and>
      (\<forall>res. rr = Inr res \<longrightarrow> PyArray_SIZE res = 0 \<or> out = Some res)"
    by (rule reduceat_zero_size[of c ufunc arr ind out axis otype st rr str]) (use h in blast)+
  then show "kernel_calls (trace str) = kernel_calls (trace st)" "mem str = mem st"
    "\<forall>res. rr = Inr res \<longrightarrow> PyArray_SIZE res = 0 \<or> out = Some res" by blast+
qed

text \<open>
  Against claim C3 as stated: on two empty vectors the fast path does invoke the kernel
  (with count 0), and reduceat over an axis of length 0 with the index 0 raises the index
  error instead of returning an output.
\<close>

theorem zero_size_fast_path_calls_kernel:
  "kernel_calls (trace (snd (snd (try_trivial_single_output_loop plain_collab add_ufunc
      [Some empty_vector, Some empty_vector, None] [double_descr, double_descr, double_descr]
      2 None add_nkernel vector5_state)))) = [Ev_kernel [5000, 5000, 2000] 0 [8, 8, 8]] \<and>
   PyArray_SIZE empty_vector = 0 \<and>
   PyUFunc_Reduceat plain_collab add_ufunc empty_vector [0] None 0 NPY_DOUBLE vector5_state =
     (Inl (IndexError_out_of_bounds 0 ''add'' ''reduceat'' 0), vector5_state)"
  by (simp add: try_trivial_single_output_loop_def add_ufunc_def empty_vector_def
        PyArray_NDIM_def Let_def NPY_CORDER_def NPY_FORTRANORDER_def NPY_ARRAY_C_CONTIGUOUS_def
        NPY_ARRAY_F_CONTIGUOUS_def NPY_ARRAY_ALIGNED_def PyArray_ITEMSIZE_def double_descr_def
        plain_collab_def trivial_call_def prepare_ufunc_output_def aligned_c_flags_def
        numeral_2_eq_2 numeral_3_eq_3 innerloop_n_def vector5_state_def PyArray_SIZE_def
        PyArray_MultiplyList_def PyUFunc_Reduceat_def PyArray_DIM_def ufunc_get_name_cstr_def
        PyArray_CompareLists_def)

theorem zero_size_operands_witness:
  "kernel_calls (trace (snd (iterator_loop zero_size_collab add_ufunc
      [Some empty_matrix, Some empty_matrix, None] [double_descr, double_descr, double_descr]
      2 8192 [None] add_nkernel vector5_state))) = kernel_calls (trace vector5_state) \<and>
   (\<exists>d fs. kernel_calls (trace (snd (snd (try_trivial_single_output_loop plain_collab add_ufunc
      [Some empty_vector, Some empty_vector, None] [double_descr, double_descr, double_descr]
      2 None add_nkernel vector5_state)))) =
        kernel_calls (trace vector5_state) @ [Ev_kernel d 0 fs]) \<and>
   mem (snd (PyUFunc_Accumulate plain_collab add_ufunc empty_vector None 0 NPY_DOUBLE
      vector5_state)) = mem vector5_state \<and>
   mem (snd (PyUFunc_Reduceat zero_size_collab add_ufunc empty_matrix [0, 2] None 0 NPY_DOUBLE
      vector5_state)) = mem vector5_state"
proof -
  define it where "it = iterator_loop zero_size_collab add_ufunc
      [Some empty_matrix, Some empty_matrix, None] [double_descr, double_descr, double_descr]
      2 8192 [None] add_nkernel vector5_state"
  define tr where "tr = try_trivial_single_output_loop plain_collab add_ufunc
      [Some empty_vector, Some empty_vector, None] [double_descr, double_descr, double_descr]
      2 None add_nkernel vector5_state"
  define ac where "ac = PyUFunc_Accumulate plain_collab add_ufunc empty_vector None 0 NPY_DOUBLE
      vector5_state"
  define re where "re = PyUFunc_Reduceat zero_size_collab add_ufunc empty_matrix [0, 2] None 0
      NPY_DOUBLE vector5_state"
  have tr0: "fst tr = 0"
    unfolding tr_def
    by (simp add: try_trivial_single_output_loop_def add_ufunc_def empty_vector_def
        PyArray_NDIM_def Let_def NPY_CORDER_def NPY_FORTRANORDER_def NPY_ARRAY_C_CONTIGUOUS_def
        NPY_ARRAY_F_CONTIGUOUS_def NPY_ARRAY_ALIGNED_def PyArray_ITEMSIZE_def double_descr_def
        plain_collab_def trivial_call_def prepare_ufunc_output_def aligned_c_flags_def
        numeral_2_eq_2 numeral_3_eq_3 PyArray_CompareLists_def split: prod.splits)
  have h1: "\<forall>ops dts ord bs i. NpyIter_AdvancedNew_elementwise zero_size_collab ops dts ord bs
              = Some i \<longrightarrow> li_size i = 0"
    by (auto simp: zero_size_collab_def)
  have c1: "kernel_calls (trace (snd it)) = kernel_calls (trace vector5_state)"
    using zero_size_operands[where c = zero_size_collab and ufunc = add_ufunc
        and op = "[Some empty_matrix, Some empty_matrix, None]"
        and dtypes = "[double_descr, double_descr, double_descr]" and order = 2
        and buffersize = 8192 and arr_preps = "[None]" and g = add_nkernel
        and st = vector5_state and ri = "fst it" and sti = "snd it", THEN conjunct1]
      h1
    by (simp add: it_def[symmetric])
  have h2: "Some empty_vector \<in> set (take (nat (nin add_ufunc) + 1)
               [Some empty_vector, Some empty_vector, None]) \<and> 0 \<in> set (dimensions empty_vector)"
    by (simp add: add_ufunc_def empty_vector_def)
  have c2: "\<exists>d fs. kernel_calls (trace (snd (snd tr))) =
        kernel_calls (trace vector5_state) @ [Ev_kernel d 0 fs]"
    using zero_size_operands[where c = plain_collab and ufunc = add_ufunc
        and op = "[Some empty_vector, Some empty_vector, None]"
        and dtypes = "[double_descr, double_descr, double_descr]" and order = 2
        and arr_prep = None and g = add_nkernel and st = vector5_state
        and op' = "fst (snd tr)" and stt = "snd (snd tr)" and a = empty_vector,
        THEN conjunct2, THEN conjunct1] tr0 h2
    by (simp add: tr_def[symmetric] prod_eq_iff)
  have h3: "PyArray_SIZE empty_vector = 0 \<and> 0 \<le> (0::int) \<and> 0 < PyArray_NDIM empty_vector \<and>
    (\<forall>d shp fortran new. NewFromDescr plain_collab d shp fortran = Some new \<longrightarrow>
        dimensions new = shp) \<and>
    (\<forall>ops dts axes i. NpyIter_AdvancedNew plain_collab ops dts axes = Some i \<longrightarrow>
        dimensions (it_operands i ! 0) = dimensions empty_vector)"
    by (auto simp: empty_vector_def PyArray_SIZE_def PyArray_MultiplyList_def
        PyArray_NDIM_def plain_collab_def)
  have c3: "mem (snd ac) = mem vector5_state"
    using zero_size_operands[where c = plain_collab and ufunc = add_ufunc
        and arr = empty_vector and out = None and axis = 0 and otype = NPY_DOUBLE
        and st = vector5_state and ra = "fst ac" and sta = "snd ac",
        THEN conjunct2, THEN conjunct2, THEN conjunct1] h3
    by (simp add: ac_def[symmetric])
  have h4: "PyArray_SIZE empty_matrix = 0 \<and> 0 \<le> (0::int) \<and> 0 < PyArray_NDIM empty_matrix \<and>
    (\<forall>i<length [0, 2::int]. 0 \<le> [0, 2::int] ! i \<and> [0, 2::int] ! i < PyArray_DIM empty_matrix 0) \<and>
    (\<forall>d shp fortran new. NewFromDescr zero_size_collab d shp fortran = Some new \<longrightarrow>
        dimensions new = shp) \<and>
    (\<forall>ops dts axes i. NpyIter_AdvancedNew zero_size_collab ops dts axes = Some i \<longrightarrow>
        dimensions (it_operands i ! 0) =
          (dimensions empty_matrix)[nat 0 := int (length [0, 2::int])])"
    by (auto simp: empty_matrix_def PyArray_SIZE_def PyArray_MultiplyList_def
        PyArray_NDIM_def PyArray_DIM_def zero_size_collab_def plain_collab_def
        less_Suc_eq)
  have c4: "mem (snd re) = mem vector5_state"
    using zero_size_operands[where c = zero_size_collab and ufunc = add_ufunc
        and arr = empty_matrix and ind = "[0, 2]" and out = None and axis = 0
        and otype = NPY_DOUBLE and st = vector5_state and rr = "fst re" and str = "snd re",
        THEN conjunct2, THEN conjunct2, THEN conjunct2] h4
    by (simp add: re_def[symmetric])
  from c1 c2 c3 c4 show ?thesis
    by (simp add: it_def tr_def ac_def re_def)
qed

section \<open>The running folds: what the loops store and which kernel calls they make\<close>


lemma binary_loop_trace [simp]:
  "trace (binary_loop f n d s st) = trace st"
proof (induction n arbitrary: d st)
  case 0 then show ?case by simp
next
  case (Suc n)
  obtain d0 d1 d2 where d: "d = (d0, d1, d2)" by (cases d) auto
  obtain s0 s1 s2 where s: "s = (s0, s1, s2)" by (cases s) auto
  show ?case using Suc.IH by (simp add: d s split: option.split)
qed

lemma binary_loop_err:
  "err st \<Longrightarrow> err (binary_loop f n d s st)"
proof (induction n arbitrary: d st)
  case 0 then show ?case by simp
next
  case (Suc n)
  obtain d0 d1 d2 where d: "d = (d0, d1, d2)" by (cases d) auto
  obtain s0 s1 s2 where s: "s = (s0, s1, s2)" by (cases s) auto
  show ?case using Suc by (simp add: d s split: option.split)
qed


lemma innerloop_trace [simp]:
  "trace (innerloop f (d0, d1, d2) count (s0, s1, s2) st) =
   trace st @ [Ev_kernel [d0, d1, d2] count [s0, s1, s2]]"
  by (simp add: innerloop_def)

lemma innerloop_err: "err st \<Longrightarrow> err (innerloop f d count s st)"
  by (simp add: innerloop_def binary_loop_err)



lemma fold_err_mono:
  assumes "\<And>x s. err s \<Longrightarrow> err (step x s)" and "err st"
  shows "err (fold step xs st)"
  using assms(2) by (induction xs arbitrary: st) (simp_all add: assms(1))



lemma kernel_written_simps [simp]:
  "kernel_written [] = {}"
  "kernel_written (e # es) = kernel_writes e \<union> kernel_written es"
  "kernel_written (es @ fs) = kernel_written es \<union> kernel_written fs"
  by (auto simp: kernel_written_def)



lemma reduceat_segment_err:
  "err st \<Longrightarrow> err (reduceat_segment f otype ind e s0 s1 p i st)"
  by (simp add: reduceat_segment_def Let_def innerloop_err)



lemma reduceat_steps_err:
  "err st \<Longrightarrow> err (fold (\<lambda>(p, i). reduceat_segment f otype ind e s0 s1 p i) xs st)"
  by (rule fold_err_mono) (auto simp: reduceat_segment_err)





section \<open>Reduceat: the length of the result and the degenerate segments\<close>






section \<open>Accumulate: the first element\<close>


lemma Py_XINCREF_frame2 [simp]: "dealloc (Py_XINCREF p st) = dealloc st"
  by (simp add: Py_XINCREF_def)

lemma binary_loop_ob_refcnt [simp]:
  "ob_refcnt (binary_loop f n d s st) = ob_refcnt st"
proof (induction n arbitrary: d st)
  case 0 then show ?case by simp
next
  case (Suc n)
  obtain d0 d1 d2 where d: "d = (d0, d1, d2)" by (cases d) auto
  obtain s0 s1 s2 where s: "s = (s0, s1, s2)" by (cases s) auto
  show ?case using Suc.IH by (simp add: d s split: option.split)
qed

lemma binary_loop_dealloc [simp]:
  "dealloc (binary_loop f n d s st) = dealloc st"
proof (induction n arbitrary: d st)
  case 0 then show ?case by simp
next
  case (Suc n)
  obtain d0 d1 d2 where d: "d = (d0, d1, d2)" by (cases d) auto
  obtain s0 s1 s2 where s: "s = (s0, s1, s2)" by (cases s) auto
  show ?case using Suc.IH by (simp add: d s split: option.split)
qed

lemma innerloop_refs [simp]:
  "ob_refcnt (innerloop f d n s st) = ob_refcnt st"
  "dealloc (innerloop f d n s st) = dealloc st"
  by (simp_all add: innerloop_def)





lemma accumulate_outer_body_err:
  "err st \<Longrightarrow> err (accumulate_outer_body f otype count_m1 s0 s1 p st)"
  by (simp add: accumulate_outer_body_def Let_def innerloop_err)




lemma accumulate_lanes_err:
  "err st \<Longrightarrow> err (fold (accumulate_outer_body f otype count_m1 s0 s1) ps st)"
  by (rule fold_err_mono) (auto simp: accumulate_outer_body_err)














section \<open>Core dimensions: the sizes of the named dimensions\<close>

lemma match_extents_append:
  "match_extents (xs @ ys) sizes =
   (case match_extents xs sizes of Inl e \<Rightarrow> Inl e | Inr sizes' \<Rightarrow> match_extents ys sizes')"
proof (induction xs arbitrary: sizes)
  case Nil then show ?case by simp
next
  case (Cons x xs)
  obtain k s nm io opn cd sg where x: "x = (k, s, nm, io, opn, cd, sg)" by (cases x) auto
  show ?case using Cons.IH by (simp add: x)
qed

lemma coredim_operand_loop_match:
  "coredim_operand_loop ufunc i a core_start_dim dim_flags remap_axis idims dim_delta sizes =
   match_extents (operand_core_extents ufunc i a core_start_dim dim_flags remap_axis idims dim_delta)
     sizes"
  by (induction idims arbitrary: dim_delta sizes) (simp_all add: Let_def)

lemma coredim_operands_loop_match:
  "coredim_operands_loop ufunc op op_core_num_dims dim_flags remap_axis ops sizes =
   match_extents (operands_core_extents ufunc op op_core_num_dims dim_flags remap_axis ops) sizes"
proof (induction ops arbitrary: sizes)
  case Nil then show ?case by simp
next
  case (Cons i ops)
  show ?case
    by (cases "op ! nat i")
       (simp_all add: Cons.IH match_extents_append coredim_operand_loop_match Let_def
          split: sum.split)
qed

lemma resolved_size_set:
  assumes "sizes ! k < 0" "k < length sizes" "0 \<le> s" "j < length sizes"
  shows "resolved_size seen (sizes[k := s]) j = resolved_size ((k, s) # seen) sizes j"
  using assms by (cases "j = k") (simp_all add: resolved_size_def split: option.split)

lemma resolved_size_keep:
  assumes "0 \<le> sizes ! k"
  shows "resolved_size ((k, s) # seen) sizes j = resolved_size seen sizes j"
  using assms by (cases "j = k") (simp_all add: resolved_size_def)

lemma match_extents_ok:
  assumes "match_extents M sizes = Inr sizes'"
    and "\<forall>(k, s, w) \<in> set M. k < length sizes \<and> 0 \<le> s"
  shows "length sizes' = length sizes \<and>
         (\<forall>j<length sizes. sizes' ! j = resolved_size (map (\<lambda>(k, s, w). (k, s)) M) sizes j) \<and>
         (\<forall>(k, s, w) \<in> set M. sizes' ! k = s)"
  using assms
proof (induction M arbitrary: sizes)
  case Nil
  then show ?case by (simp add: resolved_size_def)
next
  case (Cons x M)
  obtain k s nm io opn cd sg where x: "x = (k, s, nm, io, opn, cd, sg)" by (cases x) auto
  from Cons.prems(2) have ks: "k < length sizes" "0 \<le> s"
    and wf: "\<forall>(k, s, w) \<in> set M. k < length sizes \<and> 0 \<le> s" by (auto simp: x)
  show ?case
  proof (cases "sizes ! k < 0")
    case True
    let ?s1 = "sizes[k := s]"
    from Cons.prems(1) True have m: "match_extents M ?s1 = Inr sizes'" by (simp add: x)
    from wf have wf1: "\<forall>(k, s, w) \<in> set M. k < length ?s1 \<and> 0 \<le> s" by simp
    from Cons.IH[OF m wf1] have ih: "length sizes' = length sizes"
      "\<forall>j<length sizes. sizes' ! j = resolved_size (map (\<lambda>(k, s, w). (k, s)) M) ?s1 j"
      "\<forall>(k, s, w) \<in> set M. sizes' ! k = s" by simp_all
    have r: "\<forall>j<length sizes.
               sizes' ! j = resolved_size (map (\<lambda>(k, s, w). (k, s)) (x # M)) sizes j"
      using ih(2) resolved_size_set[OF True ks] by (simp add: x)
    then have "sizes' ! k = resolved_size ((k, s) # map (\<lambda>(k, s, w). (k, s)) M) sizes k"
      using ks(1) by (simp add: x)
    with True have "sizes' ! k = s" by (simp add: resolved_size_def)
    with ih(1,3) r show ?thesis by (simp add: x)
  next
    case False
    with Cons.prems(1) have eq: "s = sizes ! k" and m: "match_extents M sizes = Inr sizes'"
      by (auto simp: x split: if_splits)
    from Cons.IH[OF m wf] have ih: "length sizes' = length sizes"
      "\<forall>j<length sizes. sizes' ! j = resolved_size (map (\<lambda>(k, s, w). (k, s)) M) sizes j"
      "\<forall>(k, s, w) \<in> set M. sizes' ! k = s" by simp_all
    from False have nn: "0 \<le> sizes ! k" by simp
    have r: "\<forall>j<length sizes.
               sizes' ! j = resolved_size (map (\<lambda>(k, s, w). (k, s)) (x # M)) sizes j"
      using ih(2) resolved_size_keep[OF nn] by (simp add: x)
    then have "sizes' ! k = resolved_size ((k, s) # map (\<lambda>(k, s, w). (k, s)) M) sizes k"
      using ks(1) by (simp add: x)
    with nn eq have "sizes' ! k = s" by (simp add: resolved_size_def)
    with ih(1,3) r show ?thesis by (simp add: x)
  qed
qed

lemma match_extents_error:
  assumes "match_extents M sizes = Inl e"
    and "\<forall>(k, s, w) \<in> set M. k < length sizes \<and> 0 \<le> s"
  shows "\<exists>seen k s nm io opn cd sg rest. M = seen @ (k, s, nm, io, opn, cd, sg) # rest \<and>
           e = CoreDimMismatch nm io opn cd sg s
                 (resolved_size (map (\<lambda>(k, s, w). (k, s)) seen) sizes k) \<and>
           s \<noteq> resolved_size (map (\<lambda>(k, s, w). (k, s)) seen) sizes k"
  using assms
proof (induction M arbitrary: sizes)
  case Nil
  then show ?case by simp
next
  case (Cons x M)
  obtain k s nm io opn cd sg where x: "x = (k, s, nm, io, opn, cd, sg)" by (cases x) auto
  from Cons.prems(2) have ks: "k < length sizes" "0 \<le> s"
    and wf: "\<forall>(k, s, w) \<in> set M. k < length sizes \<and> 0 \<le> s" by (auto simp: x)
  have step: "\<exists>seen k s nm io opn cd sg rest. x # M = seen @ (k, s, nm, io, opn, cd, sg) # rest \<and>
           e = CoreDimMismatch nm io opn cd sg s
                 (resolved_size (map (\<lambda>(k, s, w). (k, s)) seen) sizes k) \<and>
           s \<noteq> resolved_size (map (\<lambda>(k, s, w). (k, s)) seen) sizes k"
    if ih: "M = seen @ (k', s', nm', io', opn', cd', sg') # rest"
      "e = CoreDimMismatch nm' io' opn' cd' sg' s' v" "s' \<noteq> v"
      and rs: "resolved_size (map (\<lambda>(k, s, w). (k, s)) (x # seen)) sizes k' = v"
    for seen k' s' nm' io' opn' cd' sg' rest v
  proof -
    have "x # M = (x # seen) @ (k', s', nm', io', opn', cd', sg') # rest" by (simp add: ih(1))
    moreover have "e = CoreDimMismatch nm' io' opn' cd' sg' s'
                         (resolved_size (map (\<lambda>(k, s, w). (k, s)) (x # seen)) sizes k')"
      using ih(2) rs by simp
    moreover have "s' \<noteq> resolved_size (map (\<lambda>(k, s, w). (k, s)) (x # seen)) sizes k'"
      using ih(3) rs by simp
    ultimately show ?thesis by blast
  qed
  show ?case
  proof (cases "sizes ! k < 0")
    case True
    let ?s1 = "sizes[k := s]"
    from Cons.prems(1) True have m: "match_extents M ?s1 = Inl e" by (simp add: x)
    from wf have wf1: "\<forall>(k, s, w) \<in> set M. k < length ?s1 \<and> 0 \<le> s" by simp
    from Cons.IH[OF m wf1] obtain seen k' s' nm' io' opn' cd' sg' rest where ih:
      "M = seen @ (k', s', nm', io', opn', cd', sg') # rest"
      "e = CoreDimMismatch nm' io' opn' cd' sg' s'
             (resolved_size (map (\<lambda>(k, s, w). (k, s)) seen) ?s1 k')"
      "s' \<noteq> resolved_size (map (\<lambda>(k, s, w). (k, s)) seen) ?s1 k'" by blast
    from wf ih(1) have k': "k' < length sizes" by auto
    from resolved_size_set[OF True ks k', of "map (\<lambda>(k, s, w). (k, s)) seen"]
    have "resolved_size (map (\<lambda>(k, s, w). (k, s)) (x # seen)) sizes k' =
          resolved_size (map (\<lambda>(k, s, w). (k, s)) seen) ?s1 k'" by (simp add: x)
    from step[OF ih this] show ?thesis .
  next
    case False
    then have nn: "0 \<le> sizes ! k" by simp
    show ?thesis
    proof (cases "s = sizes ! k")
      case True
      with Cons.prems(1) False have m: "match_extents M sizes = Inl e" by (simp add: x)
      from Cons.IH[OF m wf] obtain seen k' s' nm' io' opn' cd' sg' rest where ih:
        "M = seen @ (k', s', nm', io', opn', cd', sg') # rest"
        "e = CoreDimMismatch nm' io' opn' cd' sg' s'
               (resolved_size (map (\<lambda>(k, s, w). (k, s)) seen) sizes k')"
        "s' \<noteq> resolved_size (map (\<lambda>(k, s, w). (k, s)) seen) sizes k'" by blast
      from resolved_size_keep[OF nn, of s "map (\<lambda>(k, s, w). (k, s)) seen" k']
      have "resolved_size (map (\<lambda>(k, s, w). (k, s)) (x # seen)) sizes k' =
            resolved_size (map (\<lambda>(k, s, w). (k, s)) seen) sizes k'" by (simp add: x)
      from step[OF ih this] show ?thesis .
    next
      case ne: False
      with Cons.prems(1) False have e: "e = CoreDimMismatch nm io opn cd sg s (sizes ! k)"
        by (simp add: x)
      have rs: "resolved_size (map (\<lambda>(k, s, w). (k, s)) []) sizes k = sizes ! k"
        using nn by (simp add: resolved_size_def)
      have "x # M = [] @ (k, s, nm, io, opn, cd, sg) # M" by (simp add: x)
      moreover have "e = CoreDimMismatch nm io opn cd sg s
                           (resolved_size (map (\<lambda>(k, s, w). (k, s)) []) sizes k)"
        using e rs by simp
      moreover have "s \<noteq> resolved_size (map (\<lambda>(k, s, w). (k, s)) []) sizes k"
        using ne rs by simp
      ultimately show ?thesis by blast
    qed
  qed
qed

lemma core_extents_wf:
  assumes "\<forall>(k, s) \<in> set (map (\<lambda>(k, s, w). (k, s)) M). k < length sizes \<and> 0 \<le> s"
  shows "\<forall>(k, s, w) \<in> set M. k < length (sizes :: int list) \<and> 0 \<le> (s :: int)"
proof (clarify)
  fix k s w
  assume "(k, s, w) \<in> set M"
  then have "(\<lambda>(k, s, w). (k, s)) (k, s, w) \<in> set (map (\<lambda>(k, s, w). (k, s)) M)"
    by (metis image_eqI set_map)
  with assms show "k < length sizes \<and> 0 \<le> s" by auto
qed

text \<open>
  Claim C4.  Let the extents be the list of what \<^verbatim>\<open>_get_coredim_sizes\<close> looks at, in its
  order: for every operand that is present and each of its core dimensions, the index of
  the dimension's name and the extent the operand has there.  The extents are not negative
  and the indices lie inside the array of sizes.

  \<^item> When the function succeeds, the array has kept its length, the size of every
    dimension is the one the array came with if that was not negative (a literal of the
    signature) and else the first extent in the list for that dimension, and every extent
    in the list equals the size of its dimension.

  \<^item> When some extent differs from that size, the function fails with the
    core-dimension mismatch error at some place of the list, and the two sizes in the
    error are the extent found at that place and the size on record there: the literal,
    or the first extent seen before for that dimension; they are different.
\<close>

theorem core_dimension_sizes_must_match:
  assumes wf: "\<forall>(k, s) \<in> set (core_extents ufunc op op_core_num_dims dim_flags remap_axis).
                 k < length sizes \<and> 0 \<le> s"
  shows "(\<forall>sizes'. get_coredim_sizes ufunc op op_core_num_dims dim_flags sizes remap_axis = Inr sizes' \<longrightarrow>
            length sizes' = length sizes \<and>
            (\<forall>k<length sizes.
               sizes' ! k =
               resolved_size (core_extents ufunc op op_core_num_dims dim_flags remap_axis) sizes k) \<and>
            (\<forall>(k, s) \<in> set (core_extents ufunc op op_core_num_dims dim_flags remap_axis).
               s = sizes' ! k)) \<and>
         ((\<exists>(k, s) \<in> set (core_extents ufunc op op_core_num_dims dim_flags remap_axis).
             s \<noteq> resolved_size (core_extents ufunc op op_core_num_dims dim_flags remap_axis) sizes k) \<longrightarrow>
          (\<exists>seen k s rest nm io opn cd sg.
             core_extents ufunc op op_core_num_dims dim_flags remap_axis = seen @ (k, s) # rest \<and>
             s \<noteq> resolved_size seen sizes k \<and>
             get_coredim_sizes ufunc op op_core_num_dims dim_flags sizes remap_axis =
               Inl (CoreDimMismatch nm io opn cd sg s (resolved_size seen sizes k))))"
proof -
  define M where "M = operands_core_extents ufunc op op_core_num_dims dim_flags remap_axis
                        [0..nin ufunc + nout ufunc - 1]"
  define E where "E = core_extents ufunc op op_core_num_dims dim_flags remap_axis"
  have E: "E = map (\<lambda>(k, s, w). (k, s)) M" by (simp add: E_def M_def core_extents_def)
  have loop: "coredim_operands_loop ufunc op op_core_num_dims dim_flags remap_axis
                [0..nin ufunc + nout ufunc - 1] sizes = match_extents M sizes"
    by (simp add: M_def coredim_operands_loop_match)
  from wf have wfM: "\<forall>(k, s, w) \<in> set M. k < length sizes \<and> 0 \<le> s"
    unfolding E_def[symmetric] E by (rule core_extents_wf)
  have ok: "length sizes' = length sizes \<and>
            (\<forall>k<length sizes. sizes' ! k = resolved_size E sizes k) \<and>
            (\<forall>(k, s) \<in> set E. s = sizes' ! k)"
    if m: "match_extents M sizes = Inr sizes'" for sizes'
  proof -
    from match_extents_ok[OF m wfM]
    have a: "length sizes' = length sizes"
      "\<forall>j<length sizes. sizes' ! j = resolved_size E sizes j"
      "\<forall>(k, s, w) \<in> set M. sizes' ! k = s" by (simp_all add: E)
    have "\<forall>(k, s) \<in> set E. s = sizes' ! k" using a(3) by (auto simp: E)
    with a show ?thesis by blast
  qed
  have part1: "length sizes' = length sizes \<and>
            (\<forall>k<length sizes. sizes' ! k = resolved_size E sizes k) \<and>
            (\<forall>(k, s) \<in> set E. s = sizes' ! k)"
    if g: "get_coredim_sizes ufunc op op_core_num_dims dim_flags sizes remap_axis = Inr sizes'"
    for sizes'
  proof -
    from g have "match_extents M sizes = Inr sizes'"
      by (auto simp: get_coredim_sizes_def Let_def loop split: sum.splits option.splits)
    from ok[OF this] show ?thesis .
  qed
  have part2: "\<exists>seen k s rest nm io opn cd sg.
             E = seen @ (k, s) # rest \<and> s \<noteq> resolved_size seen sizes k \<and>
             get_coredim_sizes ufunc op op_core_num_dims dim_flags sizes remap_axis =
               Inl (CoreDimMismatch nm io opn cd sg s (resolved_size seen sizes k))"
    if dis: "\<exists>(k, s) \<in> set E. s \<noteq> resolved_size E sizes k"
  proof (cases "match_extents M sizes")
    case (Inr sizes')
    from ok[OF Inr] wf dis show ?thesis unfolding E_def[symmetric] by fastforce
  next
    case (Inl e)
    from match_extents_error[OF Inl wfM]
    obtain seen k s nm io opn cd sg rest where r:
      "M = seen @ (k, s, nm, io, opn, cd, sg) # rest"
      "e = CoreDimMismatch nm io opn cd sg s
             (resolved_size (map (\<lambda>(k, s, w). (k, s)) seen) sizes k)"
      "s \<noteq> resolved_size (map (\<lambda>(k, s, w). (k, s)) seen) sizes k" by blast
    have "E = map (\<lambda>(k, s, w). (k, s)) seen @ (k, s) # map (\<lambda>(k, s, w). (k, s)) rest"
      by (simp add: E r(1))
    moreover have "get_coredim_sizes ufunc op op_core_num_dims dim_flags sizes remap_axis = Inl e"
      by (simp add: get_coredim_sizes_def Let_def loop Inl)
    ultimately show ?thesis using r(2,3) by blast
  qed
  from part1 part2 show ?thesis unfolding E_def by blast
qed

theorem core_dimension_sizes_must_match_witness:
  "get_coredim_sizes inner1d_ufunc [Some matrix34, Some matrix34, None] [1, 1, 0]
     (core_dim_flags inner1d_ufunc) (core_dim_sizes inner1d_ufunc) None = Inr [4] \<and>
   resolved_size (core_extents inner1d_ufunc [Some matrix34, Some matrix34, None] [1, 1, 0]
                    (core_dim_flags inner1d_ufunc) None) (core_dim_sizes inner1d_ufunc) 0 = 4 \<and>
   get_coredim_sizes inner1d_ufunc [Some matrix34, Some matrix35, None] [1, 1, 0]
     (core_dim_flags inner1d_ufunc) (core_dim_sizes inner1d_ufunc) None =
     Inl (CoreDimMismatch ''inner1d'' ''Input'' 1 0 (Some ''(i),(i)->()'') 5 4) \<and>
   (\<exists>seen k s rest nm io opn cd sg.
      core_extents inner1d_ufunc [Some matrix34, Some matrix35, None] [1, 1, 0]
        (core_dim_flags inner1d_ufunc) None = seen @ (k, s) # rest \<and>
      s \<noteq> resolved_size seen (core_dim_sizes inner1d_ufunc) k \<and>
      get_coredim_sizes inner1d_ufunc [Some matrix34, Some matrix35, None] [1, 1, 0]
        (core_dim_flags inner1d_ufunc) (core_dim_sizes inner1d_ufunc) None =
        Inl (CoreDimMismatch nm io opn cd sg s (resolved_size seen (core_dim_sizes inner1d_ufunc) k)))"
proof -
  have fl: "core_dim_flags inner1d_ufunc = [4]" "core_dim_sizes inner1d_ufunc = [- 1]"
    by (simp_all add: inner1d_ufunc_def UFUNC_CORE_DIM_SIZE_INFERRED_def)
  have nomiss: "(4 :: 32 word) AND UFUNC_CORE_DIM_MISSING = 0"
    by (simp add: UFUNC_CORE_DIM_MISSING_def)
  have ce1: "core_extents inner1d_ufunc [Some matrix34, Some matrix34, None] [1, 1, 0] [4] None =
             [(0, 4), (0, 4)]"
    by (simp add: core_extents_def inner1d_ufunc_def matrix34_def upto.simps Let_def nomiss
        PyArray_DIM_def PyArray_NDIM_def REMAP_AXIS_def)
  have ce2: "core_extents inner1d_ufunc [Some matrix34, Some matrix35, None] [1, 1, 0] [4] None =
             [(0, 4), (0, 5)]"
    by (simp add: core_extents_def inner1d_ufunc_def matrix34_def matrix35_def upto.simps Let_def
        nomiss PyArray_DIM_def PyArray_NDIM_def REMAP_AXIS_def)
  have g1: "get_coredim_sizes inner1d_ufunc [Some matrix34, Some matrix34, None] [1, 1, 0]
              [4] [- 1] None = Inr [4]"
    by (simp add: get_coredim_sizes_def inner1d_ufunc_def matrix34_def upto.simps Let_def nomiss
        PyArray_DIM_def PyArray_NDIM_def REMAP_AXIS_def)
  have g2: "get_coredim_sizes inner1d_ufunc [Some matrix34, Some matrix35, None] [1, 1, 0]
              [4] [- 1] None =
            Inl (CoreDimMismatch ''inner1d'' ''Input'' 1 0 (Some ''(i),(i)->()'') 5 4)"
    by (simp add: get_coredim_sizes_def inner1d_ufunc_def matrix34_def matrix35_def upto.simps
        Let_def nomiss PyArray_DIM_def PyArray_NDIM_def REMAP_AXIS_def ufunc_get_name_cstr_def)
  have a: "resolved_size [(0, 4), (0, 4)] [- 1] 0 = 4"
    using core_dimension_sizes_must_match[of inner1d_ufunc "[Some matrix34, Some matrix34, None]"
        "[1, 1, 0]" "[4]" None "[- 1]", THEN conjunct1, rule_format, OF _ g1]
    by (simp add: ce1)
  have b: "\<exists>seen k s rest nm io opn cd sg.
      core_extents inner1d_ufunc [Some matrix34, Some matrix35, None] [1, 1, 0] [4] None =
        seen @ (k, s) # rest \<and>
      s \<noteq> resolved_size seen [- 1] k \<and>
      get_coredim_sizes inner1d_ufunc [Some matrix34, Some matrix35, None] [1, 1, 0] [4] [- 1] None =
        Inl (CoreDimMismatch nm io opn cd sg s (resolved_size seen [- 1] k))"
    using core_dimension_sizes_must_match[of inner1d_ufunc "[Some matrix34, Some matrix35, None]"
        "[1, 1, 0]" "[4]" None "[- 1]", THEN conjunct2]
    by (simp add: ce2 resolved_size_def)
  from a b g1 g2 show ?thesis by (simp add: fl ce1)
qed

section \<open>The signature parser: question marks and parse errors\<close>



lemma strlen_le: "strlen s \<le> length s"
  by (simp add: strlen_def length_takeWhile_le)


lemma sig_at_before_strlen: "i < strlen s \<Longrightarrow> sig_at s i \<noteq> CHR 0x00"
proof -
  assume i: "i < strlen s"
  then have "takeWhile (\<lambda>c. c \<noteq> CHR 0x00) s ! i \<in> set (takeWhile (\<lambda>c. c \<noteq> CHR 0x00) s)"
    unfolding strlen_def by (rule nth_mem)
  then have "takeWhile (\<lambda>c. c \<noteq> CHR 0x00) s ! i \<noteq> CHR 0x00" by (rule set_takeWhileD[THEN conjunct2])
  moreover have "takeWhile (\<lambda>c. c \<noteq> CHR 0x00) s ! i = s ! i"
    using i unfolding strlen_def by (rule takeWhile_nth)
  moreover have "i < length s" using i strlen_le[of s] by simp
  ultimately show ?thesis by (simp add: sig_at_def)
qed








lemma store_or_check_dim_i:
  "store_or_check_dim signature i frozen_size can_ignore ix st = Inr st1 \<Longrightarrow> ps_i st1 = ps_i st"
  by (auto simp: store_or_check_dim_def Let_def split: if_splits)


























end
